theory Spec2Isabelle
  imports Main "HOL-Library.AList" "HOL-Library.Sublist"
begin

section \<open>Values\<close>

text \<open>
  The argument bag of a tool call arrives as parsed JSON. Numbers are only copied and
  compared by the code below, never computed with; they are modelled by integers.
\<close>

datatype json =
    JNull
  | JBool bool
  | JNum int
  | JStr string
  | JArr "json list"
  | JObj "(string \<times> json) list"

text \<open>
  What a property of a Command object can hold: \<open>undefined\<close> (the property is present,
  its value is \<open>undefined\<close>), a JSON value copied from the arguments, or a member
  inherited from \<open>Object.prototype\<close> (what \<open>table[key]\<close> yields for a key such
  as \<open>constructor\<close>).
\<close>

datatype jsval =
    Undefined
  | Val json
  | Builtin string

text \<open>An object is the list of its own properties in insertion order.\<close>

type_synonym jsobj = "(string \<times> jsval) list"

type_synonym args = "(string \<times> json) list"

text \<open>
  What can be thrown: an \<open>Error\<close> with its message, a \<open>TypeError\<close> raised by the
  engine (the message texts are those of V8), or a value that is not an \<open>Error\<close>, given
  by the string it converts to. \<open>message\<close> is what the \<open>catch\<close> blocks compute:
  \<open>error instanceof Error ? error.message : String(error)\<close>.
\<close>

datatype js_exn =
    Error string
  | TypeError string
  | Thrown string

fun message :: "js_exn \<Rightarrow> string" where
  "message (Error m) = m"
| "message (TypeError m) = m"
| "message (Thrown s) = s"

abbreviation str :: "string \<Rightarrow> jsval" where
  "str s \<equiv> Val (JStr s)"

text \<open>\<open>obj.k\<close> on an object: the own property, or \<open>undefined\<close>.\<close>

definition get :: "jsobj \<Rightarrow> string \<Rightarrow> jsval" where
  "get obj k = (case map_of obj k of None \<Rightarrow> Undefined | Some v \<Rightarrow> v)"

text \<open>\<open>args.k\<close> on an argument bag that is an object.\<close>

definition argv :: "args \<Rightarrow> string \<Rightarrow> jsval" where
  "argv a k = (case map_of a k of None \<Rightarrow> Undefined | Some v \<Rightarrow> Val v)"

text \<open>\<open>if (args.k !== undefined) cmd.k = args.k;\<close>, and a run of such statements.\<close>

definition copy_if_defined :: "args \<Rightarrow> string \<Rightarrow> jsobj \<Rightarrow> jsobj" where
  "copy_if_defined a k cmd =
     (case map_of a k of None \<Rightarrow> cmd | Some v \<Rightarrow> AList.update k (Val v) cmd)"

definition copy_fields :: "args \<Rightarrow> string list \<Rightarrow> jsobj \<Rightarrow> jsobj" where
  "copy_fields a ks cmd = foldl (\<lambda>c k. copy_if_defined a k c) cmd ks"

text \<open>\<open>{ ...obj, ...args }\<close>: every own property of the arguments is defined on the copy.\<close>

definition spread :: "jsobj \<Rightarrow> args option \<Rightarrow> jsobj" where
  "spread obj args =
     (case args of
        None \<Rightarrow> obj
      | Some a \<Rightarrow> foldl (\<lambda>acc kv. AList.update (fst kv) (Val (snd kv)) acc) obj a)"

subsection \<open>Conversion to a property key\<close>

definition digit_chars :: string where
  "digit_chars = ''0123456789''"

fun digits :: "nat \<Rightarrow> string" where
  "digits n = (if n < 10 then [digit_chars ! n] else digits (n div 10) @ [digit_chars ! (n mod 10)])"

declare digits.simps [simp del]

definition show_int :: "int \<Rightarrow> string" where
  "show_int i = (if i < 0 then CHR ''-'' # digits (nat (- i)) else digits (nat i))"

fun join_comma :: "string list \<Rightarrow> string" where
  "join_comma [] = []"
| "join_comma [s] = s"
| "join_comma (s # t # ss) = s @ '','' @ join_comma (t # ss)"

text \<open>
  \<open>ToString\<close> of a JSON value; \<open>None\<close> when it throws a TypeError. An array joins its
  elements with commas, \<open>null\<close> elements giving the empty string. An object gives
  \<open>[object Object]\<close> through \<open>Object.prototype.toString\<close>, unless an own property
  \<open>toString\<close> (never callable in parsed JSON) hides it: then no conversion yields a
  primitive and the conversion throws.
\<close>

fun to_string :: "json \<Rightarrow> string option"
  and elems_to_strings :: "json list \<Rightarrow> string list option" where
  "to_string JNull = Some ''null''"
| "to_string (JBool b) = Some (if b then ''true'' else ''false'')"
| "to_string (JNum i) = Some (show_int i)"
| "to_string (JStr s) = Some s"
| "to_string (JArr xs) = map_option join_comma (elems_to_strings xs)"
| "to_string (JObj kvs) =
     (if ''toString'' \<in> set (map fst kvs) then None else Some ''[object Object]'')"
| "elems_to_strings [] = Some []"
| "elems_to_strings (x # xs) =
     (case (if x = JNull then Some [] else to_string x) of
        None \<Rightarrow> None
      | Some s \<Rightarrow> (case elems_to_strings xs of None \<Rightarrow> None | Some ss \<Rightarrow> Some (s # ss)))"

text \<open>
  The string a value read from the arguments converts to, as a property key or inside a
  template literal; the value is \<open>None\<close> when the property was absent (\<open>undefined\<close>).
\<close>

definition to_property_key :: "json option \<Rightarrow> string option" where
  "to_property_key v = (case v of None \<Rightarrow> Some ''undefined'' | Some j \<Rightarrow> to_string j)"

definition object_prototype_keys :: "string list" where
  "object_prototype_keys =
     [''constructor'', ''__defineGetter__'', ''__defineSetter__'', ''hasOwnProperty'',
      ''__lookupGetter__'', ''__lookupSetter__'', ''isPrototypeOf'', ''propertyIsEnumerable'',
      ''toString'', ''valueOf'', ''__proto__'', ''toLocaleString'']"

text \<open>
  \<open>table[k]\<close> on an object literal whose values are strings: the own entry, else the
  member inherited from \<open>Object.prototype\<close>, else \<open>undefined\<close>.
\<close>

definition table_lookup :: "(string \<times> string) list \<Rightarrow> string \<Rightarrow> jsval" where
  "table_lookup tbl k =
     (case map_of tbl k of
        Some a \<Rightarrow> str a
      | None \<Rightarrow> if k \<in> set object_prototype_keys then Builtin k else Undefined)"

text \<open>
  \<open>cmd[k] = v\<close> with a computed key: an own property, except for the key
  \<open>__proto__\<close>, which reaches the inherited setter and creates no own property.
\<close>

definition set_computed :: "string \<Rightarrow> jsval \<Rightarrow> jsobj \<Rightarrow> jsobj" where
  "set_computed k v cmd = (if k = ''__proto__'' then cmd else AList.update k v cmd)"

definition cannot_read :: "string \<Rightarrow> js_exn" where
  "cannot_read k = TypeError (''Cannot read properties of undefined (reading '' @ [CHR 0x27] @ k @ [CHR 0x27] @ '')'')"

definition cannot_convert :: js_exn where
  "cannot_convert = TypeError ''Cannot convert object to primitive value''"

section \<open>The tool-call mapper\<close>

text \<open>
  \<open>mapMergedToolToCommand\<close>, one definition for each \<open>case\<close> of its switch on the
  tool name. A case that reads a property of \<open>args\<close> throws when the call carried no
  arguments; spreading \<open>undefined\<close> copies nothing.
\<close>

definition with_args :: "string \<Rightarrow> (args \<Rightarrow> js_exn + jsobj) \<Rightarrow> args option \<Rightarrow> js_exn + jsobj" where
  "with_args k f args = (case args of None \<Rightarrow> Inl (cannot_read k) | Some a \<Rightarrow> f a)"

definition tool_history :: "args \<Rightarrow> jsobj" where
  "tool_history a = [(''action'', argv a ''action'')]"

definition tool_page_info :: "args \<Rightarrow> jsobj" where
  "tool_page_info a =
     [(''action'', str (if map_of a ''info'' = Some (JStr ''url'') then ''url'' else ''title''))]"

definition tool_element_action :: "args \<Rightarrow> jsobj" where
  "tool_element_action a =
     copy_fields a [''button'', ''clickCount'']
       [(''action'', argv a ''action''), (''selector'', argv a ''selector'')]"

definition tool_input :: "args \<Rightarrow> jsobj" where
  "tool_input a =
     (if map_of a ''action'' = Some (JStr ''fill'')
      then [(''action'', str ''fill''), (''selector'', argv a ''selector''), (''value'', argv a ''value'')]
      else copy_fields a [''delay'']
             [(''action'', str ''type''), (''selector'', argv a ''selector''), (''text'', argv a ''value'')])"

definition tool_input_action :: "args \<Rightarrow> jsobj" where
  "tool_input_action a = [(''action'', argv a ''action''), (''selector'', argv a ''selector'')]"

definition tool_press :: "args \<Rightarrow> jsobj" where
  "tool_press a = copy_fields a [''selector''] [(''action'', str ''press''), (''key'', argv a ''key'')]"

definition tool_scroll :: "args \<Rightarrow> jsobj" where
  "tool_scroll a =
     (if map_of a ''action'' = Some (JStr ''scroll_into_view'')
      then [(''action'', str ''scroll_into_view''), (''selector'', argv a ''selector'')]
      else copy_fields a [''selector'', ''direction'', ''amount'', ''x'', ''y'']
             [(''action'', str ''scroll'')])"

definition findByActionMap :: "(string \<times> string) list" where
  "findByActionMap =
     [(''role'', ''find_by_role''), (''text'', ''find_by_text''), (''label'', ''find_by_label''),
      (''placeholder'', ''find_by_placeholder''), (''testId'', ''find_by_test_id''),
      (''title'', ''find_by_title''), (''altText'', ''find_by_alt_text''), (''nth'', ''find_nth'')]"

text \<open>\<open>args.index ?? 0\<close>\<close>

definition index_or_zero :: "args \<Rightarrow> jsval" where
  "index_or_zero a =
     (case map_of a ''index'' of None \<Rightarrow> Val (JNum 0) | Some JNull \<Rightarrow> Val (JNum 0) | Some v \<Rightarrow> Val v)"

definition tool_find :: "args \<Rightarrow> js_exn + jsobj" where
  "tool_find a =
     (let method = map_of a ''method'' in
      case to_property_key method of
        None \<Rightarrow> Inl cannot_convert
      | Some mk \<Rightarrow>
          let findCmd = [(''action'', table_lookup findByActionMap mk)];
              findCmd =
                (if method = Some (JStr ''nth'')
                 then AList.update ''index'' (index_or_zero a)
                        (AList.update ''selector'' (argv a ''selector'') findCmd)
                 else copy_fields a [''exact'']
                        (set_computed
                           (if method = Some (JStr ''testId'') then ''testId''
                            else if method = Some (JStr ''altText'') then ''text'' else mk)
                           (argv a ''value'') findCmd));
              findCmd =
                (if map_of a ''action'' \<noteq> None
                 then let c = AList.update ''action'' (argv a ''action'') findCmd in
                      if map_of a ''action'' = Some (JStr ''fill'') \<and> map_of a ''fillValue'' \<noteq> None
                      then AList.update ''value'' (argv a ''fillValue'') c else c
                 else findCmd)
          in Inr findCmd)"

definition getActionMap :: "(string \<times> string) list" where
  "getActionMap =
     [(''text'', ''get_text''), (''innerText'', ''get_inner_text''),
      (''innerHtml'', ''get_inner_html''), (''html'', ''content''), (''value'', ''get_value''),
      (''attribute'', ''get_attribute''), (''boundingBox'', ''bounding_box''), (''count'', ''count'')]"

definition tool_get :: "args \<Rightarrow> js_exn + jsobj" where
  "tool_get a =
     (let prop = map_of a ''property'' in
      case to_property_key prop of
        None \<Rightarrow> Inl cannot_convert
      | Some pk \<Rightarrow>
          let getCmd = [(''action'', table_lookup getActionMap pk), (''selector'', argv a ''selector'')]
          in Inr (if prop = Some (JStr ''attribute'')
                  then AList.update ''attribute'' (argv a ''attribute'') getCmd else getCmd))"

definition stateActionMap :: "(string \<times> string) list" where
  "stateActionMap =
     [(''visible'', ''is_visible''), (''enabled'', ''is_enabled''), (''checked'', ''is_checked'')]"

definition tool_check_state :: "args \<Rightarrow> js_exn + jsobj" where
  "tool_check_state a =
     (case to_property_key (map_of a ''state'') of
        None \<Rightarrow> Inl cannot_convert
      | Some sk \<Rightarrow>
          Inr [(''action'', table_lookup stateActionMap sk), (''selector'', argv a ''selector'')])"

definition storageActionMap :: "(string \<times> string) list" where
  "storageActionMap = [(''get'', ''get''), (''set'', ''set''), (''clear'', ''clear'')]"

definition tool_storage :: "args \<Rightarrow> js_exn + jsobj" where
  "tool_storage a =
     (case to_property_key (map_of a ''action'') of
        None \<Rightarrow> Inl cannot_convert
      | Some ak \<Rightarrow>
          Inr (copy_fields a [''key'', ''value'']
                 [(''action'', table_lookup storageActionMap ak), (''type'', argv a ''type'')]))"

definition tool_cookies :: "args \<Rightarrow> jsobj" where
  "tool_cookies a =
     (if map_of a ''action'' = Some (JStr ''get'')
      then copy_fields a [''urls''] [(''action'', str ''get'')]
      else [(''action'', str ''set''), (''cookies'', argv a ''cookies'')])"

definition tool_state :: "args \<Rightarrow> jsobj" where
  "tool_state a =
     [(''action'', str (if map_of a ''action'' = Some (JStr ''save'') then ''state_save'' else ''state_load'')),
      (''path'', argv a ''path'')]"

text \<open>The inner switch starts from the empty object; a setting it has no case for leaves it empty.\<close>

definition tool_set_context :: "args \<Rightarrow> jsobj" where
  "tool_set_context a =
     (let setting = map_of a ''setting'' in
      if setting = Some (JStr ''device'')
      then [(''action'', str ''set_device''), (''device'', argv a ''device'')]
      else if setting = Some (JStr ''viewport'')
      then [(''action'', str ''set_viewport''), (''width'', argv a ''width''), (''height'', argv a ''height'')]
      else if setting = Some (JStr ''geolocation'')
      then copy_fields a [''accuracy'']
             [(''action'', str ''set_geolocation''), (''latitude'', argv a ''latitude''),
              (''longitude'', argv a ''longitude'')]
      else if setting = Some (JStr ''locale'')
      then [(''action'', str ''set_locale''), (''locale'', argv a ''locale'')]
      else if setting = Some (JStr ''timezone'')
      then [(''action'', str ''set_timezone''), (''timezone'', argv a ''timezone'')]
      else if setting = Some (JStr ''offline'')
      then [(''action'', str ''set_offline''), (''offline'', argv a ''offline'')]
      else if setting = Some (JStr ''media'')
      then copy_fields a [''media'', ''colorScheme'', ''reducedMotion'']
             [(''action'', str ''emulate_media'')]
      else if setting = Some (JStr ''headers'')
      then [(''action'', str ''set_headers''), (''headers'', argv a ''headers'')]
      else if setting = Some (JStr ''credentials'')
      then [(''action'', str ''set_credentials''), (''username'', argv a ''username''),
            (''password'', argv a ''password'')]
      else [])"

definition tool_dialog :: "args \<Rightarrow> jsobj" where
  "tool_dialog a =
     copy_fields a [''promptText'']
       [(''action'', str (if map_of a ''action'' = Some (JStr ''accept'') then ''dialog_accept'' else ''dialog_dismiss''))]"

definition tool_mouse :: "args \<Rightarrow> jsobj" where
  "tool_mouse a =
     copy_fields a [''button'', ''x'', ''y'', ''deltaX'', ''deltaY'', ''selector'']
       [(''action'',
         str (if map_of a ''action'' = Some (JStr ''down'') then ''mouse_down''
              else if map_of a ''action'' = Some (JStr ''up'') then ''mouse_up''
              else if map_of a ''action'' = Some (JStr ''move'') then ''mouse_move'' else ''wheel''))]"

definition tool_keyboard_raw :: "args \<Rightarrow> jsobj" where
  "tool_keyboard_raw a =
     (if map_of a ''action'' = Some (JStr ''shortcut'')
      then [(''action'', str ''keyboard''), (''keys'', argv a ''keys'')]
      else [(''action'', str (if map_of a ''action'' = Some (JStr ''down'') then ''key_down'' else ''key_up'')),
            (''key'', argv a ''key'')])"

definition tool_network :: "args \<Rightarrow> jsobj" where
  "tool_network a =
     (if map_of a ''action'' = Some (JStr ''requests'')
      then copy_fields a [''filter'', ''clear''] [(''action'', str ''requests'')]
      else if map_of a ''action'' = Some (JStr ''route'')
      then copy_fields a [''abort'', ''response''] [(''action'', str ''route''), (''url'', argv a ''url'')]
      else [(''action'', str ''unroute''), (''url'', argv a ''url'')])"

definition tool_response_body :: "args \<Rightarrow> jsobj" where
  "tool_response_body a =
     copy_fields a [''timeout''] [(''action'', str ''response_body''), (''url'', argv a ''url'')]"

definition tool_evaluate :: "args \<Rightarrow> jsobj" where
  "tool_evaluate a =
     copy_fields a [''args''] [(''action'', str ''evaluate''), (''script'', argv a ''script'')]"

definition tool_set_content :: "args \<Rightarrow> jsobj" where
  "tool_set_content a = [(''action'', str ''set_content''), (''html'', argv a ''html'')]"

definition tool_add_init_script :: "args \<Rightarrow> jsobj" where
  "tool_add_init_script a = [(''action'', str ''add_init_script''), (''script'', argv a ''script'')]"

definition tool_dispatch_event :: "args \<Rightarrow> jsobj" where
  "tool_dispatch_event a =
     copy_fields a [''eventInit'']
       [(''action'', str ''dispatch_event''), (''selector'', argv a ''selector''),
        (''event'', argv a ''event'')]"

definition tool_logs :: "args \<Rightarrow> jsobj" where
  "tool_logs a = [(''action'', argv a ''type''), (''clear'', argv a ''clear'')]"

definition tool_highlight :: "args \<Rightarrow> jsobj" where
  "tool_highlight a = [(''action'', str ''highlight''), (''selector'', argv a ''selector'')]"

definition tool_styles :: "args \<Rightarrow> jsobj" where
  "tool_styles a = [(''action'', str ''styles''), (''selector'', argv a ''selector'')]"

definition tool_screencast :: "args \<Rightarrow> jsobj" where
  "tool_screencast a =
     copy_fields a [''format'', ''quality'', ''maxWidth'', ''maxHeight'']
       [(''action'', str (if map_of a ''action'' = Some (JStr ''start'') then ''screencast_start'' else ''screencast_stop''))]"

definition tool_trace :: "args \<Rightarrow> jsobj" where
  "tool_trace a =
     (let traceCmd =
            [(''action'', str (if map_of a ''action'' = Some (JStr ''start'') then ''trace_start'' else ''trace_stop''))]
      in if map_of a ''action'' = Some (JStr ''start'')
         then copy_fields a [''screenshots'', ''snapshots''] traceCmd
         else AList.update ''path'' (argv a ''path'') traceCmd)"

definition tool_recording :: "args \<Rightarrow> jsobj" where
  "tool_recording a =
     (let recAction =
            (if map_of a ''action'' = Some (JStr ''start'') then ''recording_start''
             else if map_of a ''action'' = Some (JStr ''stop'') then ''recording_stop''
             else ''recording_restart'')
      in copy_fields a [''path'', ''url''] [(''action'', str recAction)])"

definition tool_har :: "args \<Rightarrow> jsobj" where
  "tool_har a =
     (let harCmd =
            [(''action'', str (if map_of a ''action'' = Some (JStr ''start'') then ''har_start'' else ''har_stop''))]
      in if map_of a ''action'' = Some (JStr ''stop'')
         then AList.update ''path'' (argv a ''path'') harCmd else harCmd)"

definition tool_tab :: "args \<Rightarrow> js_exn + jsobj" where
  "tool_tab a =
     (case to_property_key (map_of a ''action'') of
        None \<Rightarrow> Inl cannot_convert
      | Some s \<Rightarrow> Inr (copy_fields a [''index'', ''url''] [(''action'', str (''tab_'' @ s))]))"

definition tool_window :: "args \<Rightarrow> jsobj" where
  "tool_window a =
     (if map_of a ''action'' = Some (JStr ''new'')
      then let winCmd = [(''action'', str ''window_new'')]
           in if map_of a ''viewportWidth'' \<noteq> None \<or> map_of a ''viewportHeight'' \<noteq> None
              then AList.update ''viewport''
                     (Val (JObj
                        ((case map_of a ''viewportWidth'' of None \<Rightarrow> [] | Some w \<Rightarrow> [(''width'', w)]) @
                         (case map_of a ''viewportHeight'' of None \<Rightarrow> [] | Some h \<Rightarrow> [(''height'', h)]))))
                     winCmd
              else winCmd
      else [(''action'', str ''bring_to_front'')])"

definition tool_frame :: "args \<Rightarrow> jsobj" where
  "tool_frame a =
     (if map_of a ''action'' = Some (JStr ''main'')
      then [(''action'', str ''main_frame'')]
      else copy_fields a [''selector'', ''name'', ''url''] [(''action'', str ''frame'')])"

definition tool_pdf :: "args \<Rightarrow> jsobj" where
  "tool_pdf a = copy_fields a [''format''] [(''action'', str ''pdf''), (''path'', argv a ''path'')]"

definition tool_download :: "args \<Rightarrow> jsobj" where
  "tool_download a =
     [(''action'', str ''download''), (''selector'', argv a ''selector''), (''path'', argv a ''path'')]"

definition tool_wait :: "args \<Rightarrow> jsobj" where
  "tool_wait a = copy_fields a [''selector'', ''timeout'', ''state''] [(''action'', str ''wait'')]"

definition waitForActionMap :: "(string \<times> string) list" where
  "waitForActionMap =
     [(''url'', ''wait_for_url''), (''load_state'', ''wait_for_load_state''),
      (''function'', ''wait_for_function''), (''download'', ''wait_for_download'')]"

definition tool_wait_for :: "args \<Rightarrow> js_exn + jsobj" where
  "tool_wait_for a =
     (case to_property_key (map_of a ''condition'') of
        None \<Rightarrow> Inl cannot_convert
      | Some ck \<Rightarrow>
          Inr (copy_fields a [''url'', ''state'', ''expression'', ''path'', ''timeout'']
                 [(''action'', table_lookup waitForActionMap ck)]))"

definition tool_clipboard :: "args \<Rightarrow> jsobj" where
  "tool_clipboard a =
     copy_fields a [''text''] [(''action'', str ''clipboard''), (''operation'', argv a ''action'')]"

definition tool_upload :: "args \<Rightarrow> jsobj" where
  "tool_upload a =
     [(''action'', str ''upload''), (''selector'', argv a ''selector''), (''files'', argv a ''files'')]"

definition tool_drag :: "args \<Rightarrow> jsobj" where
  "tool_drag a = [(''action'', str ''drag''), (''source'', argv a ''source''), (''target'', argv a ''target'')]"

definition tool_select :: "args \<Rightarrow> jsobj" where
  "tool_select a =
     [(''action'', str ''select''), (''selector'', argv a ''selector''), (''values'', argv a ''values'')]"

definition tool_multiselect :: "args \<Rightarrow> jsobj" where
  "tool_multiselect a =
     [(''action'', str ''multiselect''), (''selector'', argv a ''selector''), (''values'', argv a ''values'')]"

definition tool_set_value :: "args \<Rightarrow> jsobj" where
  "tool_set_value a =
     [(''action'', str ''set_value''), (''selector'', argv a ''selector''), (''value'', argv a ''value'')]"

definition tool_ios_swipe :: "args \<Rightarrow> jsobj" where
  "tool_ios_swipe a =
     copy_fields a [''distance''] [(''action'', str ''swipe''), (''direction'', argv a ''direction'')]"

text \<open>
  The switch on the tool name. The cases are in the order of the source; \<open>default\<close>
  throws.
\<close>

definition mapMergedToolToCommand :: "string \<Rightarrow> args option \<Rightarrow> js_exn + jsobj" where
  "mapMergedToolToCommand name args =
     (if name = ''browser_launch'' then Inr (spread [(''action'', str ''launch'')] args)
      else if name = ''browser_navigate'' then Inr (spread [(''action'', str ''navigate'')] args)
      else if name = ''browser_snapshot'' then Inr (spread [(''action'', str ''snapshot'')] args)
      else if name = ''browser_screenshot'' then Inr (spread [(''action'', str ''screenshot'')] args)
      else if name = ''browser_close'' then Inr (spread [(''action'', str ''close'')] args)
      else if name = ''browser_history'' then with_args ''action'' (\<lambda>a. Inr (tool_history a)) args
      else if name = ''browser_page_info'' then with_args ''info'' (\<lambda>a. Inr (tool_page_info a)) args
      else if name = ''browser_element_action'' then with_args ''action'' (\<lambda>a. Inr (tool_element_action a)) args
      else if name = ''browser_input'' then with_args ''action'' (\<lambda>a. Inr (tool_input a)) args
      else if name = ''browser_input_action'' then with_args ''action'' (\<lambda>a. Inr (tool_input_action a)) args
      else if name = ''browser_press'' then with_args ''key'' (\<lambda>a. Inr (tool_press a)) args
      else if name = ''browser_scroll'' then with_args ''action'' (\<lambda>a. Inr (tool_scroll a)) args
      else if name = ''browser_find'' then with_args ''method'' tool_find args
      else if name = ''browser_get'' then with_args ''property'' tool_get args
      else if name = ''browser_check_state'' then with_args ''state'' tool_check_state args
      else if name = ''browser_storage'' then with_args ''action'' tool_storage args
      else if name = ''browser_cookies'' then with_args ''action'' (\<lambda>a. Inr (tool_cookies a)) args
      else if name = ''browser_state'' then with_args ''action'' (\<lambda>a. Inr (tool_state a)) args
      else if name = ''browser_set_context'' then with_args ''setting'' (\<lambda>a. Inr (tool_set_context a)) args
      else if name = ''browser_dialog'' then with_args ''action'' (\<lambda>a. Inr (tool_dialog a)) args
      else if name = ''browser_mouse'' then with_args ''action'' (\<lambda>a. Inr (tool_mouse a)) args
      else if name = ''browser_keyboard_raw'' then with_args ''action'' (\<lambda>a. Inr (tool_keyboard_raw a)) args
      else if name = ''browser_network'' then with_args ''action'' (\<lambda>a. Inr (tool_network a)) args
      else if name = ''browser_response_body'' then with_args ''url'' (\<lambda>a. Inr (tool_response_body a)) args
      else if name = ''browser_evaluate'' then with_args ''script'' (\<lambda>a. Inr (tool_evaluate a)) args
      else if name = ''browser_set_content'' then with_args ''html'' (\<lambda>a. Inr (tool_set_content a)) args
      else if name = ''browser_add_script'' then Inr (spread [(''action'', str ''add_script'')] args)
      else if name = ''browser_add_style'' then Inr (spread [(''action'', str ''add_style'')] args)
      else if name = ''browser_add_init_script'' then with_args ''script'' (\<lambda>a. Inr (tool_add_init_script a)) args
      else if name = ''browser_dispatch_event'' then with_args ''selector'' (\<lambda>a. Inr (tool_dispatch_event a)) args
      else if name = ''browser_logs'' then with_args ''type'' (\<lambda>a. Inr (tool_logs a)) args
      else if name = ''browser_highlight'' then with_args ''selector'' (\<lambda>a. Inr (tool_highlight a)) args
      else if name = ''browser_styles'' then with_args ''selector'' (\<lambda>a. Inr (tool_styles a)) args
      else if name = ''browser_screencast'' then with_args ''action'' (\<lambda>a. Inr (tool_screencast a)) args
      else if name = ''browser_trace'' then with_args ''action'' (\<lambda>a. Inr (tool_trace a)) args
      else if name = ''browser_recording'' then with_args ''action'' (\<lambda>a. Inr (tool_recording a)) args
      else if name = ''browser_har'' then with_args ''action'' (\<lambda>a. Inr (tool_har a)) args
      else if name = ''browser_tab'' then with_args ''action'' tool_tab args
      else if name = ''browser_window'' then with_args ''action'' (\<lambda>a. Inr (tool_window a)) args
      else if name = ''browser_frame'' then with_args ''action'' (\<lambda>a. Inr (tool_frame a)) args
      else if name = ''browser_pdf'' then with_args ''path'' (\<lambda>a. Inr (tool_pdf a)) args
      else if name = ''browser_download'' then with_args ''selector'' (\<lambda>a. Inr (tool_download a)) args
      else if name = ''browser_wait'' then with_args ''selector'' (\<lambda>a. Inr (tool_wait a)) args
      else if name = ''browser_wait_for'' then with_args ''condition'' tool_wait_for args
      else if name = ''browser_clipboard'' then with_args ''action'' (\<lambda>a. Inr (tool_clipboard a)) args
      else if name = ''browser_upload'' then with_args ''selector'' (\<lambda>a. Inr (tool_upload a)) args
      else if name = ''browser_drag'' then with_args ''source'' (\<lambda>a. Inr (tool_drag a)) args
      else if name = ''browser_select'' then with_args ''selector'' (\<lambda>a. Inr (tool_select a)) args
      else if name = ''browser_multiselect'' then with_args ''selector'' (\<lambda>a. Inr (tool_multiselect a)) args
      else if name = ''browser_set_value'' then with_args ''selector'' (\<lambda>a. Inr (tool_set_value a)) args
      else if name = ''browser_ios_device_list'' then Inr [(''action'', str ''device_list'')]
      else if name = ''browser_ios_swipe'' then with_args ''direction'' (\<lambda>a. Inr (tool_ios_swipe a)) args
      else Inl (Error (''Unknown merged tool: '' @ name)))"

text \<open>
  The case \<open>browser_emulate_media\<close> of the unmerged tool handler, which builds its command
  in place; \<open>gid\<close> is the identifier it generates.
\<close>

definition unmerged_emulate_media :: "string \<Rightarrow> args \<Rightarrow> jsobj" where
  "unmerged_emulate_media gid a =
     [(''id'', str gid),
      (''action'', str ''emulatemedia''),
      (''media'', if map_of a ''media'' = Some (JStr ''null'') then Val JNull else argv a ''media''),
      (''colorScheme'',
         if map_of a ''colorScheme'' = Some (JStr ''null'') then Val JNull else argv a ''colorScheme''),
      (''reducedMotion'',
         if map_of a ''reducedMotion'' = Some (JStr ''null'') then Val JNull else argv a ''reducedMotion'')]"

section \<open>Session manager and dispatcher\<close>

text \<open>
  The manager classes and the command executors are imported by the server and are not
  part of it. They are parameters here: a manager instance has a class, an address and a
  state of type \<open>'d\<close> that only the platform's functions read and change. A method that
  returns a promise yields \<open>Some e\<close> (or \<open>Inl e\<close>) when the promise rejects with \<open>e\<close>.
  \<open>stringify j\<close> is \<open>JSON.stringify(j, null, 2)\<close>.
\<close>

datatype kind = BrowserManager | IOSManager

datatype response = Success "json option" | Failure string

record 'd platform =
  new_state :: "kind \<Rightarrow> 'd"
  isLaunched :: "kind \<Rightarrow> 'd \<Rightarrow> bool"
  launch :: "kind \<Rightarrow> jsobj \<Rightarrow> 'd \<Rightarrow> js_exn option \<times> 'd"
  close :: "kind \<Rightarrow> 'd \<Rightarrow> js_exn option \<times> 'd"
  executeCommand :: "jsobj \<Rightarrow> 'd \<Rightarrow> (js_exn + response) \<times> 'd"
  executeIOSCommand :: "jsobj \<Rightarrow> 'd \<Rightarrow> (js_exn + response) \<times> 'd"
  stringify :: "json \<Rightarrow> string"

type_synonym ref = "nat \<times> kind"

text \<open>
  The calls the server makes on manager instances, recorded in order: a construction, a
  \<open>close()\<close>, a \<open>launch()\<close> (the server launches only from \<open>ensureBrowserLaunched\<close>),
  and a command handed to an executor.
\<close>

datatype event =
    Constructed nat kind
  | CloseCalled nat
  | AutoLaunch nat jsobj
  | Executed nat jsobj

text \<open>
  The process: the instances allocated so far, the module-level variable \<open>manager\<close>, the
  environment variables the server reads, and the values \<open>Math.random\<close> will produce (as
  the identifiers \<open>generateId\<close> makes of them).
\<close>

record 'd world =
  heap :: "nat \<Rightarrow> 'd"
  next_addr :: nat
  manager :: "ref option"
  env_provider :: "string option"
  env_executable_path :: "string option"
  random_ids :: "nat \<Rightarrow> string"
  draws :: nat
  trace :: "event list"

definition env_val :: "string option \<Rightarrow> jsval" where
  "env_val e = (case e of None \<Rightarrow> Undefined | Some s \<Rightarrow> str s)"

text \<open>\<open>(provider ?? process.env.AGENT_BROWSER_PROVIDER) === 'ios'\<close>\<close>

definition isIOSProvider :: "jsval \<Rightarrow> 'd world \<Rightarrow> bool" where
  "isIOSProvider provider w =
     ((case provider of
         Undefined \<Rightarrow> env_val (env_provider w)
       | Val JNull \<Rightarrow> env_val (env_provider w)
       | v \<Rightarrow> v) = str ''ios'')"

definition new_manager :: "'d platform \<Rightarrow> kind \<Rightarrow> 'd world \<Rightarrow> ref \<times> 'd world" where
  "new_manager d k w =
     (let a = next_addr w
      in ((a, k),
          w\<lparr>heap := (heap w)(a := new_state d k), next_addr := Suc a,
            trace := trace w @ [Constructed a k]\<rparr>))"

definition call_close :: "'d platform \<Rightarrow> ref \<Rightarrow> 'd world \<Rightarrow> js_exn option \<times> 'd world" where
  "call_close d m w =
     (let (r, s) = close d (snd m) (heap w (fst m))
      in (r, w\<lparr>heap := (heap w)(fst m := s), trace := trace w @ [CloseCalled (fst m)]\<rparr>))"

definition call_launch :: "'d platform \<Rightarrow> ref \<Rightarrow> jsobj \<Rightarrow> 'd world \<Rightarrow> js_exn option \<times> 'd world" where
  "call_launch d m opts w =
     (let (r, s) = launch d (snd m) opts (heap w (fst m))
      in (r, w\<lparr>heap := (heap w)(fst m := s), trace := trace w @ [AutoLaunch (fst m) opts]\<rparr>))"

text \<open>\<open>m instanceof IOSManager ? executeIOSCommand(command, m) : executeCommand(command, m)\<close>\<close>

definition call_execute ::
  "'d platform \<Rightarrow> jsobj \<Rightarrow> ref \<Rightarrow> 'd world \<Rightarrow> (js_exn + response) \<times> 'd world" where
  "call_execute d command m w =
     (let (r, s) = (if snd m = IOSManager then executeIOSCommand d command (heap w (fst m))
                    else executeCommand d command (heap w (fst m)))
      in (r, w\<lparr>heap := (heap w)(fst m := s), trace := trace w @ [Executed (fst m) command]\<rparr>))"

text \<open>The rejection of \<open>manager.close()\<close> is dropped by \<open>.catch(() => {})\<close>.\<close>

definition getManager :: "'d platform \<Rightarrow> jsval \<Rightarrow> 'd world \<Rightarrow> ref \<times> 'd world" where
  "getManager d provider w =
     (let shouldUseIOS = isIOSProvider provider w
      in case manager w of
           None \<Rightarrow>
             (let (m, w1) = new_manager d (if shouldUseIOS then IOSManager else BrowserManager) w
              in (m, w1\<lparr>manager := Some m\<rparr>))
         | Some cur \<Rightarrow>
             (let isCurrentIOS = (snd cur = IOSManager)
              in if shouldUseIOS \<noteq> isCurrentIOS
                 then (let (r, w1) = call_close d cur w;
                           (m, w2) = new_manager d (if shouldUseIOS then IOSManager else BrowserManager) w1
                       in (m, w2\<lparr>manager := Some m\<rparr>))
                 else (cur, w)))"

definition ensureBrowserLaunched :: "'d platform \<Rightarrow> bool \<Rightarrow> 'd world \<Rightarrow> js_exn option \<times> 'd world" where
  "ensureBrowserLaunched d headless w =
     (let (m, w1) = getManager d Undefined w
      in if \<not> isLaunched d (snd m) (heap w1 (fst m))
         then (if snd m = IOSManager
               then call_launch d m [] w1
               else call_launch d m
                      [(''id'', str ''mcp-launch''),
                       (''action'', str ''launch''),
                       (''headless'', Val (JBool headless)),
                       (''executablePath'', env_val (env_executable_path w1)),
                       (''provider'', env_val (env_provider w1))] w1)
         else (None, w1))"

subsection \<open>Responses\<close>

text \<open>
  A content item's \<open>text\<close> is whatever the expression evaluates to
  (\<open>JSON.stringify(undefined)\<close> is \<open>undefined\<close>). \<open>isError = False\<close> stands for a response
  without that property.
\<close>

record content_item =
  item_type :: string
  item_text :: jsval

record tool_response =
  content :: "content_item list"
  isError :: bool

definition text_item :: "jsval \<Rightarrow> content_item" where
  "text_item t = \<lparr>item_type = ''text'', item_text = t\<rparr>"

definition error_text :: "string \<Rightarrow> tool_response" where
  "error_text msg = \<lparr>content = [text_item (str (''Error: '' @ msg))], isError = False\<rparr>"

definition truthy :: "json option \<Rightarrow> bool" where
  "truthy v =
     (case v of
        None \<Rightarrow> False
      | Some JNull \<Rightarrow> False
      | Some (JBool b) \<Rightarrow> b
      | Some (JNum n) \<Rightarrow> n \<noteq> 0
      | Some (JStr s) \<Rightarrow> s \<noteq> []
      | Some _ \<Rightarrow> True)"

text \<open>\<open>data.k\<close> for one of the keys \<open>base64\<close>, \<open>path\<close>, \<open>html\<close>: throws on \<open>undefined\<close> and \<open>null\<close>.\<close>

definition data_prop :: "json option \<Rightarrow> string \<Rightarrow> js_exn + json option" where
  "data_prop data k =
     (case data of
        None \<Rightarrow> Inl (cannot_read k)
      | Some JNull \<Rightarrow> Inl (TypeError (''Cannot read properties of null (reading '' @ [CHR 0x27] @ k @ [CHR 0x27] @ '')''))
      | Some (JObj kvs) \<Rightarrow> Inr (map_of kvs k)
      | Some _ \<Rightarrow> Inr None)"

definition stringify_val :: "'d platform \<Rightarrow> json option \<Rightarrow> jsval" where
  "stringify_val d data = (case data of None \<Rightarrow> Undefined | Some j \<Rightarrow> str (stringify d j))"

definition ok_response :: "content_item list \<Rightarrow> js_exn + tool_response" where
  "ok_response items = Inr \<lparr>content = items, isError = False\<rparr>"

text \<open>The branch \<open>if (response.success)\<close> of \<open>execute\<close>.\<close>

definition success_response :: "'d platform \<Rightarrow> jsobj \<Rightarrow> json option \<Rightarrow> js_exn + tool_response" where
  "success_response d command data =
     (if get command ''action'' = str ''snapshot''
      then ok_response [text_item (case data of Some (JStr s) \<Rightarrow> str s | _ \<Rightarrow> stringify_val d data)]
      else
        (case (if get command ''action'' = str ''screenshot''
               then map_sum id (\<lambda>b. if truthy b then b else None) (data_prop data ''base64'')
               else Inr None) of
           Inl e \<Rightarrow> Inl e
         | Inr (Some (JStr b64)) \<Rightarrow>
             (case data_prop data ''path'' of
                Inl e \<Rightarrow> Inl e
              | Inr p \<Rightarrow>
                  (case (if truthy p then map_option (\<lambda>t. '' saved to '' @ t) (to_property_key p)
                         else Some []) of
                     None \<Rightarrow> Inl cannot_convert
                   | Some saved \<Rightarrow>
                       ok_response
                         [text_item (str (''Screenshot captured (base64: '' @ take 50 b64 @ ''...)'' @ saved)),
                          text_item (str (''Full base64 data: '' @ b64))]))
         | Inr (Some other) \<Rightarrow> Inl (TypeError ''data.base64.substring is not a function'')
         | Inr None \<Rightarrow>
             (if get command ''action'' = str ''content''
              then (case data_prop data ''html'' of
                      Inl e \<Rightarrow> Inl e
                    | Inr h \<Rightarrow>
                        if truthy h then ok_response [text_item (case h of Some v \<Rightarrow> Val v | None \<Rightarrow> Undefined)]
                        else (case to_property_key data of
                                None \<Rightarrow> Inl cannot_convert
                              | Some t \<Rightarrow> ok_response [text_item (str t)]))
              else ok_response [text_item (stringify_val d data)])))"

definition launch_exempt :: "jsval \<Rightarrow> bool" where
  "launch_exempt action =
     (action = str ''launch'' \<or> action = str ''close'' \<or> action = str ''device_list'' \<or>
      action = str ''video_start'' \<or> action = str ''video_stop'')"

text \<open>The first statement of the \<open>try\<close> block: "Auto-launch browser if needed".\<close>

definition auto_launch :: "'d platform \<Rightarrow> jsobj \<Rightarrow> ref \<Rightarrow> 'd world \<Rightarrow> js_exn option \<times> 'd world" where
  "auto_launch d command m w =
     (if \<not> isLaunched d (snd m) (heap w (fst m)) \<and> \<not> launch_exempt (get command ''action'')
      then ensureBrowserLaunched d True w else (None, w))"

text \<open>The body of the \<open>try\<close> block of \<open>execute\<close>; \<open>Inl e\<close> when it throws \<open>e\<close>.\<close>

definition try_execute ::
  "'d platform \<Rightarrow> jsobj \<Rightarrow> ref \<Rightarrow> 'd world \<Rightarrow> (js_exn + tool_response) \<times> 'd world" where
  "try_execute d command m w =
     (let (l, w1) = auto_launch d command m w
      in case l of
           Some e \<Rightarrow> (Inl e, w1)
         | None \<Rightarrow>
             (let (r, w2) = call_execute d command m w1
              in case r of
                   Inl e \<Rightarrow> (Inl e, w2)
                 | Inr (Failure err) \<Rightarrow> (Inr (error_text err), w2)
                 | Inr (Success data) \<Rightarrow> (success_response d command data, w2)))"

text \<open>\<open>command.action === 'launch' ? command.provider : undefined\<close>\<close>

definition launchProvider :: "jsobj \<Rightarrow> jsval" where
  "launchProvider command =
     (if get command ''action'' = str ''launch'' then get command ''provider'' else Undefined)"

text \<open>
  \<open>getManager\<close> is called before the \<open>try\<close>; the \<open>catch\<close> turns whatever the body
  throws into a response.
\<close>

definition execute :: "'d platform \<Rightarrow> jsobj \<Rightarrow> 'd world \<Rightarrow> tool_response \<times> 'd world" where
  "execute d command w =
     (let (m, w1) = getManager d (launchProvider command) w;
          (r, w2) = try_execute d command m w1
      in case r of
           Inr resp \<Rightarrow> (resp, w2)
         | Inl e \<Rightarrow> (error_text (message e), w2))"

text \<open>\<open>Math.random().toString(36).substring(7)\<close>\<close>

definition generateId :: "'d world \<Rightarrow> string \<times> 'd world" where
  "generateId w = (random_ids w (draws w), w\<lparr>draws := Suc (draws w)\<rparr>)"

definition handleToolCall ::
  "'d platform \<Rightarrow> string \<Rightarrow> args option \<Rightarrow> 'd world \<Rightarrow> (js_exn + tool_response) \<times> 'd world" where
  "handleToolCall d name args w =
     (case mapMergedToolToCommand name args of
        Inl e \<Rightarrow> (Inl e, w)
      | Inr mappedCmd \<Rightarrow>
          (let (gid, w0) = generateId w;
               command = AList.update ''id'' (str gid) mappedCmd;
               (l, w1) = (if name \<noteq> ''browser_launch'' \<and> name \<noteq> ''browser_close'' \<and>
                             name \<noteq> ''browser_ios_device_list''
                          then ensureBrowserLaunched d True w0 else (None, w0))
           in case l of
                Some e \<Rightarrow> (Inl e, w1)
              | None \<Rightarrow> (let (resp, w2) = execute d command w1 in (Inr resp, w2))))"

text \<open>The handler that \<open>main\<close> registers for tool-call requests.\<close>

definition callToolRequest ::
  "'d platform \<Rightarrow> string \<Rightarrow> args option \<Rightarrow> 'd world \<Rightarrow> tool_response \<times> 'd world" where
  "callToolRequest d name args w =
     (case handleToolCall d name args w of
        (Inr resp, w1) \<Rightarrow> (resp, w1)
      | (Inl e, w1) \<Rightarrow>
          (\<lparr>content = [text_item (str (''Error: '' @ message e))], isError = True\<rparr>, w1))"

section \<open>The tool registry\<close>

text \<open>
  \<open>MERGED_TOOLS\<close>: for each tool its name, the properties its input schema declares at
  top level, each with its \<open>enum\<close> when it has one, and its \<open>required\<close> list.
  Descriptions, JSON types and the schemas of nested items are left out.
\<close>

record tool =
  tool_name :: string
  tool_properties :: "(string \<times> string list option) list"
  tool_required :: "string list"

definition MERGED_TOOLS :: "tool list" where
  "MERGED_TOOLS =
    [
     \<lparr>tool_name = ''browser_launch'',
       tool_properties =
        [(''headless'', None), (''browser'', Some [''chromium'', ''firefox'', ''webkit'']),
         (''cdpPort'', None), (''cdpUrl'', None), (''executablePath'', None), (''args'', None),
         (''userAgent'', None),
         (''provider'', Some [''ios'', ''browserbase'', ''browseruse'', ''kernel'']),
         (''ignoreHTTPSErrors'', None), (''profile'', None), (''storageState'', None),
         (''allowFileAccess'', None)],
       tool_required = []\<rparr>,
     \<lparr>tool_name = ''browser_navigate'',
       tool_properties =
        [(''url'', None), (''waitUntil'', Some [''load'', ''domcontentloaded'', ''networkidle'']),
         (''headers'', None)],
       tool_required = [''url'']\<rparr>,
     \<lparr>tool_name = ''browser_snapshot'',
       tool_properties =
        [(''interactiveOnly'', None), (''cursor'', None), (''compact'', None), (''depth'', None),
         (''selector'', None)],
       tool_required = []\<rparr>,
     \<lparr>tool_name = ''browser_screenshot'',
       tool_properties =
        [(''path'', None), (''fullPage'', None), (''selector'', None)],
       tool_required = []\<rparr>,
     \<lparr>tool_name = ''browser_close'',
       tool_properties =
        [],
       tool_required = []\<rparr>,
     \<lparr>tool_name = ''browser_history'',
       tool_properties =
        [(''action'', Some [''back'', ''forward'', ''reload''])],
       tool_required = [''action'']\<rparr>,
     \<lparr>tool_name = ''browser_page_info'',
       tool_properties =
        [(''info'', Some [''url'', ''title''])],
       tool_required = [''info'']\<rparr>,
     \<lparr>tool_name = ''browser_element_action'',
       tool_properties =
        [(''action'', Some [''click'', ''dblclick'', ''hover'', ''focus'', ''tap'']),
         (''selector'', None), (''button'', Some [''left'', ''right'', ''middle'']),
         (''clickCount'', None)],
       tool_required = [''action'', ''selector'']\<rparr>,
     \<lparr>tool_name = ''browser_input'',
       tool_properties =
        [(''action'', Some [''fill'', ''type'']), (''selector'', None), (''value'', None),
         (''delay'', None)],
       tool_required = [''action'', ''selector'', ''value'']\<rparr>,
     \<lparr>tool_name = ''browser_input_action'',
       tool_properties =
        [(''action'', Some [''check'', ''uncheck'', ''clear'', ''select_all'']),
         (''selector'', None)],
       tool_required = [''action'', ''selector'']\<rparr>,
     \<lparr>tool_name = ''browser_select'',
       tool_properties =
        [(''selector'', None), (''values'', None), (''multiSelect'', None)],
       tool_required = [''selector'', ''values'']\<rparr>,
     \<lparr>tool_name = ''browser_press'',
       tool_properties =
        [(''key'', None), (''selector'', None)],
       tool_required = [''key'']\<rparr>,
     \<lparr>tool_name = ''browser_scroll'',
       tool_properties =
        [(''action'', Some [''scroll'', ''scroll_into_view'']), (''selector'', None),
         (''direction'', Some [''up'', ''down'', ''left'', ''right'']), (''amount'', None),
         (''x'', None), (''y'', None)],
       tool_required = [''action'']\<rparr>,
     \<lparr>tool_name = ''browser_find'',
       tool_properties =
        [(''method'', Some [''role'', ''text'', ''label'', ''placeholder'', ''testId'', ''title'', ''altText'', ''nth'']),
         (''value'', None), (''exact'', None),
         (''action'', Some [''click'', ''hover'', ''fill'', ''check'']), (''fillValue'', None),
         (''index'', None), (''selector'', None)],
       tool_required = [''method'', ''value'']\<rparr>,
     \<lparr>tool_name = ''browser_get'',
       tool_properties =
        [(''property'', Some [''text'', ''innerText'', ''innerHtml'', ''html'', ''value'', ''attribute'', ''boundingBox'', ''count'']),
         (''selector'', None), (''attribute'', None)],
       tool_required = [''property'', ''selector'']\<rparr>,
     \<lparr>tool_name = ''browser_check_state'',
       tool_properties =
        [(''state'', Some [''visible'', ''enabled'', ''checked'']), (''selector'', None)],
       tool_required = [''state'', ''selector'']\<rparr>,
     \<lparr>tool_name = ''browser_storage'',
       tool_properties =
        [(''action'', Some [''get'', ''set'', ''clear'']),
         (''type'', Some [''local'', ''session'']), (''key'', None), (''value'', None)],
       tool_required = [''action'', ''type'']\<rparr>,
     \<lparr>tool_name = ''browser_cookies'',
       tool_properties =
        [(''action'', Some [''get'', ''set'']), (''cookies'', None), (''urls'', None)],
       tool_required = [''action'']\<rparr>,
     \<lparr>tool_name = ''browser_state'',
       tool_properties =
        [(''action'', Some [''save'', ''load'']), (''path'', None)],
       tool_required = [''action'', ''path'']\<rparr>,
     \<lparr>tool_name = ''browser_set_context'',
       tool_properties =
        [(''setting'', Some [''device'', ''viewport'', ''geolocation'', ''locale'', ''timezone'', ''offline'', ''media'', ''headers'', ''credentials'']),
         (''device'', None), (''width'', None), (''height'', None), (''latitude'', None),
         (''longitude'', None), (''accuracy'', None), (''locale'', None), (''timezone'', None),
         (''offline'', None), (''media'', Some [''screen'', ''print'']),
         (''colorScheme'', Some [''light'', ''dark'', ''no-preference'']),
         (''reducedMotion'', Some [''reduce'', ''no-preference'']), (''headers'', None),
         (''username'', None), (''password'', None)],
       tool_required = [''setting'']\<rparr>,
     \<lparr>tool_name = ''browser_dialog'',
       tool_properties =
        [(''action'', Some [''accept'', ''dismiss'']), (''promptText'', None)],
       tool_required = [''action'']\<rparr>,
     \<lparr>tool_name = ''browser_mouse'',
       tool_properties =
        [(''action'', Some [''down'', ''up'', ''move'', ''wheel'']),
         (''button'', Some [''left'', ''right'', ''middle'']), (''x'', None), (''y'', None),
         (''deltaX'', None), (''deltaY'', None), (''selector'', None)],
       tool_required = [''action'']\<rparr>,
     \<lparr>tool_name = ''browser_keyboard_raw'',
       tool_properties =
        [(''action'', Some [''down'', ''up'', ''shortcut'']), (''key'', None), (''keys'', None)],
       tool_required = [''action'']\<rparr>,
     \<lparr>tool_name = ''browser_network'',
       tool_properties =
        [(''action'', Some [''route'', ''unroute'', ''requests'']), (''url'', None),
         (''filter'', None), (''clear'', None), (''abort'', None), (''response'', None)],
       tool_required = [''action'']\<rparr>,
     \<lparr>tool_name = ''browser_response_body'',
       tool_properties =
        [(''url'', None), (''timeout'', None)],
       tool_required = [''url'']\<rparr>,
     \<lparr>tool_name = ''browser_evaluate'',
       tool_properties =
        [(''script'', None), (''args'', None)],
       tool_required = [''script'']\<rparr>,
     \<lparr>tool_name = ''browser_set_content'',
       tool_properties =
        [(''html'', None)],
       tool_required = [''html'']\<rparr>,
     \<lparr>tool_name = ''browser_add_script'',
       tool_properties =
        [(''content'', None), (''url'', None)],
       tool_required = []\<rparr>,
     \<lparr>tool_name = ''browser_add_style'',
       tool_properties =
        [(''content'', None), (''url'', None)],
       tool_required = []\<rparr>,
     \<lparr>tool_name = ''browser_add_init_script'',
       tool_properties =
        [(''script'', None)],
       tool_required = [''script'']\<rparr>,
     \<lparr>tool_name = ''browser_dispatch_event'',
       tool_properties =
        [(''selector'', None), (''event'', None), (''eventInit'', None)],
       tool_required = [''selector'', ''event'']\<rparr>,
     \<lparr>tool_name = ''browser_logs'',
       tool_properties =
        [(''type'', Some [''console'', ''errors'']), (''clear'', None)],
       tool_required = [''type'']\<rparr>,
     \<lparr>tool_name = ''browser_highlight'',
       tool_properties =
        [(''selector'', None)],
       tool_required = [''selector'']\<rparr>,
     \<lparr>tool_name = ''browser_styles'',
       tool_properties =
        [(''selector'', None)],
       tool_required = [''selector'']\<rparr>,
     \<lparr>tool_name = ''browser_screencast'',
       tool_properties =
        [(''action'', Some [''start'', ''stop'']), (''format'', Some [''jpeg'', ''png'']),
         (''quality'', None), (''maxWidth'', None), (''maxHeight'', None)],
       tool_required = [''action'']\<rparr>,
     \<lparr>tool_name = ''browser_trace'',
       tool_properties =
        [(''action'', Some [''start'', ''stop'']), (''screenshots'', None), (''snapshots'', None),
         (''path'', None)],
       tool_required = [''action'']\<rparr>,
     \<lparr>tool_name = ''browser_recording'',
       tool_properties =
        [(''action'', Some [''start'', ''stop'', ''restart'']), (''path'', None), (''url'', None)],
       tool_required = [''action'']\<rparr>,
     \<lparr>tool_name = ''browser_har'',
       tool_properties =
        [(''action'', Some [''start'', ''stop'']), (''path'', None)],
       tool_required = [''action'']\<rparr>,
     \<lparr>tool_name = ''browser_tab'',
       tool_properties =
        [(''action'', Some [''list'', ''new'', ''switch'', ''close'']), (''index'', None),
         (''url'', None)],
       tool_required = [''action'']\<rparr>,
     \<lparr>tool_name = ''browser_window'',
       tool_properties =
        [(''action'', Some [''new'', ''bring_to_front'']), (''viewportWidth'', None),
         (''viewportHeight'', None)],
       tool_required = [''action'']\<rparr>,
     \<lparr>tool_name = ''browser_frame'',
       tool_properties =
        [(''action'', Some [''switch'', ''main'']), (''selector'', None), (''name'', None),
         (''url'', None)],
       tool_required = [''action'']\<rparr>,
     \<lparr>tool_name = ''browser_pdf'',
       tool_properties =
        [(''path'', None),
         (''format'', Some [''Letter'', ''Legal'', ''Tabloid'', ''Ledger'', ''A0'', ''A1'', ''A2'', ''A3'', ''A4'', ''A5'', ''A6''])],
       tool_required = [''path'']\<rparr>,
     \<lparr>tool_name = ''browser_download'',
       tool_properties =
        [(''selector'', None), (''path'', None)],
       tool_required = [''selector'', ''path'']\<rparr>,
     \<lparr>tool_name = ''browser_wait'',
       tool_properties =
        [(''selector'', None), (''timeout'', None),
         (''state'', Some [''attached'', ''detached'', ''visible'', ''hidden''])],
       tool_required = []\<rparr>,
     \<lparr>tool_name = ''browser_wait_for'',
       tool_properties =
        [(''condition'', Some [''url'', ''load_state'', ''function'', ''download'']),
         (''url'', None), (''state'', Some [''load'', ''domcontentloaded'', ''networkidle'']),
         (''expression'', None), (''path'', None), (''timeout'', None)],
       tool_required = [''condition'']\<rparr>,
     \<lparr>tool_name = ''browser_clipboard'',
       tool_properties =
        [(''action'', Some [''copy'', ''paste'', ''read'']), (''text'', None)],
       tool_required = [''action'']\<rparr>,
     \<lparr>tool_name = ''browser_upload'',
       tool_properties =
        [(''selector'', None), (''files'', None)],
       tool_required = [''selector'', ''files'']\<rparr>,
     \<lparr>tool_name = ''browser_drag'',
       tool_properties =
        [(''source'', None), (''target'', None)],
       tool_required = [''source'', ''target'']\<rparr>,
     \<lparr>tool_name = ''browser_multiselect'',
       tool_properties =
        [(''selector'', None), (''values'', None)],
       tool_required = [''selector'', ''values'']\<rparr>,
     \<lparr>tool_name = ''browser_set_value'',
       tool_properties =
        [(''selector'', None), (''value'', None)],
       tool_required = [''selector'', ''value'']\<rparr>,
     \<lparr>tool_name = ''browser_ios_device_list'',
       tool_properties =
        [],
       tool_required = []\<rparr>,
     \<lparr>tool_name = ''browser_ios_swipe'',
       tool_properties =
        [(''direction'', Some [''up'', ''down'', ''left'', ''right'']), (''distance'', None)],
       tool_required = [''direction'']\<rparr>
    ]"

subsection \<open>Reading the record of calls\<close>

fun is_auto_launch :: "event \<Rightarrow> bool" where
  "is_auto_launch (AutoLaunch a opts) = True"
| "is_auto_launch (Constructed a k) = False"
| "is_auto_launch (CloseCalled a) = False"
| "is_auto_launch (Executed a c) = False"

definition auto_launches :: "event list \<Rightarrow> nat" where
  "auto_launches evs = length (filter is_auto_launch evs)"

text \<open>A sequence of tool-call requests, handled one after the other.\<close>

definition handle_requests ::
  "'d platform \<Rightarrow> (string \<times> args option) list \<Rightarrow> 'd world \<Rightarrow> 'd world" where
  "handle_requests d calls w = foldl (\<lambda>w1 c. snd (callToolRequest d (fst c) (snd c) w1)) w calls"

section \<open>What the cases of the mapper read and write\<close>

text \<open>The tools whose case spreads the whole argument bag after the action.\<close>

definition spread_tools :: "string list" where
  "spread_tools =
     [''browser_launch'', ''browser_navigate'', ''browser_snapshot'', ''browser_screenshot'',
      ''browser_close'', ''browser_add_script'', ''browser_add_style'']"

text \<open>
  For each tool whose case selects the action from an argument, that argument. The other
  tools have one fixed action.
\<close>

definition discriminant_table :: "(string \<times> string) list" where
  "discriminant_table =
     [(''browser_history'', ''action''), (''browser_page_info'', ''info''),
      (''browser_element_action'', ''action''), (''browser_input'', ''action''),
      (''browser_input_action'', ''action''), (''browser_scroll'', ''action''),
      (''browser_find'', ''method''), (''browser_get'', ''property''),
      (''browser_check_state'', ''state''), (''browser_storage'', ''action''),
      (''browser_cookies'', ''action''), (''browser_state'', ''action''),
      (''browser_set_context'', ''setting''), (''browser_dialog'', ''action''),
      (''browser_mouse'', ''action''), (''browser_keyboard_raw'', ''action''),
      (''browser_network'', ''action''), (''browser_logs'', ''type''),
      (''browser_screencast'', ''action''), (''browser_trace'', ''action''),
      (''browser_recording'', ''action''), (''browser_har'', ''action''),
      (''browser_tab'', ''action''), (''browser_window'', ''action''),
      (''browser_frame'', ''action''), (''browser_wait_for'', ''condition''),
      (''browser_clipboard'', ''action'')]"

definition discriminant_of :: "string \<Rightarrow> string option" where
  "discriminant_of name = map_of discriminant_table name"
text \<open>
  For each tool, the properties that some branch of its case writes on the command without
  a presence guard on the argument of the same name: the properties of the object literals
  and the plain assignments. (The properties written under \<open>if (args.k !== undefined)\<close>
  and those copied by a spread are not in this table.)
\<close>

definition unguarded_table :: "(string \<times> string list) list" where
  "unguarded_table =
     [(''browser_launch'', [''action'']), (''browser_navigate'', [''action'']),
      (''browser_snapshot'', [''action'']), (''browser_screenshot'', [''action'']),
      (''browser_close'', [''action'']), (''browser_history'', [''action'']),
      (''browser_page_info'', [''action'']),
      (''browser_element_action'', [''action'', ''selector'']),
      (''browser_input'', [''action'', ''selector'', ''value'', ''text'']),
      (''browser_input_action'', [''action'', ''selector'']),
      (''browser_select'', [''action'', ''selector'', ''values'']),
      (''browser_press'', [''action'', ''key'']), (''browser_scroll'', [''action'', ''selector'']),
      (''browser_find'', [''action'', ''selector'', ''index'', ''testId'', ''text'', ''value'']),
      (''browser_get'', [''action'', ''selector'', ''attribute'']),
      (''browser_check_state'', [''action'', ''selector'']),
      (''browser_storage'', [''action'', ''type'']),
      (''browser_cookies'', [''action'', ''cookies'']),
      (''browser_state'', [''action'', ''path'']),
      (''browser_set_context'', [''action'', ''device'', ''width'', ''height'', ''latitude'', ''longitude'', ''locale'', ''timezone'', ''offline'', ''headers'', ''username'', ''password'']),
      (''browser_dialog'', [''action'']), (''browser_mouse'', [''action'']),
      (''browser_keyboard_raw'', [''action'', ''keys'', ''key'']),
      (''browser_network'', [''action'', ''url'']),
      (''browser_response_body'', [''action'', ''url'']),
      (''browser_evaluate'', [''action'', ''script'']),
      (''browser_set_content'', [''action'', ''html'']), (''browser_add_script'', [''action'']),
      (''browser_add_style'', [''action'']),
      (''browser_add_init_script'', [''action'', ''script'']),
      (''browser_dispatch_event'', [''action'', ''selector'', ''event'']),
      (''browser_logs'', [''action'', ''clear'']),
      (''browser_highlight'', [''action'', ''selector'']),
      (''browser_styles'', [''action'', ''selector'']), (''browser_screencast'', [''action'']),
      (''browser_trace'', [''action'', ''path'']), (''browser_recording'', [''action'']),
      (''browser_har'', [''action'', ''path'']), (''browser_tab'', [''action'']),
      (''browser_window'', [''action'', ''viewport'']), (''browser_frame'', [''action'']),
      (''browser_pdf'', [''action'', ''path'']),
      (''browser_download'', [''action'', ''selector'', ''path'']),
      (''browser_wait'', [''action'']), (''browser_wait_for'', [''action'']),
      (''browser_clipboard'', [''action'', ''operation'']),
      (''browser_upload'', [''action'', ''selector'', ''files'']),
      (''browser_drag'', [''action'', ''source'', ''target'']),
      (''browser_multiselect'', [''action'', ''selector'', ''values'']),
      (''browser_set_value'', [''action'', ''selector'', ''value'']),
      (''browser_ios_device_list'', [''action'']),
      (''browser_ios_swipe'', [''action'', ''direction''])]"

definition unguarded_keys :: "string \<Rightarrow> string list" where
  "unguarded_keys name = (case map_of unguarded_table name of None \<Rightarrow> [] | Some ks \<Rightarrow> ks)"

definition optional_fields :: "tool \<Rightarrow> string list" where
  "optional_fields t = filter (\<lambda>k. k \<notin> set (tool_required t)) (map fst (tool_properties t))"


definition is_optional_field :: "string \<Rightarrow> string \<Rightarrow> bool" where
  "is_optional_field name k =
     list_ex (\<lambda>t. tool_name t = name \<and> k \<in> set (optional_fields t)) MERGED_TOOLS"

text \<open>
  The discriminant values that the branches of a tool's case tell apart: the string
  literals its discriminant is compared with, and the keys of its lookup table. A case that
  copies the discriminant, or builds the action from it, compares it with nothing.
\<close>

definition compared_literals :: "(string \<times> string list) list" where
  "compared_literals =
     [(''browser_page_info'', [''url'']), (''browser_input'', [''fill'']),
      (''browser_scroll'', [''scroll_into_view'']), (''browser_cookies'', [''get'']),
      (''browser_state'', [''save'']),
      (''browser_set_context'', [''device'', ''viewport'', ''geolocation'', ''locale'', ''timezone'', ''offline'', ''media'', ''headers'', ''credentials'']),
      (''browser_dialog'', [''accept'']), (''browser_mouse'', [''down'', ''up'', ''move'']),
      (''browser_keyboard_raw'', [''shortcut'', ''down'']),
      (''browser_network'', [''requests'', ''route'']), (''browser_screencast'', [''start'']),
      (''browser_trace'', [''start'']), (''browser_recording'', [''start'', ''stop'']),
      (''browser_har'', [''start'', ''stop'']), (''browser_window'', [''new'']),
      (''browser_frame'', [''main''])]"

definition branch_literals :: "string \<Rightarrow> string list" where
  "branch_literals name =
     (if name = ''browser_find'' then map fst findByActionMap
      else if name = ''browser_get'' then map fst getActionMap
      else if name = ''browser_check_state'' then map fst stateActionMap
      else if name = ''browser_storage'' then map fst storageActionMap
      else if name = ''browser_wait_for'' then map fst waitForActionMap
      else (case map_of compared_literals name of None \<Rightarrow> [] | Some ls \<Rightarrow> ls))"

text \<open>The \<open>enum\<close> the registry declares for a property of a tool (empty when it declares none).\<close>

definition schema_enum :: "string \<Rightarrow> string \<Rightarrow> string list" where
  "schema_enum name d =
     (case find (\<lambda>t. tool_name t = name) MERGED_TOOLS of
        None \<Rightarrow> []
      | Some t \<Rightarrow> (case map_of (tool_properties t) d of Some (Some vs) \<Rightarrow> vs | _ \<Rightarrow> []))"

text \<open>The action of the command a tool is mapped to when called with its discriminant alone.\<close>

definition resolved_action :: "string \<Rightarrow> string \<Rightarrow> string \<Rightarrow> jsval option" where
  "resolved_action name d v =
     (case mapMergedToolToCommand name (Some [(d, JStr v)]) of
        Inr cmd \<Rightarrow> Some (get cmd ''action'')
      | Inl e \<Rightarrow> None)"

text \<open>The tools whose case puts the discriminant argument itself on the command.\<close>

definition passthrough_tools :: "string list" where
  "passthrough_tools =
     [''browser_history'', ''browser_element_action'', ''browser_input_action'', ''browser_find'',
      ''browser_logs'', ''browser_tab'', ''browser_clipboard'']"

text \<open>
  For each tool with a discriminant, the action its case names for each value of the
  discriminant: the entries of its lookup table, the string of the branch that a comparison
  selects (the last one being the string of the final \<open>else\<close>), the value itself where
  the case copies it, and \<open>tab_\<close> followed by the value for \<open>browser_tab\<close>.
\<close>

definition named_actions :: "(string \<times> (string \<times> string) list) list" where
  "named_actions =
     [(''browser_history'', [(''back'', ''back''), (''forward'', ''forward''), (''reload'', ''reload'')]),
      (''browser_page_info'', [(''url'', ''url''), (''title'', ''title'')]),
      (''browser_element_action'', [(''click'', ''click''), (''dblclick'', ''dblclick''), (''hover'', ''hover''), (''focus'', ''focus''), (''tap'', ''tap'')]),
      (''browser_input'', [(''fill'', ''fill''), (''type'', ''type'')]),
      (''browser_input_action'', [(''check'', ''check''), (''uncheck'', ''uncheck''), (''clear'', ''clear''), (''select_all'', ''select_all'')]),
      (''browser_scroll'', [(''scroll'', ''scroll''), (''scroll_into_view'', ''scroll_into_view'')]),
      (''browser_cookies'', [(''get'', ''get''), (''set'', ''set'')]),
      (''browser_state'', [(''save'', ''state_save''), (''load'', ''state_load'')]),
      (''browser_set_context'', [(''device'', ''set_device''), (''viewport'', ''set_viewport''), (''geolocation'', ''set_geolocation''), (''locale'', ''set_locale''), (''timezone'', ''set_timezone''), (''offline'', ''set_offline''), (''media'', ''emulate_media''), (''headers'', ''set_headers''), (''credentials'', ''set_credentials'')]),
      (''browser_dialog'', [(''accept'', ''dialog_accept''), (''dismiss'', ''dialog_dismiss'')]),
      (''browser_mouse'', [(''down'', ''mouse_down''), (''up'', ''mouse_up''), (''move'', ''mouse_move''), (''wheel'', ''wheel'')]),
      (''browser_keyboard_raw'', [(''down'', ''key_down''), (''up'', ''key_up''), (''shortcut'', ''keyboard'')]),
      (''browser_network'', [(''route'', ''route''), (''unroute'', ''unroute''), (''requests'', ''requests'')]),
      (''browser_logs'', [(''console'', ''console''), (''errors'', ''errors'')]),
      (''browser_screencast'', [(''start'', ''screencast_start''), (''stop'', ''screencast_stop'')]),
      (''browser_trace'', [(''start'', ''trace_start''), (''stop'', ''trace_stop'')]),
      (''browser_recording'', [(''start'', ''recording_start''), (''stop'', ''recording_stop''), (''restart'', ''recording_restart'')]),
      (''browser_har'', [(''start'', ''har_start''), (''stop'', ''har_stop'')]),
      (''browser_tab'', [(''list'', ''tab_list''), (''new'', ''tab_new''), (''switch'', ''tab_switch''), (''close'', ''tab_close'')]),
      (''browser_window'', [(''new'', ''window_new''), (''bring_to_front'', ''bring_to_front'')]),
      (''browser_frame'', [(''switch'', ''frame''), (''main'', ''main_frame'')]),
      (''browser_clipboard'', [(''copy'', ''clipboard''), (''paste'', ''clipboard''), (''read'', ''clipboard'')])]"

definition emitted_actions :: "string \<Rightarrow> (string \<times> string) list" where
  "emitted_actions name =
     (if name = ''browser_find'' then findByActionMap
      else if name = ''browser_get'' then getActionMap
      else if name = ''browser_check_state'' then stateActionMap
      else if name = ''browser_storage'' then storageActionMap
      else if name = ''browser_wait_for'' then waitForActionMap
      else (case map_of named_actions name of None \<Rightarrow> [] | Some t \<Rightarrow> t))"

text \<open>
  The correspondence between the values a tool's schema declares for its discriminant
  \<open>d\<close> and the branches of its case. The values with a named action are the declared ones.
  Each declared value, in any argument bag (for \<open>browser_find\<close>: one without an
  \<open>action\<close>), gives a command with the action named for it, and different declared values
  give different commands. Every literal the branches compare \<open>d\<close> with is declared. A
  declared value is one of those literals, or is copied onto the command, or is treated
  like every string the branches have no literal for: the command is the same for both. A
  case that does not copy the discriminant leaves at most one declared value to that
  default.
\<close>

definition corresponds :: "string \<Rightarrow> string \<Rightarrow> bool" where
  "corresponds name d =
     (map fst (emitted_actions name) = schema_enum name d
      \<and> schema_enum name d \<noteq> []
      \<and> (\<forall>(v, s) \<in> set (emitted_actions name). \<forall>a.
            map_of a d = Some (JStr v) \<and> (name = ''browser_find'' \<longrightarrow> map_of a ''action'' = None) \<longrightarrow>
            (\<exists>cmd. mapMergedToolToCommand name (Some a) = Inr cmd \<and> get cmd ''action'' = str s))
      \<and> distinct (map (\<lambda>v. mapMergedToolToCommand name (Some [(d, JStr v)])) (schema_enum name d))
      \<and> set (branch_literals name) \<subseteq> set (schema_enum name d)
      \<and> (\<forall>v \<in> set (schema_enum name d).
            v \<in> set (branch_literals name) \<or> name \<in> set passthrough_tools \<or>
            (\<forall>u a. u \<notin> set (branch_literals name) \<and> u \<notin> set object_prototype_keys \<longrightarrow>
               mapMergedToolToCommand name (Some (AList.update d (JStr u) a))
                 = mapMergedToolToCommand name (Some (AList.update d (JStr v) a))))
      \<and> (name \<notin> set passthrough_tools \<longrightarrow>
            length (filter (\<lambda>v. v \<notin> set (branch_literals name)) (schema_enum name d)) \<le> 1))"

section \<open>A sample platform\<close>

text \<open>
  A platform to run the dispatcher on: a manager's state is whether its browser is
  launched; \<open>close()\<close> always rejects; the executors launch and close on the commands of
  those names, throw on a command without an action, and otherwise report a failure unless
  the browser is launched.
\<close>

definition sample_execute :: "jsobj \<Rightarrow> bool \<Rightarrow> (js_exn + response) \<times> bool" where
  "sample_execute command launched =
     (if get command ''action'' = Undefined then (Inl (Error ''Unknown action''), launched)
      else if get command ''action'' = str ''launch'' then (Inr (Success (Some (JStr ''launched''))), True)
      else if get command ''action'' = str ''close'' then (Inr (Success (Some (JStr ''closed''))), False)
      else if launched then (Inr (Success (Some JNull)), launched)
      else (Inr (Failure ''Browser not launched''), launched))"

definition sample_platform :: "bool platform" where
  "sample_platform =
     \<lparr>new_state = (\<lambda>k. False),
      isLaunched = (\<lambda>k launched. launched),
      launch = (\<lambda>k opts launched. (None, True)),
      close = (\<lambda>k launched. (Some (Error ''close failed''), False)),
      executeCommand = sample_execute,
      executeIOSCommand = sample_execute,
      stringify = (\<lambda>j. ''null'')\<rparr>"

text \<open>The process at start: no manager, no environment variable set.\<close>

definition initial_world :: "'d \<Rightarrow> 'd world" where
  "initial_world s0 =
     \<lparr>heap = (\<lambda>a. s0), next_addr = 0, manager = None, env_provider = None,
      env_executable_path = None, random_ids = (\<lambda>n. ''id''), draws = 0, trace = []\<rparr>"

section \<open>Properties of the mapper\<close>

lemma registry_names:
  "map tool_name MERGED_TOOLS =
     [''browser_launch'', ''browser_navigate'', ''browser_snapshot'', ''browser_screenshot'',
      ''browser_close'', ''browser_history'', ''browser_page_info'', ''browser_element_action'',
      ''browser_input'', ''browser_input_action'', ''browser_select'', ''browser_press'',
      ''browser_scroll'', ''browser_find'', ''browser_get'', ''browser_check_state'',
      ''browser_storage'', ''browser_cookies'', ''browser_state'', ''browser_set_context'',
      ''browser_dialog'', ''browser_mouse'', ''browser_keyboard_raw'', ''browser_network'',
      ''browser_response_body'', ''browser_evaluate'', ''browser_set_content'',
      ''browser_add_script'', ''browser_add_style'', ''browser_add_init_script'',
      ''browser_dispatch_event'', ''browser_logs'', ''browser_highlight'', ''browser_styles'',
      ''browser_screencast'', ''browser_trace'', ''browser_recording'', ''browser_har'',
      ''browser_tab'', ''browser_window'', ''browser_frame'', ''browser_pdf'', ''browser_download'',
      ''browser_wait'', ''browser_wait_for'', ''browser_clipboard'', ''browser_upload'',
      ''browser_drag'', ''browser_multiselect'', ''browser_set_value'', ''browser_ios_device_list'',
      ''browser_ios_swipe'']"
  by (simp add: MERGED_TOOLS_def)

lemma unregistered_name_throws:
  assumes "name \<notin> set (map tool_name MERGED_TOOLS)"
  shows "mapMergedToolToCommand name args = Inl (Error (''Unknown merged tool: '' @ name))"
  using assms unfolding registry_names mapMergedToolToCommand_def by simp

lemma mapper_throw_reaches_handler:
  assumes "mapMergedToolToCommand name args = Inl e"
  shows "callToolRequest d name args w =
           (\<lparr>content = [text_item (str (''Error: '' @ message e))], isError = True\<rparr>, w)"
  using assms by (simp add: callToolRequest_def handleToolCall_def)

subsection \<open>The switch, case by case\<close>

lemma map_launch:
  "mapMergedToolToCommand ''browser_launch'' args = Inr (spread [(''action'', str ''launch'')] args)"
  by (simp add: mapMergedToolToCommand_def)

lemma map_navigate:
  "mapMergedToolToCommand ''browser_navigate'' args = Inr (spread [(''action'', str ''navigate'')] args)"
  by (simp add: mapMergedToolToCommand_def)

lemma map_snapshot:
  "mapMergedToolToCommand ''browser_snapshot'' args = Inr (spread [(''action'', str ''snapshot'')] args)"
  by (simp add: mapMergedToolToCommand_def)

lemma map_screenshot:
  "mapMergedToolToCommand ''browser_screenshot'' args = Inr (spread [(''action'', str ''screenshot'')] args)"
  by (simp add: mapMergedToolToCommand_def)

lemma map_close:
  "mapMergedToolToCommand ''browser_close'' args = Inr (spread [(''action'', str ''close'')] args)"
  by (simp add: mapMergedToolToCommand_def)

lemma map_history:
  "mapMergedToolToCommand ''browser_history'' args = with_args ''action'' (\<lambda>a. Inr (tool_history a)) args"
  by (simp add: mapMergedToolToCommand_def)

lemma map_page_info:
  "mapMergedToolToCommand ''browser_page_info'' args = with_args ''info'' (\<lambda>a. Inr (tool_page_info a)) args"
  by (simp add: mapMergedToolToCommand_def)

lemma map_element_action:
  "mapMergedToolToCommand ''browser_element_action'' args = with_args ''action'' (\<lambda>a. Inr (tool_element_action a)) args"
  by (simp add: mapMergedToolToCommand_def)

lemma map_input:
  "mapMergedToolToCommand ''browser_input'' args = with_args ''action'' (\<lambda>a. Inr (tool_input a)) args"
  by (simp add: mapMergedToolToCommand_def)

lemma map_input_action:
  "mapMergedToolToCommand ''browser_input_action'' args = with_args ''action'' (\<lambda>a. Inr (tool_input_action a)) args"
  by (simp add: mapMergedToolToCommand_def)

lemma map_select:
  "mapMergedToolToCommand ''browser_select'' args = with_args ''selector'' (\<lambda>a. Inr (tool_select a)) args"
  by (simp add: mapMergedToolToCommand_def)

lemma map_press:
  "mapMergedToolToCommand ''browser_press'' args = with_args ''key'' (\<lambda>a. Inr (tool_press a)) args"
  by (simp add: mapMergedToolToCommand_def)

lemma map_scroll:
  "mapMergedToolToCommand ''browser_scroll'' args = with_args ''action'' (\<lambda>a. Inr (tool_scroll a)) args"
  by (simp add: mapMergedToolToCommand_def)

lemma map_find:
  "mapMergedToolToCommand ''browser_find'' args = with_args ''method'' tool_find args"
  by (simp add: mapMergedToolToCommand_def)

lemma map_get:
  "mapMergedToolToCommand ''browser_get'' args = with_args ''property'' tool_get args"
  by (simp add: mapMergedToolToCommand_def)

lemma map_check_state:
  "mapMergedToolToCommand ''browser_check_state'' args = with_args ''state'' tool_check_state args"
  by (simp add: mapMergedToolToCommand_def)

lemma map_storage:
  "mapMergedToolToCommand ''browser_storage'' args = with_args ''action'' tool_storage args"
  by (simp add: mapMergedToolToCommand_def)

lemma map_cookies:
  "mapMergedToolToCommand ''browser_cookies'' args = with_args ''action'' (\<lambda>a. Inr (tool_cookies a)) args"
  by (simp add: mapMergedToolToCommand_def)

lemma map_state:
  "mapMergedToolToCommand ''browser_state'' args = with_args ''action'' (\<lambda>a. Inr (tool_state a)) args"
  by (simp add: mapMergedToolToCommand_def)

lemma map_set_context:
  "mapMergedToolToCommand ''browser_set_context'' args = with_args ''setting'' (\<lambda>a. Inr (tool_set_context a)) args"
  by (simp add: mapMergedToolToCommand_def)

lemma map_dialog:
  "mapMergedToolToCommand ''browser_dialog'' args = with_args ''action'' (\<lambda>a. Inr (tool_dialog a)) args"
  by (simp add: mapMergedToolToCommand_def)

lemma map_mouse:
  "mapMergedToolToCommand ''browser_mouse'' args = with_args ''action'' (\<lambda>a. Inr (tool_mouse a)) args"
  by (simp add: mapMergedToolToCommand_def)

lemma map_keyboard_raw:
  "mapMergedToolToCommand ''browser_keyboard_raw'' args = with_args ''action'' (\<lambda>a. Inr (tool_keyboard_raw a)) args"
  by (simp add: mapMergedToolToCommand_def)

lemma map_network:
  "mapMergedToolToCommand ''browser_network'' args = with_args ''action'' (\<lambda>a. Inr (tool_network a)) args"
  by (simp add: mapMergedToolToCommand_def)

lemma map_response_body:
  "mapMergedToolToCommand ''browser_response_body'' args = with_args ''url'' (\<lambda>a. Inr (tool_response_body a)) args"
  by (simp add: mapMergedToolToCommand_def)

lemma map_evaluate:
  "mapMergedToolToCommand ''browser_evaluate'' args = with_args ''script'' (\<lambda>a. Inr (tool_evaluate a)) args"
  by (simp add: mapMergedToolToCommand_def)

lemma map_set_content:
  "mapMergedToolToCommand ''browser_set_content'' args = with_args ''html'' (\<lambda>a. Inr (tool_set_content a)) args"
  by (simp add: mapMergedToolToCommand_def)

lemma map_add_script:
  "mapMergedToolToCommand ''browser_add_script'' args = Inr (spread [(''action'', str ''add_script'')] args)"
  by (simp add: mapMergedToolToCommand_def)

lemma map_add_style:
  "mapMergedToolToCommand ''browser_add_style'' args = Inr (spread [(''action'', str ''add_style'')] args)"
  by (simp add: mapMergedToolToCommand_def)

lemma map_add_init_script:
  "mapMergedToolToCommand ''browser_add_init_script'' args = with_args ''script'' (\<lambda>a. Inr (tool_add_init_script a)) args"
  by (simp add: mapMergedToolToCommand_def)

lemma map_dispatch_event:
  "mapMergedToolToCommand ''browser_dispatch_event'' args = with_args ''selector'' (\<lambda>a. Inr (tool_dispatch_event a)) args"
  by (simp add: mapMergedToolToCommand_def)

lemma map_logs:
  "mapMergedToolToCommand ''browser_logs'' args = with_args ''type'' (\<lambda>a. Inr (tool_logs a)) args"
  by (simp add: mapMergedToolToCommand_def)

lemma map_highlight:
  "mapMergedToolToCommand ''browser_highlight'' args = with_args ''selector'' (\<lambda>a. Inr (tool_highlight a)) args"
  by (simp add: mapMergedToolToCommand_def)

lemma map_styles:
  "mapMergedToolToCommand ''browser_styles'' args = with_args ''selector'' (\<lambda>a. Inr (tool_styles a)) args"
  by (simp add: mapMergedToolToCommand_def)

lemma map_screencast:
  "mapMergedToolToCommand ''browser_screencast'' args = with_args ''action'' (\<lambda>a. Inr (tool_screencast a)) args"
  by (simp add: mapMergedToolToCommand_def)

lemma map_trace:
  "mapMergedToolToCommand ''browser_trace'' args = with_args ''action'' (\<lambda>a. Inr (tool_trace a)) args"
  by (simp add: mapMergedToolToCommand_def)

lemma map_recording:
  "mapMergedToolToCommand ''browser_recording'' args = with_args ''action'' (\<lambda>a. Inr (tool_recording a)) args"
  by (simp add: mapMergedToolToCommand_def)

lemma map_har:
  "mapMergedToolToCommand ''browser_har'' args = with_args ''action'' (\<lambda>a. Inr (tool_har a)) args"
  by (simp add: mapMergedToolToCommand_def)

lemma map_tab:
  "mapMergedToolToCommand ''browser_tab'' args = with_args ''action'' tool_tab args"
  by (simp add: mapMergedToolToCommand_def)

lemma map_window:
  "mapMergedToolToCommand ''browser_window'' args = with_args ''action'' (\<lambda>a. Inr (tool_window a)) args"
  by (simp add: mapMergedToolToCommand_def)

lemma map_frame:
  "mapMergedToolToCommand ''browser_frame'' args = with_args ''action'' (\<lambda>a. Inr (tool_frame a)) args"
  by (simp add: mapMergedToolToCommand_def)

lemma map_pdf:
  "mapMergedToolToCommand ''browser_pdf'' args = with_args ''path'' (\<lambda>a. Inr (tool_pdf a)) args"
  by (simp add: mapMergedToolToCommand_def)

lemma map_download:
  "mapMergedToolToCommand ''browser_download'' args = with_args ''selector'' (\<lambda>a. Inr (tool_download a)) args"
  by (simp add: mapMergedToolToCommand_def)

lemma map_wait:
  "mapMergedToolToCommand ''browser_wait'' args = with_args ''selector'' (\<lambda>a. Inr (tool_wait a)) args"
  by (simp add: mapMergedToolToCommand_def)

lemma map_wait_for:
  "mapMergedToolToCommand ''browser_wait_for'' args = with_args ''condition'' tool_wait_for args"
  by (simp add: mapMergedToolToCommand_def)

lemma map_clipboard:
  "mapMergedToolToCommand ''browser_clipboard'' args = with_args ''action'' (\<lambda>a. Inr (tool_clipboard a)) args"
  by (simp add: mapMergedToolToCommand_def)

lemma map_upload:
  "mapMergedToolToCommand ''browser_upload'' args = with_args ''selector'' (\<lambda>a. Inr (tool_upload a)) args"
  by (simp add: mapMergedToolToCommand_def)

lemma map_drag:
  "mapMergedToolToCommand ''browser_drag'' args = with_args ''source'' (\<lambda>a. Inr (tool_drag a)) args"
  by (simp add: mapMergedToolToCommand_def)

lemma map_multiselect:
  "mapMergedToolToCommand ''browser_multiselect'' args = with_args ''selector'' (\<lambda>a. Inr (tool_multiselect a)) args"
  by (simp add: mapMergedToolToCommand_def)

lemma map_set_value:
  "mapMergedToolToCommand ''browser_set_value'' args = with_args ''selector'' (\<lambda>a. Inr (tool_set_value a)) args"
  by (simp add: mapMergedToolToCommand_def)

lemma map_ios_device_list:
  "mapMergedToolToCommand ''browser_ios_device_list'' args = Inr [(''action'', str ''device_list'')]"
  by (simp add: mapMergedToolToCommand_def)

lemma map_ios_swipe:
  "mapMergedToolToCommand ''browser_ios_swipe'' args = with_args ''direction'' (\<lambda>a. Inr (tool_ios_swipe a)) args"
  by (simp add: mapMergedToolToCommand_def)

lemmas map_tool = map_launch map_navigate map_snapshot map_screenshot map_close map_history map_page_info map_element_action map_input map_input_action map_select map_press map_scroll map_find map_get map_check_state map_storage map_cookies map_state map_set_context map_dialog map_mouse map_keyboard_raw map_network map_response_body map_evaluate map_set_content map_add_script map_add_style map_add_init_script map_dispatch_event map_logs map_highlight map_styles map_screencast map_trace map_recording map_har map_tab map_window map_frame map_pdf map_download map_wait map_wait_for map_clipboard map_upload map_drag map_multiselect map_set_value map_ios_device_list map_ios_swipe

text \<open>A property of every registered tool name holds if it holds of each of the 52 names.\<close>

lemma registered_cases:
  assumes "name \<in> set (map tool_name MERGED_TOOLS)"
    and "P ''browser_launch''"
    and "P ''browser_navigate''"
    and "P ''browser_snapshot''"
    and "P ''browser_screenshot''"
    and "P ''browser_close''"
    and "P ''browser_history''"
    and "P ''browser_page_info''"
    and "P ''browser_element_action''"
    and "P ''browser_input''"
    and "P ''browser_input_action''"
    and "P ''browser_select''"
    and "P ''browser_press''"
    and "P ''browser_scroll''"
    and "P ''browser_find''"
    and "P ''browser_get''"
    and "P ''browser_check_state''"
    and "P ''browser_storage''"
    and "P ''browser_cookies''"
    and "P ''browser_state''"
    and "P ''browser_set_context''"
    and "P ''browser_dialog''"
    and "P ''browser_mouse''"
    and "P ''browser_keyboard_raw''"
    and "P ''browser_network''"
    and "P ''browser_response_body''"
    and "P ''browser_evaluate''"
    and "P ''browser_set_content''"
    and "P ''browser_add_script''"
    and "P ''browser_add_style''"
    and "P ''browser_add_init_script''"
    and "P ''browser_dispatch_event''"
    and "P ''browser_logs''"
    and "P ''browser_highlight''"
    and "P ''browser_styles''"
    and "P ''browser_screencast''"
    and "P ''browser_trace''"
    and "P ''browser_recording''"
    and "P ''browser_har''"
    and "P ''browser_tab''"
    and "P ''browser_window''"
    and "P ''browser_frame''"
    and "P ''browser_pdf''"
    and "P ''browser_download''"
    and "P ''browser_wait''"
    and "P ''browser_wait_for''"
    and "P ''browser_clipboard''"
    and "P ''browser_upload''"
    and "P ''browser_drag''"
    and "P ''browser_multiselect''"
    and "P ''browser_set_value''"
    and "P ''browser_ios_device_list''"
    and "P ''browser_ios_swipe''"
  shows "P name"
  using assms unfolding registry_names by auto

subsection \<open>The tables, name by name\<close>

lemma disc_launch: "discriminant_of ''browser_launch'' = None"
  by (simp add: discriminant_of_def discriminant_table_def)

lemma disc_navigate: "discriminant_of ''browser_navigate'' = None"
  by (simp add: discriminant_of_def discriminant_table_def)

lemma disc_snapshot: "discriminant_of ''browser_snapshot'' = None"
  by (simp add: discriminant_of_def discriminant_table_def)

lemma disc_screenshot: "discriminant_of ''browser_screenshot'' = None"
  by (simp add: discriminant_of_def discriminant_table_def)

lemma disc_close: "discriminant_of ''browser_close'' = None"
  by (simp add: discriminant_of_def discriminant_table_def)

lemma disc_history: "discriminant_of ''browser_history'' = Some ''action''"
  by (simp add: discriminant_of_def discriminant_table_def)

lemma disc_page_info: "discriminant_of ''browser_page_info'' = Some ''info''"
  by (simp add: discriminant_of_def discriminant_table_def)

lemma disc_element_action: "discriminant_of ''browser_element_action'' = Some ''action''"
  by (simp add: discriminant_of_def discriminant_table_def)

lemma disc_input: "discriminant_of ''browser_input'' = Some ''action''"
  by (simp add: discriminant_of_def discriminant_table_def)

lemma disc_input_action: "discriminant_of ''browser_input_action'' = Some ''action''"
  by (simp add: discriminant_of_def discriminant_table_def)

lemma disc_select: "discriminant_of ''browser_select'' = None"
  by (simp add: discriminant_of_def discriminant_table_def)

lemma disc_press: "discriminant_of ''browser_press'' = None"
  by (simp add: discriminant_of_def discriminant_table_def)

lemma disc_scroll: "discriminant_of ''browser_scroll'' = Some ''action''"
  by (simp add: discriminant_of_def discriminant_table_def)

lemma disc_find: "discriminant_of ''browser_find'' = Some ''method''"
  by (simp add: discriminant_of_def discriminant_table_def)

lemma disc_get: "discriminant_of ''browser_get'' = Some ''property''"
  by (simp add: discriminant_of_def discriminant_table_def)

lemma disc_check_state: "discriminant_of ''browser_check_state'' = Some ''state''"
  by (simp add: discriminant_of_def discriminant_table_def)

lemma disc_storage: "discriminant_of ''browser_storage'' = Some ''action''"
  by (simp add: discriminant_of_def discriminant_table_def)

lemma disc_cookies: "discriminant_of ''browser_cookies'' = Some ''action''"
  by (simp add: discriminant_of_def discriminant_table_def)

lemma disc_state: "discriminant_of ''browser_state'' = Some ''action''"
  by (simp add: discriminant_of_def discriminant_table_def)

lemma disc_set_context: "discriminant_of ''browser_set_context'' = Some ''setting''"
  by (simp add: discriminant_of_def discriminant_table_def)

lemma disc_dialog: "discriminant_of ''browser_dialog'' = Some ''action''"
  by (simp add: discriminant_of_def discriminant_table_def)

lemma disc_mouse: "discriminant_of ''browser_mouse'' = Some ''action''"
  by (simp add: discriminant_of_def discriminant_table_def)

lemma disc_keyboard_raw: "discriminant_of ''browser_keyboard_raw'' = Some ''action''"
  by (simp add: discriminant_of_def discriminant_table_def)

lemma disc_network: "discriminant_of ''browser_network'' = Some ''action''"
  by (simp add: discriminant_of_def discriminant_table_def)

lemma disc_response_body: "discriminant_of ''browser_response_body'' = None"
  by (simp add: discriminant_of_def discriminant_table_def)

lemma disc_evaluate: "discriminant_of ''browser_evaluate'' = None"
  by (simp add: discriminant_of_def discriminant_table_def)

lemma disc_set_content: "discriminant_of ''browser_set_content'' = None"
  by (simp add: discriminant_of_def discriminant_table_def)

lemma disc_add_script: "discriminant_of ''browser_add_script'' = None"
  by (simp add: discriminant_of_def discriminant_table_def)

lemma disc_add_style: "discriminant_of ''browser_add_style'' = None"
  by (simp add: discriminant_of_def discriminant_table_def)

lemma disc_add_init_script: "discriminant_of ''browser_add_init_script'' = None"
  by (simp add: discriminant_of_def discriminant_table_def)

lemma disc_dispatch_event: "discriminant_of ''browser_dispatch_event'' = None"
  by (simp add: discriminant_of_def discriminant_table_def)

lemma disc_logs: "discriminant_of ''browser_logs'' = Some ''type''"
  by (simp add: discriminant_of_def discriminant_table_def)

lemma disc_highlight: "discriminant_of ''browser_highlight'' = None"
  by (simp add: discriminant_of_def discriminant_table_def)

lemma disc_styles: "discriminant_of ''browser_styles'' = None"
  by (simp add: discriminant_of_def discriminant_table_def)

lemma disc_screencast: "discriminant_of ''browser_screencast'' = Some ''action''"
  by (simp add: discriminant_of_def discriminant_table_def)

lemma disc_trace: "discriminant_of ''browser_trace'' = Some ''action''"
  by (simp add: discriminant_of_def discriminant_table_def)

lemma disc_recording: "discriminant_of ''browser_recording'' = Some ''action''"
  by (simp add: discriminant_of_def discriminant_table_def)

lemma disc_har: "discriminant_of ''browser_har'' = Some ''action''"
  by (simp add: discriminant_of_def discriminant_table_def)

lemma disc_tab: "discriminant_of ''browser_tab'' = Some ''action''"
  by (simp add: discriminant_of_def discriminant_table_def)

lemma disc_window: "discriminant_of ''browser_window'' = Some ''action''"
  by (simp add: discriminant_of_def discriminant_table_def)

lemma disc_frame: "discriminant_of ''browser_frame'' = Some ''action''"
  by (simp add: discriminant_of_def discriminant_table_def)

lemma disc_pdf: "discriminant_of ''browser_pdf'' = None"
  by (simp add: discriminant_of_def discriminant_table_def)

lemma disc_download: "discriminant_of ''browser_download'' = None"
  by (simp add: discriminant_of_def discriminant_table_def)

lemma disc_wait: "discriminant_of ''browser_wait'' = None"
  by (simp add: discriminant_of_def discriminant_table_def)

lemma disc_wait_for: "discriminant_of ''browser_wait_for'' = Some ''condition''"
  by (simp add: discriminant_of_def discriminant_table_def)

lemma disc_clipboard: "discriminant_of ''browser_clipboard'' = Some ''action''"
  by (simp add: discriminant_of_def discriminant_table_def)

lemma disc_upload: "discriminant_of ''browser_upload'' = None"
  by (simp add: discriminant_of_def discriminant_table_def)

lemma disc_drag: "discriminant_of ''browser_drag'' = None"
  by (simp add: discriminant_of_def discriminant_table_def)

lemma disc_multiselect: "discriminant_of ''browser_multiselect'' = None"
  by (simp add: discriminant_of_def discriminant_table_def)

lemma disc_set_value: "discriminant_of ''browser_set_value'' = None"
  by (simp add: discriminant_of_def discriminant_table_def)

lemma disc_ios_device_list: "discriminant_of ''browser_ios_device_list'' = None"
  by (simp add: discriminant_of_def discriminant_table_def)

lemma disc_ios_swipe: "discriminant_of ''browser_ios_swipe'' = None"
  by (simp add: discriminant_of_def discriminant_table_def)

lemmas disc_tool = disc_launch disc_navigate disc_snapshot disc_screenshot disc_close disc_history disc_page_info disc_element_action disc_input disc_input_action disc_select disc_press disc_scroll disc_find disc_get disc_check_state disc_storage disc_cookies disc_state disc_set_context disc_dialog disc_mouse disc_keyboard_raw disc_network disc_response_body disc_evaluate disc_set_content disc_add_script disc_add_style disc_add_init_script disc_dispatch_event disc_logs disc_highlight disc_styles disc_screencast disc_trace disc_recording disc_har disc_tab disc_window disc_frame disc_pdf disc_download disc_wait disc_wait_for disc_clipboard disc_upload disc_drag disc_multiselect disc_set_value disc_ios_device_list disc_ios_swipe

lemma ung_launch: "unguarded_keys ''browser_launch'' = [''action'']"
  by (simp add: unguarded_keys_def unguarded_table_def)

lemma ung_navigate: "unguarded_keys ''browser_navigate'' = [''action'']"
  by (simp add: unguarded_keys_def unguarded_table_def)

lemma ung_snapshot: "unguarded_keys ''browser_snapshot'' = [''action'']"
  by (simp add: unguarded_keys_def unguarded_table_def)

lemma ung_screenshot: "unguarded_keys ''browser_screenshot'' = [''action'']"
  by (simp add: unguarded_keys_def unguarded_table_def)

lemma ung_close: "unguarded_keys ''browser_close'' = [''action'']"
  by (simp add: unguarded_keys_def unguarded_table_def)

lemma ung_history: "unguarded_keys ''browser_history'' = [''action'']"
  by (simp add: unguarded_keys_def unguarded_table_def)

lemma ung_page_info: "unguarded_keys ''browser_page_info'' = [''action'']"
  by (simp add: unguarded_keys_def unguarded_table_def)

lemma ung_element_action: "unguarded_keys ''browser_element_action'' = [''action'', ''selector'']"
  by (simp add: unguarded_keys_def unguarded_table_def)

lemma ung_input: "unguarded_keys ''browser_input'' = [''action'', ''selector'', ''value'', ''text'']"
  by (simp add: unguarded_keys_def unguarded_table_def)

lemma ung_input_action: "unguarded_keys ''browser_input_action'' = [''action'', ''selector'']"
  by (simp add: unguarded_keys_def unguarded_table_def)

lemma ung_select: "unguarded_keys ''browser_select'' = [''action'', ''selector'', ''values'']"
  by (simp add: unguarded_keys_def unguarded_table_def)

lemma ung_press: "unguarded_keys ''browser_press'' = [''action'', ''key'']"
  by (simp add: unguarded_keys_def unguarded_table_def)

lemma ung_scroll: "unguarded_keys ''browser_scroll'' = [''action'', ''selector'']"
  by (simp add: unguarded_keys_def unguarded_table_def)

lemma ung_find: "unguarded_keys ''browser_find'' = [''action'', ''selector'', ''index'', ''testId'', ''text'', ''value'']"
  by (simp add: unguarded_keys_def unguarded_table_def)

lemma ung_get: "unguarded_keys ''browser_get'' = [''action'', ''selector'', ''attribute'']"
  by (simp add: unguarded_keys_def unguarded_table_def)

lemma ung_check_state: "unguarded_keys ''browser_check_state'' = [''action'', ''selector'']"
  by (simp add: unguarded_keys_def unguarded_table_def)

lemma ung_storage: "unguarded_keys ''browser_storage'' = [''action'', ''type'']"
  by (simp add: unguarded_keys_def unguarded_table_def)

lemma ung_cookies: "unguarded_keys ''browser_cookies'' = [''action'', ''cookies'']"
  by (simp add: unguarded_keys_def unguarded_table_def)

lemma ung_state: "unguarded_keys ''browser_state'' = [''action'', ''path'']"
  by (simp add: unguarded_keys_def unguarded_table_def)

lemma ung_set_context: "unguarded_keys ''browser_set_context'' = [''action'', ''device'', ''width'', ''height'', ''latitude'', ''longitude'', ''locale'', ''timezone'', ''offline'', ''headers'', ''username'', ''password'']"
  by (simp add: unguarded_keys_def unguarded_table_def)

lemma ung_dialog: "unguarded_keys ''browser_dialog'' = [''action'']"
  by (simp add: unguarded_keys_def unguarded_table_def)

lemma ung_mouse: "unguarded_keys ''browser_mouse'' = [''action'']"
  by (simp add: unguarded_keys_def unguarded_table_def)

lemma ung_keyboard_raw: "unguarded_keys ''browser_keyboard_raw'' = [''action'', ''keys'', ''key'']"
  by (simp add: unguarded_keys_def unguarded_table_def)

lemma ung_network: "unguarded_keys ''browser_network'' = [''action'', ''url'']"
  by (simp add: unguarded_keys_def unguarded_table_def)

lemma ung_response_body: "unguarded_keys ''browser_response_body'' = [''action'', ''url'']"
  by (simp add: unguarded_keys_def unguarded_table_def)

lemma ung_evaluate: "unguarded_keys ''browser_evaluate'' = [''action'', ''script'']"
  by (simp add: unguarded_keys_def unguarded_table_def)

lemma ung_set_content: "unguarded_keys ''browser_set_content'' = [''action'', ''html'']"
  by (simp add: unguarded_keys_def unguarded_table_def)

lemma ung_add_script: "unguarded_keys ''browser_add_script'' = [''action'']"
  by (simp add: unguarded_keys_def unguarded_table_def)

lemma ung_add_style: "unguarded_keys ''browser_add_style'' = [''action'']"
  by (simp add: unguarded_keys_def unguarded_table_def)

lemma ung_add_init_script: "unguarded_keys ''browser_add_init_script'' = [''action'', ''script'']"
  by (simp add: unguarded_keys_def unguarded_table_def)

lemma ung_dispatch_event: "unguarded_keys ''browser_dispatch_event'' = [''action'', ''selector'', ''event'']"
  by (simp add: unguarded_keys_def unguarded_table_def)

lemma ung_logs: "unguarded_keys ''browser_logs'' = [''action'', ''clear'']"
  by (simp add: unguarded_keys_def unguarded_table_def)

lemma ung_highlight: "unguarded_keys ''browser_highlight'' = [''action'', ''selector'']"
  by (simp add: unguarded_keys_def unguarded_table_def)

lemma ung_styles: "unguarded_keys ''browser_styles'' = [''action'', ''selector'']"
  by (simp add: unguarded_keys_def unguarded_table_def)

lemma ung_screencast: "unguarded_keys ''browser_screencast'' = [''action'']"
  by (simp add: unguarded_keys_def unguarded_table_def)

lemma ung_trace: "unguarded_keys ''browser_trace'' = [''action'', ''path'']"
  by (simp add: unguarded_keys_def unguarded_table_def)

lemma ung_recording: "unguarded_keys ''browser_recording'' = [''action'']"
  by (simp add: unguarded_keys_def unguarded_table_def)

lemma ung_har: "unguarded_keys ''browser_har'' = [''action'', ''path'']"
  by (simp add: unguarded_keys_def unguarded_table_def)

lemma ung_tab: "unguarded_keys ''browser_tab'' = [''action'']"
  by (simp add: unguarded_keys_def unguarded_table_def)

lemma ung_window: "unguarded_keys ''browser_window'' = [''action'', ''viewport'']"
  by (simp add: unguarded_keys_def unguarded_table_def)

lemma ung_frame: "unguarded_keys ''browser_frame'' = [''action'']"
  by (simp add: unguarded_keys_def unguarded_table_def)

lemma ung_pdf: "unguarded_keys ''browser_pdf'' = [''action'', ''path'']"
  by (simp add: unguarded_keys_def unguarded_table_def)

lemma ung_download: "unguarded_keys ''browser_download'' = [''action'', ''selector'', ''path'']"
  by (simp add: unguarded_keys_def unguarded_table_def)

lemma ung_wait: "unguarded_keys ''browser_wait'' = [''action'']"
  by (simp add: unguarded_keys_def unguarded_table_def)

lemma ung_wait_for: "unguarded_keys ''browser_wait_for'' = [''action'']"
  by (simp add: unguarded_keys_def unguarded_table_def)

lemma ung_clipboard: "unguarded_keys ''browser_clipboard'' = [''action'', ''operation'']"
  by (simp add: unguarded_keys_def unguarded_table_def)

lemma ung_upload: "unguarded_keys ''browser_upload'' = [''action'', ''selector'', ''files'']"
  by (simp add: unguarded_keys_def unguarded_table_def)

lemma ung_drag: "unguarded_keys ''browser_drag'' = [''action'', ''source'', ''target'']"
  by (simp add: unguarded_keys_def unguarded_table_def)

lemma ung_multiselect: "unguarded_keys ''browser_multiselect'' = [''action'', ''selector'', ''values'']"
  by (simp add: unguarded_keys_def unguarded_table_def)

lemma ung_set_value: "unguarded_keys ''browser_set_value'' = [''action'', ''selector'', ''value'']"
  by (simp add: unguarded_keys_def unguarded_table_def)

lemma ung_ios_device_list: "unguarded_keys ''browser_ios_device_list'' = [''action'']"
  by (simp add: unguarded_keys_def unguarded_table_def)

lemma ung_ios_swipe: "unguarded_keys ''browser_ios_swipe'' = [''action'', ''direction'']"
  by (simp add: unguarded_keys_def unguarded_table_def)

lemmas ung_tool = ung_launch ung_navigate ung_snapshot ung_screenshot ung_close ung_history ung_page_info ung_element_action ung_input ung_input_action ung_select ung_press ung_scroll ung_find ung_get ung_check_state ung_storage ung_cookies ung_state ung_set_context ung_dialog ung_mouse ung_keyboard_raw ung_network ung_response_body ung_evaluate ung_set_content ung_add_script ung_add_style ung_add_init_script ung_dispatch_event ung_logs ung_highlight ung_styles ung_screencast ung_trace ung_recording ung_har ung_tab ung_window ung_frame ung_pdf ung_download ung_wait ung_wait_for ung_clipboard ung_upload ung_drag ung_multiselect ung_set_value ung_ios_device_list ung_ios_swipe

lemmas tool_defs = tool_add_init_script_def tool_check_state_def tool_clipboard_def tool_cookies_def tool_dialog_def tool_dispatch_event_def tool_download_def tool_drag_def tool_element_action_def tool_evaluate_def tool_find_def tool_frame_def tool_get_def tool_har_def tool_highlight_def tool_history_def tool_input_action_def tool_input_def tool_ios_swipe_def tool_keyboard_raw_def tool_logs_def tool_mouse_def tool_multiselect_def tool_network_def tool_page_info_def tool_pdf_def tool_press_def tool_recording_def tool_response_body_def tool_screencast_def tool_scroll_def tool_select_def tool_set_content_def tool_set_context_def tool_set_value_def tool_state_def tool_storage_def tool_styles_def tool_tab_def tool_trace_def tool_upload_def tool_wait_def tool_wait_for_def tool_window_def

subsection \<open>Reading a property of a built command\<close>

lemma get_update: "get (AList.update k v obj) k' = (if k' = k then v else get obj k')"
  by (simp add: get_def update_conv')

lemma get_copy_if_defined:
  "k \<noteq> k' \<Longrightarrow> get (copy_if_defined a k' cmd) k = get cmd k"
  by (simp add: copy_if_defined_def get_update split: option.splits)

lemma get_copy_fields:
  "k \<notin> set ks \<Longrightarrow> get (copy_fields a ks cmd) k = get cmd k"
  unfolding copy_fields_def
  by (induction ks arbitrary: cmd) (auto simp: get_copy_if_defined)

lemma get_Cons: "get ((k', v) # obj) k = (if k = k' then v else get obj k)"
  by (simp add: get_def)

lemma get_Nil: "get [] k = Undefined"
  by (simp add: get_def)

lemmas get_simps = get_update get_copy_fields get_Cons get_Nil

lemma map_of_update: "map_of (AList.update k' v cmd) k = (if k = k' then Some v else map_of cmd k)"
  by (simp add: update_conv')

lemma map_of_copy_if_defined_absent:
  "map_of a k = None \<Longrightarrow> map_of (copy_if_defined a k' cmd) k = map_of cmd k"
  by (auto simp: copy_if_defined_def map_of_update split: option.splits)

lemma map_of_copy_fields_absent:
  "map_of a k = None \<Longrightarrow> map_of (copy_fields a ks cmd) k = map_of cmd k"
  unfolding copy_fields_def
  by (induction ks arbitrary: cmd) (auto simp: map_of_copy_if_defined_absent)

lemma map_of_spread_other:
  "k \<notin> fst ` set a \<Longrightarrow>
   map_of (foldl (\<lambda>acc kv. AList.update (fst kv) (Val (snd kv)) acc) obj a) k = map_of obj k"
  by (induction a arbitrary: obj) (auto simp: update_conv')

lemma map_of_spread_absent:
  "map_of a k = None \<Longrightarrow> map_of (spread obj (Some a)) k = map_of obj k"
  by (simp add: spread_def map_of_spread_other map_of_eq_None_iff)

lemma map_of_set_computed:
  "map_of (set_computed k' v cmd) k = (if k = k' \<and> k' \<noteq> ''__proto__'' then Some v else map_of cmd k)"
  by (simp add: set_computed_def map_of_update)

lemmas absent_simps = map_of_update map_of_copy_fields_absent map_of_spread_absent map_of_set_computed

lemma map_of_spread:
  assumes "distinct (map fst a)"
  shows "map_of (foldl (\<lambda>acc kv. AList.update (fst kv) (Val (snd kv)) acc) obj a) k
     = (case map_of a k of Some v \<Rightarrow> Some (Val v) | None \<Rightarrow> map_of obj k)"
  using assms
proof (induction a arbitrary: obj)
  case Nil
  then show ?case by simp
next
  case (Cons kv a)
  obtain k0 v0 where kv: "kv = (k0, v0)" by (cases kv)
  from Cons.prems have d: "distinct (map fst a)" and n: "map_of a k0 = None"
    by (auto simp: kv map_of_eq_None_iff)
  have "map_of (foldl (\<lambda>acc kv. AList.update (fst kv) (Val (snd kv)) acc) obj (kv # a)) k
      = (case map_of a k of Some v \<Rightarrow> Some (Val v) | None \<Rightarrow> map_of (AList.update k0 (Val v0) obj) k)"
    using Cons.IH [OF d] by (simp add: kv)
  also have "\<dots> = (case map_of (kv # a) k of Some v \<Rightarrow> Some (Val v) | None \<Rightarrow> map_of obj k)"
  proof (cases "k = k0")
    case True
    then show ?thesis using n by (simp add: kv update_conv')
  next
    case False
    then show ?thesis by (simp add: kv update_conv' split: option.splits)
  qed
  finally show ?case .
qed


lemma spread_cong:
  assumes "map_of a1 = map_of a2" and "distinct (map fst a1)" and "distinct (map fst a2)"
  shows "map_of (spread obj (Some a1)) = map_of (spread obj (Some a2))"
  by (rule ext) (simp add: spread_def map_of_spread assms)

subsection \<open>The action of a command\<close>

text \<open>
  For a tool whose case spreads the arguments, an \<open>action\<close> among them replaces the
  tool's action on the command.
\<close>

lemma spread_tool_action_from_caller:
  assumes "name \<in> set spread_tools"
  shows "mapMergedToolToCommand name (Some [(''action'', v)]) = Inr [(''action'', Val v)]"
  using assms by (auto simp: spread_tools_def map_tool spread_def)


text \<open>
  For every other tool but \<open>browser_find\<close>, two argument bags that agree on the tool's
  discriminant argument give commands with the same action (or throw the same error).
\<close>

lemma action_by_discriminant:
  assumes "name \<notin> set spread_tools" and "name \<noteq> ''browser_find''"
    and "case discriminant_of name of None \<Rightarrow> True | Some d \<Rightarrow> map_of a1 d = map_of a2 d"
  shows "map_sum id (\<lambda>c. get c ''action'') (mapMergedToolToCommand name (Some a1))
       = map_sum id (\<lambda>c. get c ''action'') (mapMergedToolToCommand name (Some a2))"
proof (cases "name \<in> set (map tool_name MERGED_TOOLS)")
  case False
  then show ?thesis by (simp add: unregistered_name_throws)
next
  case True
  have "name \<notin> set spread_tools \<longrightarrow> name \<noteq> ''browser_find'' \<longrightarrow>
        (case discriminant_of name of None \<Rightarrow> True | Some d \<Rightarrow> map_of a1 d = map_of a2 d) \<longrightarrow>
        map_sum id (\<lambda>c. get c ''action'') (mapMergedToolToCommand name (Some a1))
          = map_sum id (\<lambda>c. get c ''action'') (mapMergedToolToCommand name (Some a2))"
    by (rule registered_cases [OF True])
       (simp_all add: map_tool disc_tool spread_tools_def with_args_def tool_defs get_simps argv_def
          Let_def split: option.splits)
  then show ?thesis using assms by blast
qed

text \<open>
  C10. \<open>browser_find\<close> selects the action \<open>find_by_role\<close> from \<open>method\<close>, and then
  replaces it by the \<open>action\<close> argument when there is one: with the same \<open>method\<close>, the
  command's action is \<open>find_by_role\<close> without an \<open>action\<close> argument and \<open>click\<close> with
  \<open>action: "click"\<close>.
\<close>

theorem find_action_replaces_canonical:
  "mapMergedToolToCommand ''browser_find''
       (Some [(''method'', JStr ''role''), (''value'', JStr ''button'')])
     = Inr [(''action'', str ''find_by_role''), (''role'', str ''button'')]
   \<and> mapMergedToolToCommand ''browser_find''
       (Some [(''method'', JStr ''role''), (''value'', JStr ''button''), (''action'', JStr ''click'')])
     = Inr [(''action'', str ''click''), (''role'', str ''button'')]"
  by (simp add: map_find with_args_def tool_find_def to_property_key_def table_lookup_def
      findByActionMap_def copy_fields_def copy_if_defined_def set_computed_def argv_def)

subsection \<open>Fields absent from the arguments\<close>

text \<open>
  C5 (as amended). A field that is absent from the arguments is absent from the command,
  unless it is one of the properties the tool's case writes without a presence guard
  (\<open>unguarded_keys\<close>), or, for \<open>browser_find\<close>, the property named after the \<open>method\<close>
  argument. The three media-emulation fields are not in that table.
\<close>

theorem absent_field_stays_absent:
  assumes "mapMergedToolToCommand name (Some a) = Inr cmd"
    and "map_of a k = None"
    and "k \<notin> set (unguarded_keys name)"
    and "name = ''browser_find'' \<longrightarrow> to_property_key (map_of a ''method'') \<noteq> Some k"
  shows "map_of cmd k = None"
proof (cases "name \<in> set (map tool_name MERGED_TOOLS)")
  case False
  then show ?thesis using assms(1) by (simp add: unregistered_name_throws)
next
  case True
  have "mapMergedToolToCommand name (Some a) = Inr cmd \<longrightarrow> map_of a k = None \<longrightarrow>
        k \<notin> set (unguarded_keys name) \<longrightarrow>
        (name = ''browser_find'' \<longrightarrow> to_property_key (map_of a ''method'') \<noteq> Some k) \<longrightarrow>
        map_of cmd k = None"
    by (rule registered_cases [OF True])
       (auto simp: map_tool ung_tool with_args_def tool_defs absent_simps Let_def
          split: option.splits if_splits)
  then show ?thesis using assms by blast
qed


theorem absent_field_stays_absent_witness:
  "mapMergedToolToCommand ''browser_set_context''
       (Some [(''setting'', JStr ''media''), (''media'', JStr ''print'')])
     = Inr [(''action'', str ''emulate_media''), (''media'', str ''print'')]
   \<and> map_of [(''setting'', JStr ''media''), (''media'', JStr ''print'')] ''colorScheme'' = None
   \<and> ''colorScheme'' \<notin> set (unguarded_keys ''browser_set_context'')
   \<and> map_of [(''action'', str ''emulate_media''), (''media'', str ''print'')] ''colorScheme'' = None"
proof -
  let ?a = "[(''setting'', JStr ''media''), (''media'', JStr ''print'')]"
  let ?c = "[(''action'', str ''emulate_media''), (''media'', str ''print'')]"
  have m: "mapMergedToolToCommand ''browser_set_context'' (Some ?a) = Inr ?c"
    by (simp add: map_set_context with_args_def tool_set_context_def copy_fields_def copy_if_defined_def)
  have a: "map_of ?a ''colorScheme'' = None" by simp
  have u: "''colorScheme'' \<notin> set (unguarded_keys ''browser_set_context'')"
    by (simp add: ung_set_context)
  have f: "''browser_set_context'' = ''browser_find'' \<longrightarrow>
           to_property_key (map_of ?a ''method'') \<noteq> Some ''colorScheme''"
    by simp
  have r: "map_of ?c ''colorScheme'' = None"
    by (rule absent_field_stays_absent [OF m a u f])
  show ?thesis using m a u r by blast
qed

text \<open>
  The optional schema fields that are in the table of unguarded properties, tool by tool.
\<close>

lemma unguarded_optional_fields:
  "concat (map (\<lambda>t. map (\<lambda>k. (tool_name t, k))
       (filter (\<lambda>k. k \<in> set (unguarded_keys (tool_name t))) (optional_fields t))) MERGED_TOOLS)
   = [(''browser_scroll'', ''selector''), (''browser_find'', ''action''), (''browser_find'', ''index''), (''browser_find'', ''selector''), (''browser_get'', ''attribute''), (''browser_cookies'', ''cookies''), (''browser_set_context'', ''device''), (''browser_set_context'', ''width''), (''browser_set_context'', ''height''), (''browser_set_context'', ''latitude''), (''browser_set_context'', ''longitude''), (''browser_set_context'', ''locale''), (''browser_set_context'', ''timezone''), (''browser_set_context'', ''offline''), (''browser_set_context'', ''headers''), (''browser_set_context'', ''username''), (''browser_set_context'', ''password''), (''browser_keyboard_raw'', ''key''), (''browser_keyboard_raw'', ''keys''), (''browser_network'', ''url''), (''browser_logs'', ''clear''), (''browser_trace'', ''path''), (''browser_har'', ''path'')]"
  by (simp add: MERGED_TOOLS_def optional_fields_def ung_tool)

text \<open>
  Two of them at work: \<open>index\<close>, optional for \<open>browser_find\<close>, is absent from the
  arguments and is \<open>0\<close> on the command; \<open>path\<close>, optional for \<open>browser_har\<close>, is absent from
  the arguments and present, with the value \<open>undefined\<close>, on the command.
\<close>

theorem optional_field_present_counterexample:
  "is_optional_field ''browser_find'' ''index''
   \<and> map_of [(''method'', JStr ''nth''), (''value'', JStr ''item''), (''selector'', JStr ''li'')] ''index'' = None
   \<and> mapMergedToolToCommand ''browser_find''
         (Some [(''method'', JStr ''nth''), (''value'', JStr ''item''), (''selector'', JStr ''li'')])
       = Inr [(''action'', str ''find_nth''), (''selector'', str ''li''), (''index'', Val (JNum 0))]
   \<and> is_optional_field ''browser_har'' ''path''
   \<and> map_of [(''action'', JStr ''stop'')] ''path'' = None
   \<and> mapMergedToolToCommand ''browser_har'' (Some [(''action'', JStr ''stop'')])
       = Inr [(''action'', str ''har_stop''), (''path'', Undefined)]"
  by (simp add: is_optional_field_def MERGED_TOOLS_def optional_fields_def map_find map_har
      with_args_def tool_find_def tool_har_def to_property_key_def table_lookup_def
      findByActionMap_def index_or_zero_def argv_def)

subsection \<open>Determinism\<close>

lemma tool_add_init_script_cong:
  assumes "map_of a1 = map_of a2"
  shows "tool_add_init_script a1 = tool_add_init_script a2"
  unfolding tool_add_init_script_def argv_def copy_fields_def copy_if_defined_def index_or_zero_def assms ..

lemma tool_check_state_cong:
  assumes "map_of a1 = map_of a2"
  shows "tool_check_state a1 = tool_check_state a2"
  unfolding tool_check_state_def argv_def copy_fields_def copy_if_defined_def index_or_zero_def assms ..

lemma tool_clipboard_cong:
  assumes "map_of a1 = map_of a2"
  shows "tool_clipboard a1 = tool_clipboard a2"
  unfolding tool_clipboard_def argv_def copy_fields_def copy_if_defined_def index_or_zero_def assms ..

lemma tool_cookies_cong:
  assumes "map_of a1 = map_of a2"
  shows "tool_cookies a1 = tool_cookies a2"
  unfolding tool_cookies_def argv_def copy_fields_def copy_if_defined_def index_or_zero_def assms ..

lemma tool_dialog_cong:
  assumes "map_of a1 = map_of a2"
  shows "tool_dialog a1 = tool_dialog a2"
  unfolding tool_dialog_def argv_def copy_fields_def copy_if_defined_def index_or_zero_def assms ..

lemma tool_dispatch_event_cong:
  assumes "map_of a1 = map_of a2"
  shows "tool_dispatch_event a1 = tool_dispatch_event a2"
  unfolding tool_dispatch_event_def argv_def copy_fields_def copy_if_defined_def index_or_zero_def assms ..

lemma tool_download_cong:
  assumes "map_of a1 = map_of a2"
  shows "tool_download a1 = tool_download a2"
  unfolding tool_download_def argv_def copy_fields_def copy_if_defined_def index_or_zero_def assms ..

lemma tool_drag_cong:
  assumes "map_of a1 = map_of a2"
  shows "tool_drag a1 = tool_drag a2"
  unfolding tool_drag_def argv_def copy_fields_def copy_if_defined_def index_or_zero_def assms ..

lemma tool_element_action_cong:
  assumes "map_of a1 = map_of a2"
  shows "tool_element_action a1 = tool_element_action a2"
  unfolding tool_element_action_def argv_def copy_fields_def copy_if_defined_def index_or_zero_def assms ..

lemma tool_evaluate_cong:
  assumes "map_of a1 = map_of a2"
  shows "tool_evaluate a1 = tool_evaluate a2"
  unfolding tool_evaluate_def argv_def copy_fields_def copy_if_defined_def index_or_zero_def assms ..

lemma tool_find_cong:
  assumes "map_of a1 = map_of a2"
  shows "tool_find a1 = tool_find a2"
  unfolding tool_find_def argv_def copy_fields_def copy_if_defined_def index_or_zero_def assms ..

lemma tool_frame_cong:
  assumes "map_of a1 = map_of a2"
  shows "tool_frame a1 = tool_frame a2"
  unfolding tool_frame_def argv_def copy_fields_def copy_if_defined_def index_or_zero_def assms ..

lemma tool_get_cong:
  assumes "map_of a1 = map_of a2"
  shows "tool_get a1 = tool_get a2"
  unfolding tool_get_def argv_def copy_fields_def copy_if_defined_def index_or_zero_def assms ..

lemma tool_har_cong:
  assumes "map_of a1 = map_of a2"
  shows "tool_har a1 = tool_har a2"
  unfolding tool_har_def argv_def copy_fields_def copy_if_defined_def index_or_zero_def assms ..

lemma tool_highlight_cong:
  assumes "map_of a1 = map_of a2"
  shows "tool_highlight a1 = tool_highlight a2"
  unfolding tool_highlight_def argv_def copy_fields_def copy_if_defined_def index_or_zero_def assms ..

lemma tool_history_cong:
  assumes "map_of a1 = map_of a2"
  shows "tool_history a1 = tool_history a2"
  unfolding tool_history_def argv_def copy_fields_def copy_if_defined_def index_or_zero_def assms ..

lemma tool_input_cong:
  assumes "map_of a1 = map_of a2"
  shows "tool_input a1 = tool_input a2"
  unfolding tool_input_def argv_def copy_fields_def copy_if_defined_def index_or_zero_def assms ..

lemma tool_input_action_cong:
  assumes "map_of a1 = map_of a2"
  shows "tool_input_action a1 = tool_input_action a2"
  unfolding tool_input_action_def argv_def copy_fields_def copy_if_defined_def index_or_zero_def assms ..

lemma tool_ios_swipe_cong:
  assumes "map_of a1 = map_of a2"
  shows "tool_ios_swipe a1 = tool_ios_swipe a2"
  unfolding tool_ios_swipe_def argv_def copy_fields_def copy_if_defined_def index_or_zero_def assms ..

lemma tool_keyboard_raw_cong:
  assumes "map_of a1 = map_of a2"
  shows "tool_keyboard_raw a1 = tool_keyboard_raw a2"
  unfolding tool_keyboard_raw_def argv_def copy_fields_def copy_if_defined_def index_or_zero_def assms ..

lemma tool_logs_cong:
  assumes "map_of a1 = map_of a2"
  shows "tool_logs a1 = tool_logs a2"
  unfolding tool_logs_def argv_def copy_fields_def copy_if_defined_def index_or_zero_def assms ..

lemma tool_mouse_cong:
  assumes "map_of a1 = map_of a2"
  shows "tool_mouse a1 = tool_mouse a2"
  unfolding tool_mouse_def argv_def copy_fields_def copy_if_defined_def index_or_zero_def assms ..

lemma tool_multiselect_cong:
  assumes "map_of a1 = map_of a2"
  shows "tool_multiselect a1 = tool_multiselect a2"
  unfolding tool_multiselect_def argv_def copy_fields_def copy_if_defined_def index_or_zero_def assms ..

lemma tool_network_cong:
  assumes "map_of a1 = map_of a2"
  shows "tool_network a1 = tool_network a2"
  unfolding tool_network_def argv_def copy_fields_def copy_if_defined_def index_or_zero_def assms ..

lemma tool_page_info_cong:
  assumes "map_of a1 = map_of a2"
  shows "tool_page_info a1 = tool_page_info a2"
  unfolding tool_page_info_def argv_def copy_fields_def copy_if_defined_def index_or_zero_def assms ..

lemma tool_pdf_cong:
  assumes "map_of a1 = map_of a2"
  shows "tool_pdf a1 = tool_pdf a2"
  unfolding tool_pdf_def argv_def copy_fields_def copy_if_defined_def index_or_zero_def assms ..

lemma tool_press_cong:
  assumes "map_of a1 = map_of a2"
  shows "tool_press a1 = tool_press a2"
  unfolding tool_press_def argv_def copy_fields_def copy_if_defined_def index_or_zero_def assms ..

lemma tool_recording_cong:
  assumes "map_of a1 = map_of a2"
  shows "tool_recording a1 = tool_recording a2"
  unfolding tool_recording_def argv_def copy_fields_def copy_if_defined_def index_or_zero_def assms ..

lemma tool_response_body_cong:
  assumes "map_of a1 = map_of a2"
  shows "tool_response_body a1 = tool_response_body a2"
  unfolding tool_response_body_def argv_def copy_fields_def copy_if_defined_def index_or_zero_def assms ..

lemma tool_screencast_cong:
  assumes "map_of a1 = map_of a2"
  shows "tool_screencast a1 = tool_screencast a2"
  unfolding tool_screencast_def argv_def copy_fields_def copy_if_defined_def index_or_zero_def assms ..

lemma tool_scroll_cong:
  assumes "map_of a1 = map_of a2"
  shows "tool_scroll a1 = tool_scroll a2"
  unfolding tool_scroll_def argv_def copy_fields_def copy_if_defined_def index_or_zero_def assms ..

lemma tool_select_cong:
  assumes "map_of a1 = map_of a2"
  shows "tool_select a1 = tool_select a2"
  unfolding tool_select_def argv_def copy_fields_def copy_if_defined_def index_or_zero_def assms ..

lemma tool_set_content_cong:
  assumes "map_of a1 = map_of a2"
  shows "tool_set_content a1 = tool_set_content a2"
  unfolding tool_set_content_def argv_def copy_fields_def copy_if_defined_def index_or_zero_def assms ..

lemma tool_set_context_cong:
  assumes "map_of a1 = map_of a2"
  shows "tool_set_context a1 = tool_set_context a2"
  unfolding tool_set_context_def argv_def copy_fields_def copy_if_defined_def index_or_zero_def assms ..

lemma tool_set_value_cong:
  assumes "map_of a1 = map_of a2"
  shows "tool_set_value a1 = tool_set_value a2"
  unfolding tool_set_value_def argv_def copy_fields_def copy_if_defined_def index_or_zero_def assms ..

lemma tool_state_cong:
  assumes "map_of a1 = map_of a2"
  shows "tool_state a1 = tool_state a2"
  unfolding tool_state_def argv_def copy_fields_def copy_if_defined_def index_or_zero_def assms ..

lemma tool_storage_cong:
  assumes "map_of a1 = map_of a2"
  shows "tool_storage a1 = tool_storage a2"
  unfolding tool_storage_def argv_def copy_fields_def copy_if_defined_def index_or_zero_def assms ..

lemma tool_styles_cong:
  assumes "map_of a1 = map_of a2"
  shows "tool_styles a1 = tool_styles a2"
  unfolding tool_styles_def argv_def copy_fields_def copy_if_defined_def index_or_zero_def assms ..

lemma tool_tab_cong:
  assumes "map_of a1 = map_of a2"
  shows "tool_tab a1 = tool_tab a2"
  unfolding tool_tab_def argv_def copy_fields_def copy_if_defined_def index_or_zero_def assms ..

lemma tool_trace_cong:
  assumes "map_of a1 = map_of a2"
  shows "tool_trace a1 = tool_trace a2"
  unfolding tool_trace_def argv_def copy_fields_def copy_if_defined_def index_or_zero_def assms ..

lemma tool_upload_cong:
  assumes "map_of a1 = map_of a2"
  shows "tool_upload a1 = tool_upload a2"
  unfolding tool_upload_def argv_def copy_fields_def copy_if_defined_def index_or_zero_def assms ..

lemma tool_wait_cong:
  assumes "map_of a1 = map_of a2"
  shows "tool_wait a1 = tool_wait a2"
  unfolding tool_wait_def argv_def copy_fields_def copy_if_defined_def index_or_zero_def assms ..

lemma tool_wait_for_cong:
  assumes "map_of a1 = map_of a2"
  shows "tool_wait_for a1 = tool_wait_for a2"
  unfolding tool_wait_for_def argv_def copy_fields_def copy_if_defined_def index_or_zero_def assms ..

lemma tool_window_cong:
  assumes "map_of a1 = map_of a2"
  shows "tool_window a1 = tool_window a2"
  unfolding tool_window_def argv_def copy_fields_def copy_if_defined_def index_or_zero_def assms ..

lemmas tool_congs = tool_add_init_script_cong tool_check_state_cong tool_clipboard_cong tool_cookies_cong tool_dialog_cong tool_dispatch_event_cong tool_download_cong tool_drag_cong tool_element_action_cong tool_evaluate_cong tool_find_cong tool_frame_cong tool_get_cong tool_har_cong tool_highlight_cong tool_history_cong tool_input_cong tool_input_action_cong tool_ios_swipe_cong tool_keyboard_raw_cong tool_logs_cong tool_mouse_cong tool_multiselect_cong tool_network_cong tool_page_info_cong tool_pdf_cong tool_press_cong tool_recording_cong tool_response_body_cong tool_screencast_cong tool_scroll_cong tool_select_cong tool_set_content_cong tool_set_context_cong tool_set_value_cong tool_state_cong tool_storage_cong tool_styles_cong tool_tab_cong tool_trace_cong tool_upload_cong tool_wait_cong tool_wait_for_cong tool_window_cong

text \<open>
  C8. The mapper is a function of the tool name and the argument bag alone: it reads no
  other state and has no effect (the identifier is put on the command afterwards, by
  \<open>handleToolCall\<close>). Two argument bags that are equal as objects, whatever the order of
  their properties, are mapped to commands that are equal as objects, or make the mapper
  throw the same error.
\<close>

theorem mapper_deterministic:
  assumes "map_of a1 = map_of a2" and "distinct (map fst a1)" and "distinct (map fst a2)"
  shows "map_sum id map_of (mapMergedToolToCommand name (Some a1))
       = map_sum id map_of (mapMergedToolToCommand name (Some a2))"
proof (cases "name \<in> set (map tool_name MERGED_TOOLS)")
  case False
  then show ?thesis by (simp add: unregistered_name_throws)
next
  case True
  note c = tool_congs [OF assms(1)] spread_cong [OF assms]
  show ?thesis
    by (rule registered_cases [OF True]) (simp_all add: map_tool with_args_def c)
qed


theorem mapper_deterministic_witness:
  "map_of [(''url'', JStr ''https://example.com''), (''waitUntil'', JStr ''load'')]
     = map_of [(''waitUntil'', JStr ''load''), (''url'', JStr ''https://example.com'')]
   \<and> distinct (map fst [(''url'', JStr ''https://example.com''), (''waitUntil'', JStr ''load'')])
   \<and> distinct (map fst [(''waitUntil'', JStr ''load''), (''url'', JStr ''https://example.com'')])
   \<and> map_sum id map_of (mapMergedToolToCommand ''browser_navigate''
         (Some [(''url'', JStr ''https://example.com''), (''waitUntil'', JStr ''load'')]))
       = map_sum id map_of (mapMergedToolToCommand ''browser_navigate''
         (Some [(''waitUntil'', JStr ''load''), (''url'', JStr ''https://example.com'')]))"
proof -
  let ?a1 = "[(''url'', JStr ''https://example.com''), (''waitUntil'', JStr ''load'')]"
  let ?a2 = "[(''waitUntil'', JStr ''load''), (''url'', JStr ''https://example.com'')]"
  have e: "map_of ?a1 = map_of ?a2" by (rule ext) simp
  have d1: "distinct (map fst ?a1)" by simp
  have d2: "distinct (map fst ?a2)" by simp
  have r: "map_sum id map_of (mapMergedToolToCommand ''browser_navigate'' (Some ?a1))
         = map_sum id map_of (mapMergedToolToCommand ''browser_navigate'' (Some ?a2))"
    by (rule mapper_deterministic [OF e d1 d2])
  show ?thesis using e d1 d2 r by blast
qed

subsection \<open>Values the branches do not tell apart\<close>

lemma copy_if_defined_update_args:
  "d \<noteq> k \<Longrightarrow> copy_if_defined (AList.update d x a) k cmd = copy_if_defined a k cmd"
  by (simp add: copy_if_defined_def update_conv')

lemma copy_fields_update_args:
  "d \<notin> set ks \<Longrightarrow> copy_fields (AList.update d x a) ks cmd = copy_fields a ks cmd"
  unfolding copy_fields_def
  by (induction ks arbitrary: cmd) (auto simp: copy_if_defined_update_args)

lemma argv_update_args:
  "argv (AList.update d x a) k = (if k = d then Val x else argv a k)"
  by (simp add: argv_def update_conv')

lemma map_of_update_args:
  "map_of (AList.update d x a) k = (if k = d then Some x else map_of a k)"
  by (simp add: update_conv')

lemma table_lookup_other:
  "v \<notin> set (map fst tbl) \<Longrightarrow> v \<notin> set object_prototype_keys \<Longrightarrow> table_lookup tbl v = Undefined"
  by (simp add: table_lookup_def map_of_eq_None_iff [THEN iffD2])

lemmas update_args_simps =
  map_of_update_args argv_update_args copy_fields_update_args to_property_key_def Let_def


lemma blit_page_info: "branch_literals ''browser_page_info'' = [''url'']"
  by (simp add: branch_literals_def compared_literals_def)

lemma ign_page_info:
  assumes "v \<notin> set (branch_literals ''browser_page_info'')" and "v' \<notin> set (branch_literals ''browser_page_info'')"
    and "v \<notin> set object_prototype_keys" and "v' \<notin> set object_prototype_keys"
  shows "mapMergedToolToCommand ''browser_page_info'' (Some (AList.update ''info'' (JStr v) a))
       = mapMergedToolToCommand ''browser_page_info'' (Some (AList.update ''info'' (JStr v') a))"
  using assms(1,2) unfolding blit_page_info
  by (simp add: map_page_info with_args_def tool_page_info_def update_args_simps)

lemma blit_input: "branch_literals ''browser_input'' = [''fill'']"
  by (simp add: branch_literals_def compared_literals_def)

lemma ign_input:
  assumes "v \<notin> set (branch_literals ''browser_input'')" and "v' \<notin> set (branch_literals ''browser_input'')"
    and "v \<notin> set object_prototype_keys" and "v' \<notin> set object_prototype_keys"
  shows "mapMergedToolToCommand ''browser_input'' (Some (AList.update ''action'' (JStr v) a))
       = mapMergedToolToCommand ''browser_input'' (Some (AList.update ''action'' (JStr v') a))"
  using assms(1,2) unfolding blit_input
  by (simp add: map_input with_args_def tool_input_def update_args_simps)

lemma blit_scroll: "branch_literals ''browser_scroll'' = [''scroll_into_view'']"
  by (simp add: branch_literals_def compared_literals_def)

lemma ign_scroll:
  assumes "v \<notin> set (branch_literals ''browser_scroll'')" and "v' \<notin> set (branch_literals ''browser_scroll'')"
    and "v \<notin> set object_prototype_keys" and "v' \<notin> set object_prototype_keys"
  shows "mapMergedToolToCommand ''browser_scroll'' (Some (AList.update ''action'' (JStr v) a))
       = mapMergedToolToCommand ''browser_scroll'' (Some (AList.update ''action'' (JStr v') a))"
  using assms(1,2) unfolding blit_scroll
  by (simp add: map_scroll with_args_def tool_scroll_def update_args_simps)

lemma blit_get: "branch_literals ''browser_get'' = map fst getActionMap"
  by (simp add: branch_literals_def)

lemma ign_get:
  assumes "v \<notin> set (branch_literals ''browser_get'')" and "v' \<notin> set (branch_literals ''browser_get'')"
    and "v \<notin> set object_prototype_keys" and "v' \<notin> set object_prototype_keys"
  shows "mapMergedToolToCommand ''browser_get'' (Some (AList.update ''property'' (JStr v) a))
       = mapMergedToolToCommand ''browser_get'' (Some (AList.update ''property'' (JStr v') a))"
proof -
  have k: "v \<notin> set (map fst getActionMap)" "v' \<notin> set (map fst getActionMap)"
    using assms(1,2) unfolding blit_get by simp_all
  have "v \<noteq> ''attribute''" "v' \<noteq> ''attribute''"
    using k by (auto simp: getActionMap_def)
  then show ?thesis
    using k assms(3,4)
    by (simp add: map_get with_args_def tool_get_def update_args_simps table_lookup_other)
qed

lemma blit_check_state: "branch_literals ''browser_check_state'' = map fst stateActionMap"
  by (simp add: branch_literals_def)

lemma ign_check_state:
  assumes "v \<notin> set (branch_literals ''browser_check_state'')" and "v' \<notin> set (branch_literals ''browser_check_state'')"
    and "v \<notin> set object_prototype_keys" and "v' \<notin> set object_prototype_keys"
  shows "mapMergedToolToCommand ''browser_check_state'' (Some (AList.update ''state'' (JStr v) a))
       = mapMergedToolToCommand ''browser_check_state'' (Some (AList.update ''state'' (JStr v') a))"
proof -
  have k: "v \<notin> set (map fst stateActionMap)" "v' \<notin> set (map fst stateActionMap)"
    using assms(1,2) unfolding blit_check_state by simp_all
  show ?thesis
    using k assms(3,4)
    by (simp add: map_check_state with_args_def tool_check_state_def update_args_simps table_lookup_other)
qed

lemma blit_storage: "branch_literals ''browser_storage'' = map fst storageActionMap"
  by (simp add: branch_literals_def)

lemma ign_storage:
  assumes "v \<notin> set (branch_literals ''browser_storage'')" and "v' \<notin> set (branch_literals ''browser_storage'')"
    and "v \<notin> set object_prototype_keys" and "v' \<notin> set object_prototype_keys"
  shows "mapMergedToolToCommand ''browser_storage'' (Some (AList.update ''action'' (JStr v) a))
       = mapMergedToolToCommand ''browser_storage'' (Some (AList.update ''action'' (JStr v') a))"
proof -
  have k: "v \<notin> set (map fst storageActionMap)" "v' \<notin> set (map fst storageActionMap)"
    using assms(1,2) unfolding blit_storage by simp_all
  show ?thesis
    using k assms(3,4)
    by (simp add: map_storage with_args_def tool_storage_def update_args_simps table_lookup_other)
qed

lemma blit_cookies: "branch_literals ''browser_cookies'' = [''get'']"
  by (simp add: branch_literals_def compared_literals_def)

lemma ign_cookies:
  assumes "v \<notin> set (branch_literals ''browser_cookies'')" and "v' \<notin> set (branch_literals ''browser_cookies'')"
    and "v \<notin> set object_prototype_keys" and "v' \<notin> set object_prototype_keys"
  shows "mapMergedToolToCommand ''browser_cookies'' (Some (AList.update ''action'' (JStr v) a))
       = mapMergedToolToCommand ''browser_cookies'' (Some (AList.update ''action'' (JStr v') a))"
  using assms(1,2) unfolding blit_cookies
  by (simp add: map_cookies with_args_def tool_cookies_def update_args_simps)

lemma blit_state: "branch_literals ''browser_state'' = [''save'']"
  by (simp add: branch_literals_def compared_literals_def)

lemma ign_state:
  assumes "v \<notin> set (branch_literals ''browser_state'')" and "v' \<notin> set (branch_literals ''browser_state'')"
    and "v \<notin> set object_prototype_keys" and "v' \<notin> set object_prototype_keys"
  shows "mapMergedToolToCommand ''browser_state'' (Some (AList.update ''action'' (JStr v) a))
       = mapMergedToolToCommand ''browser_state'' (Some (AList.update ''action'' (JStr v') a))"
  using assms(1,2) unfolding blit_state
  by (simp add: map_state with_args_def tool_state_def update_args_simps)

lemma blit_set_context: "branch_literals ''browser_set_context'' = [''device'', ''viewport'', ''geolocation'', ''locale'', ''timezone'', ''offline'', ''media'', ''headers'', ''credentials'']"
  by (simp add: branch_literals_def compared_literals_def)

lemma ign_set_context:
  assumes "v \<notin> set (branch_literals ''browser_set_context'')" and "v' \<notin> set (branch_literals ''browser_set_context'')"
    and "v \<notin> set object_prototype_keys" and "v' \<notin> set object_prototype_keys"
  shows "mapMergedToolToCommand ''browser_set_context'' (Some (AList.update ''setting'' (JStr v) a))
       = mapMergedToolToCommand ''browser_set_context'' (Some (AList.update ''setting'' (JStr v') a))"
  using assms(1,2) unfolding blit_set_context
  by (simp add: map_set_context with_args_def tool_set_context_def update_args_simps)

lemma blit_dialog: "branch_literals ''browser_dialog'' = [''accept'']"
  by (simp add: branch_literals_def compared_literals_def)

lemma ign_dialog:
  assumes "v \<notin> set (branch_literals ''browser_dialog'')" and "v' \<notin> set (branch_literals ''browser_dialog'')"
    and "v \<notin> set object_prototype_keys" and "v' \<notin> set object_prototype_keys"
  shows "mapMergedToolToCommand ''browser_dialog'' (Some (AList.update ''action'' (JStr v) a))
       = mapMergedToolToCommand ''browser_dialog'' (Some (AList.update ''action'' (JStr v') a))"
  using assms(1,2) unfolding blit_dialog
  by (simp add: map_dialog with_args_def tool_dialog_def update_args_simps)

lemma blit_mouse: "branch_literals ''browser_mouse'' = [''down'', ''up'', ''move'']"
  by (simp add: branch_literals_def compared_literals_def)

lemma ign_mouse:
  assumes "v \<notin> set (branch_literals ''browser_mouse'')" and "v' \<notin> set (branch_literals ''browser_mouse'')"
    and "v \<notin> set object_prototype_keys" and "v' \<notin> set object_prototype_keys"
  shows "mapMergedToolToCommand ''browser_mouse'' (Some (AList.update ''action'' (JStr v) a))
       = mapMergedToolToCommand ''browser_mouse'' (Some (AList.update ''action'' (JStr v') a))"
  using assms(1,2) unfolding blit_mouse
  by (simp add: map_mouse with_args_def tool_mouse_def update_args_simps)

lemma blit_keyboard_raw: "branch_literals ''browser_keyboard_raw'' = [''shortcut'', ''down'']"
  by (simp add: branch_literals_def compared_literals_def)

lemma ign_keyboard_raw:
  assumes "v \<notin> set (branch_literals ''browser_keyboard_raw'')" and "v' \<notin> set (branch_literals ''browser_keyboard_raw'')"
    and "v \<notin> set object_prototype_keys" and "v' \<notin> set object_prototype_keys"
  shows "mapMergedToolToCommand ''browser_keyboard_raw'' (Some (AList.update ''action'' (JStr v) a))
       = mapMergedToolToCommand ''browser_keyboard_raw'' (Some (AList.update ''action'' (JStr v') a))"
  using assms(1,2) unfolding blit_keyboard_raw
  by (simp add: map_keyboard_raw with_args_def tool_keyboard_raw_def update_args_simps)

lemma blit_network: "branch_literals ''browser_network'' = [''requests'', ''route'']"
  by (simp add: branch_literals_def compared_literals_def)

lemma ign_network:
  assumes "v \<notin> set (branch_literals ''browser_network'')" and "v' \<notin> set (branch_literals ''browser_network'')"
    and "v \<notin> set object_prototype_keys" and "v' \<notin> set object_prototype_keys"
  shows "mapMergedToolToCommand ''browser_network'' (Some (AList.update ''action'' (JStr v) a))
       = mapMergedToolToCommand ''browser_network'' (Some (AList.update ''action'' (JStr v') a))"
  using assms(1,2) unfolding blit_network
  by (simp add: map_network with_args_def tool_network_def update_args_simps)

lemma blit_screencast: "branch_literals ''browser_screencast'' = [''start'']"
  by (simp add: branch_literals_def compared_literals_def)

lemma ign_screencast:
  assumes "v \<notin> set (branch_literals ''browser_screencast'')" and "v' \<notin> set (branch_literals ''browser_screencast'')"
    and "v \<notin> set object_prototype_keys" and "v' \<notin> set object_prototype_keys"
  shows "mapMergedToolToCommand ''browser_screencast'' (Some (AList.update ''action'' (JStr v) a))
       = mapMergedToolToCommand ''browser_screencast'' (Some (AList.update ''action'' (JStr v') a))"
  using assms(1,2) unfolding blit_screencast
  by (simp add: map_screencast with_args_def tool_screencast_def update_args_simps)

lemma blit_trace: "branch_literals ''browser_trace'' = [''start'']"
  by (simp add: branch_literals_def compared_literals_def)

lemma ign_trace:
  assumes "v \<notin> set (branch_literals ''browser_trace'')" and "v' \<notin> set (branch_literals ''browser_trace'')"
    and "v \<notin> set object_prototype_keys" and "v' \<notin> set object_prototype_keys"
  shows "mapMergedToolToCommand ''browser_trace'' (Some (AList.update ''action'' (JStr v) a))
       = mapMergedToolToCommand ''browser_trace'' (Some (AList.update ''action'' (JStr v') a))"
  using assms(1,2) unfolding blit_trace
  by (simp add: map_trace with_args_def tool_trace_def update_args_simps)

lemma blit_recording: "branch_literals ''browser_recording'' = [''start'', ''stop'']"
  by (simp add: branch_literals_def compared_literals_def)

lemma ign_recording:
  assumes "v \<notin> set (branch_literals ''browser_recording'')" and "v' \<notin> set (branch_literals ''browser_recording'')"
    and "v \<notin> set object_prototype_keys" and "v' \<notin> set object_prototype_keys"
  shows "mapMergedToolToCommand ''browser_recording'' (Some (AList.update ''action'' (JStr v) a))
       = mapMergedToolToCommand ''browser_recording'' (Some (AList.update ''action'' (JStr v') a))"
  using assms(1,2) unfolding blit_recording
  by (simp add: map_recording with_args_def tool_recording_def update_args_simps)

lemma blit_har: "branch_literals ''browser_har'' = [''start'', ''stop'']"
  by (simp add: branch_literals_def compared_literals_def)

lemma ign_har:
  assumes "v \<notin> set (branch_literals ''browser_har'')" and "v' \<notin> set (branch_literals ''browser_har'')"
    and "v \<notin> set object_prototype_keys" and "v' \<notin> set object_prototype_keys"
  shows "mapMergedToolToCommand ''browser_har'' (Some (AList.update ''action'' (JStr v) a))
       = mapMergedToolToCommand ''browser_har'' (Some (AList.update ''action'' (JStr v') a))"
  using assms(1,2) unfolding blit_har
  by (simp add: map_har with_args_def tool_har_def update_args_simps)

lemma blit_window: "branch_literals ''browser_window'' = [''new'']"
  by (simp add: branch_literals_def compared_literals_def)

lemma ign_window:
  assumes "v \<notin> set (branch_literals ''browser_window'')" and "v' \<notin> set (branch_literals ''browser_window'')"
    and "v \<notin> set object_prototype_keys" and "v' \<notin> set object_prototype_keys"
  shows "mapMergedToolToCommand ''browser_window'' (Some (AList.update ''action'' (JStr v) a))
       = mapMergedToolToCommand ''browser_window'' (Some (AList.update ''action'' (JStr v') a))"
  using assms(1,2) unfolding blit_window
  by (simp add: map_window with_args_def tool_window_def update_args_simps)

lemma blit_frame: "branch_literals ''browser_frame'' = [''main'']"
  by (simp add: branch_literals_def compared_literals_def)

lemma ign_frame:
  assumes "v \<notin> set (branch_literals ''browser_frame'')" and "v' \<notin> set (branch_literals ''browser_frame'')"
    and "v \<notin> set object_prototype_keys" and "v' \<notin> set object_prototype_keys"
  shows "mapMergedToolToCommand ''browser_frame'' (Some (AList.update ''action'' (JStr v) a))
       = mapMergedToolToCommand ''browser_frame'' (Some (AList.update ''action'' (JStr v') a))"
  using assms(1,2) unfolding blit_frame
  by (simp add: map_frame with_args_def tool_frame_def update_args_simps)

lemma blit_wait_for: "branch_literals ''browser_wait_for'' = map fst waitForActionMap"
  by (simp add: branch_literals_def)

lemma ign_wait_for:
  assumes "v \<notin> set (branch_literals ''browser_wait_for'')" and "v' \<notin> set (branch_literals ''browser_wait_for'')"
    and "v \<notin> set object_prototype_keys" and "v' \<notin> set object_prototype_keys"
  shows "mapMergedToolToCommand ''browser_wait_for'' (Some (AList.update ''condition'' (JStr v) a))
       = mapMergedToolToCommand ''browser_wait_for'' (Some (AList.update ''condition'' (JStr v') a))"
proof -
  have k: "v \<notin> set (map fst waitForActionMap)" "v' \<notin> set (map fst waitForActionMap)"
    using assms(1,2) unfolding blit_wait_for by simp_all
  show ?thesis
    using k assms(3,4)
    by (simp add: map_wait_for with_args_def tool_wait_for_def update_args_simps table_lookup_other)
qed


lemma discriminant_cases:
  assumes "(name, d) \<in> set discriminant_table"
    and "P ''browser_history'' ''action''"
    and "P ''browser_page_info'' ''info''"
    and "P ''browser_element_action'' ''action''"
    and "P ''browser_input'' ''action''"
    and "P ''browser_input_action'' ''action''"
    and "P ''browser_scroll'' ''action''"
    and "P ''browser_find'' ''method''"
    and "P ''browser_get'' ''property''"
    and "P ''browser_check_state'' ''state''"
    and "P ''browser_storage'' ''action''"
    and "P ''browser_cookies'' ''action''"
    and "P ''browser_state'' ''action''"
    and "P ''browser_set_context'' ''setting''"
    and "P ''browser_dialog'' ''action''"
    and "P ''browser_mouse'' ''action''"
    and "P ''browser_keyboard_raw'' ''action''"
    and "P ''browser_network'' ''action''"
    and "P ''browser_logs'' ''type''"
    and "P ''browser_screencast'' ''action''"
    and "P ''browser_trace'' ''action''"
    and "P ''browser_recording'' ''action''"
    and "P ''browser_har'' ''action''"
    and "P ''browser_tab'' ''action''"
    and "P ''browser_window'' ''action''"
    and "P ''browser_frame'' ''action''"
    and "P ''browser_wait_for'' ''condition''"
    and "P ''browser_clipboard'' ''action''"
  shows "P name d"
  using assms unfolding discriminant_table_def by auto

lemma ignp_history:
  "''browser_history'' \<notin> set passthrough_tools \<longrightarrow>
   v \<notin> set (branch_literals ''browser_history'') \<longrightarrow> v' \<notin> set (branch_literals ''browser_history'') \<longrightarrow>
   v \<notin> set object_prototype_keys \<longrightarrow> v' \<notin> set object_prototype_keys \<longrightarrow>
   mapMergedToolToCommand ''browser_history'' (Some (AList.update ''action'' (JStr v) a))
     = mapMergedToolToCommand ''browser_history'' (Some (AList.update ''action'' (JStr v') a))"
  by (simp add: passthrough_tools_def)

lemma ignp_page_info:
  "''browser_page_info'' \<notin> set passthrough_tools \<longrightarrow>
   v \<notin> set (branch_literals ''browser_page_info'') \<longrightarrow> v' \<notin> set (branch_literals ''browser_page_info'') \<longrightarrow>
   v \<notin> set object_prototype_keys \<longrightarrow> v' \<notin> set object_prototype_keys \<longrightarrow>
   mapMergedToolToCommand ''browser_page_info'' (Some (AList.update ''info'' (JStr v) a))
     = mapMergedToolToCommand ''browser_page_info'' (Some (AList.update ''info'' (JStr v') a))"
  by (intro impI) (rule ign_page_info)

lemma ignp_element_action:
  "''browser_element_action'' \<notin> set passthrough_tools \<longrightarrow>
   v \<notin> set (branch_literals ''browser_element_action'') \<longrightarrow> v' \<notin> set (branch_literals ''browser_element_action'') \<longrightarrow>
   v \<notin> set object_prototype_keys \<longrightarrow> v' \<notin> set object_prototype_keys \<longrightarrow>
   mapMergedToolToCommand ''browser_element_action'' (Some (AList.update ''action'' (JStr v) a))
     = mapMergedToolToCommand ''browser_element_action'' (Some (AList.update ''action'' (JStr v') a))"
  by (simp add: passthrough_tools_def)

lemma ignp_input:
  "''browser_input'' \<notin> set passthrough_tools \<longrightarrow>
   v \<notin> set (branch_literals ''browser_input'') \<longrightarrow> v' \<notin> set (branch_literals ''browser_input'') \<longrightarrow>
   v \<notin> set object_prototype_keys \<longrightarrow> v' \<notin> set object_prototype_keys \<longrightarrow>
   mapMergedToolToCommand ''browser_input'' (Some (AList.update ''action'' (JStr v) a))
     = mapMergedToolToCommand ''browser_input'' (Some (AList.update ''action'' (JStr v') a))"
  by (intro impI) (rule ign_input)

lemma ignp_input_action:
  "''browser_input_action'' \<notin> set passthrough_tools \<longrightarrow>
   v \<notin> set (branch_literals ''browser_input_action'') \<longrightarrow> v' \<notin> set (branch_literals ''browser_input_action'') \<longrightarrow>
   v \<notin> set object_prototype_keys \<longrightarrow> v' \<notin> set object_prototype_keys \<longrightarrow>
   mapMergedToolToCommand ''browser_input_action'' (Some (AList.update ''action'' (JStr v) a))
     = mapMergedToolToCommand ''browser_input_action'' (Some (AList.update ''action'' (JStr v') a))"
  by (simp add: passthrough_tools_def)

lemma ignp_scroll:
  "''browser_scroll'' \<notin> set passthrough_tools \<longrightarrow>
   v \<notin> set (branch_literals ''browser_scroll'') \<longrightarrow> v' \<notin> set (branch_literals ''browser_scroll'') \<longrightarrow>
   v \<notin> set object_prototype_keys \<longrightarrow> v' \<notin> set object_prototype_keys \<longrightarrow>
   mapMergedToolToCommand ''browser_scroll'' (Some (AList.update ''action'' (JStr v) a))
     = mapMergedToolToCommand ''browser_scroll'' (Some (AList.update ''action'' (JStr v') a))"
  by (intro impI) (rule ign_scroll)

lemma ignp_find:
  "''browser_find'' \<notin> set passthrough_tools \<longrightarrow>
   v \<notin> set (branch_literals ''browser_find'') \<longrightarrow> v' \<notin> set (branch_literals ''browser_find'') \<longrightarrow>
   v \<notin> set object_prototype_keys \<longrightarrow> v' \<notin> set object_prototype_keys \<longrightarrow>
   mapMergedToolToCommand ''browser_find'' (Some (AList.update ''method'' (JStr v) a))
     = mapMergedToolToCommand ''browser_find'' (Some (AList.update ''method'' (JStr v') a))"
  by (simp add: passthrough_tools_def)

lemma ignp_get:
  "''browser_get'' \<notin> set passthrough_tools \<longrightarrow>
   v \<notin> set (branch_literals ''browser_get'') \<longrightarrow> v' \<notin> set (branch_literals ''browser_get'') \<longrightarrow>
   v \<notin> set object_prototype_keys \<longrightarrow> v' \<notin> set object_prototype_keys \<longrightarrow>
   mapMergedToolToCommand ''browser_get'' (Some (AList.update ''property'' (JStr v) a))
     = mapMergedToolToCommand ''browser_get'' (Some (AList.update ''property'' (JStr v') a))"
  by (intro impI) (rule ign_get)

lemma ignp_check_state:
  "''browser_check_state'' \<notin> set passthrough_tools \<longrightarrow>
   v \<notin> set (branch_literals ''browser_check_state'') \<longrightarrow> v' \<notin> set (branch_literals ''browser_check_state'') \<longrightarrow>
   v \<notin> set object_prototype_keys \<longrightarrow> v' \<notin> set object_prototype_keys \<longrightarrow>
   mapMergedToolToCommand ''browser_check_state'' (Some (AList.update ''state'' (JStr v) a))
     = mapMergedToolToCommand ''browser_check_state'' (Some (AList.update ''state'' (JStr v') a))"
  by (intro impI) (rule ign_check_state)

lemma ignp_storage:
  "''browser_storage'' \<notin> set passthrough_tools \<longrightarrow>
   v \<notin> set (branch_literals ''browser_storage'') \<longrightarrow> v' \<notin> set (branch_literals ''browser_storage'') \<longrightarrow>
   v \<notin> set object_prototype_keys \<longrightarrow> v' \<notin> set object_prototype_keys \<longrightarrow>
   mapMergedToolToCommand ''browser_storage'' (Some (AList.update ''action'' (JStr v) a))
     = mapMergedToolToCommand ''browser_storage'' (Some (AList.update ''action'' (JStr v') a))"
  by (intro impI) (rule ign_storage)

lemma ignp_cookies:
  "''browser_cookies'' \<notin> set passthrough_tools \<longrightarrow>
   v \<notin> set (branch_literals ''browser_cookies'') \<longrightarrow> v' \<notin> set (branch_literals ''browser_cookies'') \<longrightarrow>
   v \<notin> set object_prototype_keys \<longrightarrow> v' \<notin> set object_prototype_keys \<longrightarrow>
   mapMergedToolToCommand ''browser_cookies'' (Some (AList.update ''action'' (JStr v) a))
     = mapMergedToolToCommand ''browser_cookies'' (Some (AList.update ''action'' (JStr v') a))"
  by (intro impI) (rule ign_cookies)

lemma ignp_state:
  "''browser_state'' \<notin> set passthrough_tools \<longrightarrow>
   v \<notin> set (branch_literals ''browser_state'') \<longrightarrow> v' \<notin> set (branch_literals ''browser_state'') \<longrightarrow>
   v \<notin> set object_prototype_keys \<longrightarrow> v' \<notin> set object_prototype_keys \<longrightarrow>
   mapMergedToolToCommand ''browser_state'' (Some (AList.update ''action'' (JStr v) a))
     = mapMergedToolToCommand ''browser_state'' (Some (AList.update ''action'' (JStr v') a))"
  by (intro impI) (rule ign_state)

lemma ignp_set_context:
  "''browser_set_context'' \<notin> set passthrough_tools \<longrightarrow>
   v \<notin> set (branch_literals ''browser_set_context'') \<longrightarrow> v' \<notin> set (branch_literals ''browser_set_context'') \<longrightarrow>
   v \<notin> set object_prototype_keys \<longrightarrow> v' \<notin> set object_prototype_keys \<longrightarrow>
   mapMergedToolToCommand ''browser_set_context'' (Some (AList.update ''setting'' (JStr v) a))
     = mapMergedToolToCommand ''browser_set_context'' (Some (AList.update ''setting'' (JStr v') a))"
  by (intro impI) (rule ign_set_context)

lemma ignp_dialog:
  "''browser_dialog'' \<notin> set passthrough_tools \<longrightarrow>
   v \<notin> set (branch_literals ''browser_dialog'') \<longrightarrow> v' \<notin> set (branch_literals ''browser_dialog'') \<longrightarrow>
   v \<notin> set object_prototype_keys \<longrightarrow> v' \<notin> set object_prototype_keys \<longrightarrow>
   mapMergedToolToCommand ''browser_dialog'' (Some (AList.update ''action'' (JStr v) a))
     = mapMergedToolToCommand ''browser_dialog'' (Some (AList.update ''action'' (JStr v') a))"
  by (intro impI) (rule ign_dialog)

lemma ignp_mouse:
  "''browser_mouse'' \<notin> set passthrough_tools \<longrightarrow>
   v \<notin> set (branch_literals ''browser_mouse'') \<longrightarrow> v' \<notin> set (branch_literals ''browser_mouse'') \<longrightarrow>
   v \<notin> set object_prototype_keys \<longrightarrow> v' \<notin> set object_prototype_keys \<longrightarrow>
   mapMergedToolToCommand ''browser_mouse'' (Some (AList.update ''action'' (JStr v) a))
     = mapMergedToolToCommand ''browser_mouse'' (Some (AList.update ''action'' (JStr v') a))"
  by (intro impI) (rule ign_mouse)

lemma ignp_keyboard_raw:
  "''browser_keyboard_raw'' \<notin> set passthrough_tools \<longrightarrow>
   v \<notin> set (branch_literals ''browser_keyboard_raw'') \<longrightarrow> v' \<notin> set (branch_literals ''browser_keyboard_raw'') \<longrightarrow>
   v \<notin> set object_prototype_keys \<longrightarrow> v' \<notin> set object_prototype_keys \<longrightarrow>
   mapMergedToolToCommand ''browser_keyboard_raw'' (Some (AList.update ''action'' (JStr v) a))
     = mapMergedToolToCommand ''browser_keyboard_raw'' (Some (AList.update ''action'' (JStr v') a))"
  by (intro impI) (rule ign_keyboard_raw)

lemma ignp_network:
  "''browser_network'' \<notin> set passthrough_tools \<longrightarrow>
   v \<notin> set (branch_literals ''browser_network'') \<longrightarrow> v' \<notin> set (branch_literals ''browser_network'') \<longrightarrow>
   v \<notin> set object_prototype_keys \<longrightarrow> v' \<notin> set object_prototype_keys \<longrightarrow>
   mapMergedToolToCommand ''browser_network'' (Some (AList.update ''action'' (JStr v) a))
     = mapMergedToolToCommand ''browser_network'' (Some (AList.update ''action'' (JStr v') a))"
  by (intro impI) (rule ign_network)

lemma ignp_logs:
  "''browser_logs'' \<notin> set passthrough_tools \<longrightarrow>
   v \<notin> set (branch_literals ''browser_logs'') \<longrightarrow> v' \<notin> set (branch_literals ''browser_logs'') \<longrightarrow>
   v \<notin> set object_prototype_keys \<longrightarrow> v' \<notin> set object_prototype_keys \<longrightarrow>
   mapMergedToolToCommand ''browser_logs'' (Some (AList.update ''type'' (JStr v) a))
     = mapMergedToolToCommand ''browser_logs'' (Some (AList.update ''type'' (JStr v') a))"
  by (simp add: passthrough_tools_def)

lemma ignp_screencast:
  "''browser_screencast'' \<notin> set passthrough_tools \<longrightarrow>
   v \<notin> set (branch_literals ''browser_screencast'') \<longrightarrow> v' \<notin> set (branch_literals ''browser_screencast'') \<longrightarrow>
   v \<notin> set object_prototype_keys \<longrightarrow> v' \<notin> set object_prototype_keys \<longrightarrow>
   mapMergedToolToCommand ''browser_screencast'' (Some (AList.update ''action'' (JStr v) a))
     = mapMergedToolToCommand ''browser_screencast'' (Some (AList.update ''action'' (JStr v') a))"
  by (intro impI) (rule ign_screencast)

lemma ignp_trace:
  "''browser_trace'' \<notin> set passthrough_tools \<longrightarrow>
   v \<notin> set (branch_literals ''browser_trace'') \<longrightarrow> v' \<notin> set (branch_literals ''browser_trace'') \<longrightarrow>
   v \<notin> set object_prototype_keys \<longrightarrow> v' \<notin> set object_prototype_keys \<longrightarrow>
   mapMergedToolToCommand ''browser_trace'' (Some (AList.update ''action'' (JStr v) a))
     = mapMergedToolToCommand ''browser_trace'' (Some (AList.update ''action'' (JStr v') a))"
  by (intro impI) (rule ign_trace)

lemma ignp_recording:
  "''browser_recording'' \<notin> set passthrough_tools \<longrightarrow>
   v \<notin> set (branch_literals ''browser_recording'') \<longrightarrow> v' \<notin> set (branch_literals ''browser_recording'') \<longrightarrow>
   v \<notin> set object_prototype_keys \<longrightarrow> v' \<notin> set object_prototype_keys \<longrightarrow>
   mapMergedToolToCommand ''browser_recording'' (Some (AList.update ''action'' (JStr v) a))
     = mapMergedToolToCommand ''browser_recording'' (Some (AList.update ''action'' (JStr v') a))"
  by (intro impI) (rule ign_recording)

lemma ignp_har:
  "''browser_har'' \<notin> set passthrough_tools \<longrightarrow>
   v \<notin> set (branch_literals ''browser_har'') \<longrightarrow> v' \<notin> set (branch_literals ''browser_har'') \<longrightarrow>
   v \<notin> set object_prototype_keys \<longrightarrow> v' \<notin> set object_prototype_keys \<longrightarrow>
   mapMergedToolToCommand ''browser_har'' (Some (AList.update ''action'' (JStr v) a))
     = mapMergedToolToCommand ''browser_har'' (Some (AList.update ''action'' (JStr v') a))"
  by (intro impI) (rule ign_har)

lemma ignp_tab:
  "''browser_tab'' \<notin> set passthrough_tools \<longrightarrow>
   v \<notin> set (branch_literals ''browser_tab'') \<longrightarrow> v' \<notin> set (branch_literals ''browser_tab'') \<longrightarrow>
   v \<notin> set object_prototype_keys \<longrightarrow> v' \<notin> set object_prototype_keys \<longrightarrow>
   mapMergedToolToCommand ''browser_tab'' (Some (AList.update ''action'' (JStr v) a))
     = mapMergedToolToCommand ''browser_tab'' (Some (AList.update ''action'' (JStr v') a))"
  by (simp add: passthrough_tools_def)

lemma ignp_window:
  "''browser_window'' \<notin> set passthrough_tools \<longrightarrow>
   v \<notin> set (branch_literals ''browser_window'') \<longrightarrow> v' \<notin> set (branch_literals ''browser_window'') \<longrightarrow>
   v \<notin> set object_prototype_keys \<longrightarrow> v' \<notin> set object_prototype_keys \<longrightarrow>
   mapMergedToolToCommand ''browser_window'' (Some (AList.update ''action'' (JStr v) a))
     = mapMergedToolToCommand ''browser_window'' (Some (AList.update ''action'' (JStr v') a))"
  by (intro impI) (rule ign_window)

lemma ignp_frame:
  "''browser_frame'' \<notin> set passthrough_tools \<longrightarrow>
   v \<notin> set (branch_literals ''browser_frame'') \<longrightarrow> v' \<notin> set (branch_literals ''browser_frame'') \<longrightarrow>
   v \<notin> set object_prototype_keys \<longrightarrow> v' \<notin> set object_prototype_keys \<longrightarrow>
   mapMergedToolToCommand ''browser_frame'' (Some (AList.update ''action'' (JStr v) a))
     = mapMergedToolToCommand ''browser_frame'' (Some (AList.update ''action'' (JStr v') a))"
  by (intro impI) (rule ign_frame)

lemma ignp_wait_for:
  "''browser_wait_for'' \<notin> set passthrough_tools \<longrightarrow>
   v \<notin> set (branch_literals ''browser_wait_for'') \<longrightarrow> v' \<notin> set (branch_literals ''browser_wait_for'') \<longrightarrow>
   v \<notin> set object_prototype_keys \<longrightarrow> v' \<notin> set object_prototype_keys \<longrightarrow>
   mapMergedToolToCommand ''browser_wait_for'' (Some (AList.update ''condition'' (JStr v) a))
     = mapMergedToolToCommand ''browser_wait_for'' (Some (AList.update ''condition'' (JStr v') a))"
  by (intro impI) (rule ign_wait_for)

lemma ignp_clipboard:
  "''browser_clipboard'' \<notin> set passthrough_tools \<longrightarrow>
   v \<notin> set (branch_literals ''browser_clipboard'') \<longrightarrow> v' \<notin> set (branch_literals ''browser_clipboard'') \<longrightarrow>
   v \<notin> set object_prototype_keys \<longrightarrow> v' \<notin> set object_prototype_keys \<longrightarrow>
   mapMergedToolToCommand ''browser_clipboard'' (Some (AList.update ''action'' (JStr v) a))
     = mapMergedToolToCommand ''browser_clipboard'' (Some (AList.update ''action'' (JStr v') a))"
  by (simp add: passthrough_tools_def)

lemmas ignp_tool = ignp_history ignp_page_info ignp_element_action ignp_input ignp_input_action ignp_scroll ignp_find ignp_get ignp_check_state ignp_storage ignp_cookies ignp_state ignp_set_context ignp_dialog ignp_mouse ignp_keyboard_raw ignp_network ignp_logs ignp_screencast ignp_trace ignp_recording ignp_har ignp_tab ignp_window ignp_frame ignp_wait_for ignp_clipboard

text \<open>
  Two strings that are not among the literals of a tool's case (nor names of members of
  \<open>Object.prototype\<close>, which a lookup table inherits) are not told apart: put in the
  discriminant of the same argument bag, they give the same command. This is for the tools
  that do not copy the discriminant onto the command.
\<close>

lemma branches_ignore_other_values:
  assumes "discriminant_of name = Some d" and "name \<notin> set passthrough_tools"
    and "v \<notin> set (branch_literals name)" and "v' \<notin> set (branch_literals name)"
    and "v \<notin> set object_prototype_keys" and "v' \<notin> set object_prototype_keys"
  shows "mapMergedToolToCommand name (Some (AList.update d (JStr v) a))
       = mapMergedToolToCommand name (Some (AList.update d (JStr v') a))"
proof -
  have m: "(name, d) \<in> set discriminant_table"
    using assms(1) unfolding discriminant_of_def by (rule map_of_SomeD)
  have "name \<notin> set passthrough_tools \<longrightarrow>
        v \<notin> set (branch_literals name) \<longrightarrow> v' \<notin> set (branch_literals name) \<longrightarrow>
        v \<notin> set object_prototype_keys \<longrightarrow> v' \<notin> set object_prototype_keys \<longrightarrow>
        mapMergedToolToCommand name (Some (AList.update d (JStr v) a))
          = mapMergedToolToCommand name (Some (AList.update d (JStr v') a))"
    by (rule discriminant_cases [OF m]) (rule ignp_tool)+
  then show ?thesis using assms(2-6) by blast
qed

subsection \<open>Declared values and branches\<close>

lemma resolves_for_all_args:
  assumes "name \<notin> set spread_tools" and "name \<noteq> ''browser_find''"
    and "discriminant_of name = Some d"
    and "resolved_action name d v = Some (str s)"
    and "map_of a d = Some (JStr v)"
  shows "\<exists>cmd. mapMergedToolToCommand name (Some a) = Inr cmd \<and> get cmd ''action'' = str s"
proof -
  obtain c0 where c0: "mapMergedToolToCommand name (Some [(d, JStr v)]) = Inr c0"
    and a0: "get c0 ''action'' = str s"
    using assms(4) by (auto simp: resolved_action_def split: sum.splits)
  have "case discriminant_of name of None \<Rightarrow> True | Some k \<Rightarrow> map_of a k = map_of [(d, JStr v)] k"
    using assms(3,5) by simp
  from action_by_discriminant [of name a "[(d, JStr v)]", OF assms(1,2) this]
  have "map_sum id (\<lambda>c. get c ''action'') (mapMergedToolToCommand name (Some a)) = Inr (str s)"
    by (simp add: c0 a0)
  then show ?thesis by (cases "mapMergedToolToCommand name (Some a)") auto
qed

lemma find_resolves_for_all_args:
  assumes "map_of a ''method'' = Some (JStr v)"
    and "v \<in> set (map fst findByActionMap)"
    and "map_of a ''action'' = None"
  shows "\<exists>cmd. mapMergedToolToCommand ''browser_find'' (Some a) = Inr cmd
           \<and> get cmd ''action'' = table_lookup findByActionMap v"
  using assms
  by (auto simp: map_find with_args_def tool_find_def to_property_key_def findByActionMap_def
      set_computed_def get_simps Let_def)

lemma correspondence_from_table:
  assumes "name \<notin> set spread_tools" and "name \<noteq> ''browser_find''"
    and "discriminant_of name = Some d"
    and "schema_enum name d = map fst tbl" and "emitted_actions name = tbl" and "tbl \<noteq> []"
    and "list_all (\<lambda>(v, s). resolved_action name d v = Some (str s)) tbl"
    and "distinct (map (\<lambda>v. mapMergedToolToCommand name (Some [(d, JStr v)])) (map fst tbl))"
    and "set (branch_literals name) \<subseteq> set (map fst tbl)"
    and "set (map fst tbl) \<inter> set object_prototype_keys = {}"
    and "name \<notin> set passthrough_tools \<longrightarrow>
           length (filter (\<lambda>v. v \<notin> set (branch_literals name)) (map fst tbl)) \<le> 1"
  shows "corresponds name d"
  unfolding corresponds_def
proof (intro conjI)
  show "map fst (emitted_actions name) = schema_enum name d" using assms(4,5) by simp
  show "schema_enum name d \<noteq> []" using assms(4,6) by simp
  show "distinct (map (\<lambda>v. mapMergedToolToCommand name (Some [(d, JStr v)])) (schema_enum name d))"
    using assms(4,8) by simp
  show "set (branch_literals name) \<subseteq> set (schema_enum name d)"
    using assms(4,9) by simp
  show "name \<notin> set passthrough_tools \<longrightarrow>
          length (filter (\<lambda>v. v \<notin> set (branch_literals name)) (schema_enum name d)) \<le> 1"
    using assms(4,11) by simp
  show "\<forall>(v, s) \<in> set (emitted_actions name). \<forall>a.
          map_of a d = Some (JStr v) \<and> (name = ''browser_find'' \<longrightarrow> map_of a ''action'' = None) \<longrightarrow>
          (\<exists>cmd. mapMergedToolToCommand name (Some a) = Inr cmd \<and> get cmd ''action'' = str s)"
  proof (intro ballI, clarify)
    fix v s a
    assume m: "(v, s) \<in> set (emitted_actions name)" and a: "map_of a d = Some (JStr v)"
    have "resolved_action name d v = Some (str s)"
      using assms(7) m assms(5) by (auto simp: list_all_iff)
    from resolves_for_all_args [OF assms(1,2,3) this a]
    show "\<exists>cmd. mapMergedToolToCommand name (Some a) = Inr cmd \<and> get cmd ''action'' = str s" .
  qed
  show "\<forall>v \<in> set (schema_enum name d).
          v \<in> set (branch_literals name) \<or> name \<in> set passthrough_tools \<or>
          (\<forall>u a. u \<notin> set (branch_literals name) \<and> u \<notin> set object_prototype_keys \<longrightarrow>
             mapMergedToolToCommand name (Some (AList.update d (JStr u) a))
               = mapMergedToolToCommand name (Some (AList.update d (JStr v) a)))"
  proof
    fix v
    assume v: "v \<in> set (schema_enum name d)"
    then have p: "v \<notin> set object_prototype_keys" using assms(4,10) by auto
    show "v \<in> set (branch_literals name) \<or> name \<in> set passthrough_tools \<or>
          (\<forall>u a. u \<notin> set (branch_literals name) \<and> u \<notin> set object_prototype_keys \<longrightarrow>
             mapMergedToolToCommand name (Some (AList.update d (JStr u) a))
               = mapMergedToolToCommand name (Some (AList.update d (JStr v) a)))"
    proof (cases "v \<in> set (branch_literals name) \<or> name \<in> set passthrough_tools")
      case True
      then show ?thesis by blast
    next
      case False
      then have n: "name \<notin> set passthrough_tools" and l: "v \<notin> set (branch_literals name)"
        by simp_all
      have "\<forall>u a. u \<notin> set (branch_literals name) \<and> u \<notin> set object_prototype_keys \<longrightarrow>
             mapMergedToolToCommand name (Some (AList.update d (JStr u) a))
               = mapMergedToolToCommand name (Some (AList.update d (JStr v) a))"
        using branches_ignore_other_values [OF assms(3) n _ l _ p] by blast
      then show ?thesis by blast
    qed
  qed
qed

lemma corrd_launch: "\<forall>d. discriminant_of ''browser_launch'' = Some d \<longrightarrow> corresponds ''browser_launch'' d"
  by (simp add: disc_launch)

lemma corrd_navigate: "\<forall>d. discriminant_of ''browser_navigate'' = Some d \<longrightarrow> corresponds ''browser_navigate'' d"
  by (simp add: disc_navigate)

lemma corrd_snapshot: "\<forall>d. discriminant_of ''browser_snapshot'' = Some d \<longrightarrow> corresponds ''browser_snapshot'' d"
  by (simp add: disc_snapshot)

lemma corrd_screenshot: "\<forall>d. discriminant_of ''browser_screenshot'' = Some d \<longrightarrow> corresponds ''browser_screenshot'' d"
  by (simp add: disc_screenshot)

lemma corrd_close: "\<forall>d. discriminant_of ''browser_close'' = Some d \<longrightarrow> corresponds ''browser_close'' d"
  by (simp add: disc_close)

lemma enum_history: "schema_enum ''browser_history'' ''action'' = [''back'', ''forward'', ''reload'']"
  by (simp add: schema_enum_def MERGED_TOOLS_def)

lemma emit_history:
  "emitted_actions ''browser_history'' = [(''back'', ''back''), (''forward'', ''forward''), (''reload'', ''reload'')]"
  by (simp add: emitted_actions_def named_actions_def findByActionMap_def getActionMap_def stateActionMap_def storageActionMap_def waitForActionMap_def)

lemma res_history:
  "list_all (\<lambda>(v, s). resolved_action ''browser_history'' ''action'' v = Some (str s))
     [(''back'', ''back''), (''forward'', ''forward''), (''reload'', ''reload'')]"
  by (simp add: resolved_action_def map_history with_args_def tool_defs get_simps argv_def to_property_key_def table_lookup_def findByActionMap_def getActionMap_def stateActionMap_def storageActionMap_def waitForActionMap_def set_computed_def index_or_zero_def copy_fields_def copy_if_defined_def Let_def)

lemma dist_history:
  "distinct (map (\<lambda>v. mapMergedToolToCommand ''browser_history'' (Some [(''action'', JStr v)]))
     (map fst [(''back'', ''back''), (''forward'', ''forward''), (''reload'', ''reload'')]))"
  by (simp add: map_history with_args_def tool_defs get_simps argv_def to_property_key_def table_lookup_def findByActionMap_def getActionMap_def stateActionMap_def storageActionMap_def waitForActionMap_def set_computed_def index_or_zero_def copy_fields_def copy_if_defined_def Let_def)

lemma lit_history:
  "set (branch_literals ''browser_history'') \<subseteq> set (map fst [(''back'', ''back''), (''forward'', ''forward''), (''reload'', ''reload'')])"
  by (simp add: branch_literals_def compared_literals_def findByActionMap_def getActionMap_def stateActionMap_def storageActionMap_def waitForActionMap_def)

lemma np_history:
  "set (map fst [(''back'', ''back''), (''forward'', ''forward''), (''reload'', ''reload'')]) \<inter> set object_prototype_keys = {}"
  by (simp add: object_prototype_keys_def)

lemma one_history:
  "''browser_history'' \<notin> set passthrough_tools \<longrightarrow>
     length (filter (\<lambda>v. v \<notin> set (branch_literals ''browser_history'')) (map fst [(''back'', ''back''), (''forward'', ''forward''), (''reload'', ''reload'')])) \<le> 1"
  by (simp add: passthrough_tools_def)

lemma corr_history: "corresponds ''browser_history'' ''action''"
proof (rule correspondence_from_table [OF _ _ disc_history _ emit_history _ res_history dist_history lit_history np_history one_history])
  show "''browser_history'' \<notin> set spread_tools" by (simp add: spread_tools_def)
  show "''browser_history'' \<noteq> ''browser_find''" by simp
  show "schema_enum ''browser_history'' ''action'' = map fst [(''back'', ''back''), (''forward'', ''forward''), (''reload'', ''reload'')]"
    by (simp add: enum_history)
  show "[(''back'', ''back''), (''forward'', ''forward''), (''reload'', ''reload'')] \<noteq> []" by simp
qed

lemma corrd_history: "\<forall>d. discriminant_of ''browser_history'' = Some d \<longrightarrow> corresponds ''browser_history'' d"
  using corr_history by (simp add: disc_history)

lemma enum_page_info: "schema_enum ''browser_page_info'' ''info'' = [''url'', ''title'']"
  by (simp add: schema_enum_def MERGED_TOOLS_def)

lemma emit_page_info:
  "emitted_actions ''browser_page_info'' = [(''url'', ''url''), (''title'', ''title'')]"
  by (simp add: emitted_actions_def named_actions_def findByActionMap_def getActionMap_def stateActionMap_def storageActionMap_def waitForActionMap_def)

lemma res_page_info:
  "list_all (\<lambda>(v, s). resolved_action ''browser_page_info'' ''info'' v = Some (str s))
     [(''url'', ''url''), (''title'', ''title'')]"
  by (simp add: resolved_action_def map_page_info with_args_def tool_defs get_simps argv_def to_property_key_def table_lookup_def findByActionMap_def getActionMap_def stateActionMap_def storageActionMap_def waitForActionMap_def set_computed_def index_or_zero_def copy_fields_def copy_if_defined_def Let_def)

lemma dist_page_info:
  "distinct (map (\<lambda>v. mapMergedToolToCommand ''browser_page_info'' (Some [(''info'', JStr v)]))
     (map fst [(''url'', ''url''), (''title'', ''title'')]))"
  by (simp add: map_page_info with_args_def tool_defs get_simps argv_def to_property_key_def table_lookup_def findByActionMap_def getActionMap_def stateActionMap_def storageActionMap_def waitForActionMap_def set_computed_def index_or_zero_def copy_fields_def copy_if_defined_def Let_def)

lemma lit_page_info:
  "set (branch_literals ''browser_page_info'') \<subseteq> set (map fst [(''url'', ''url''), (''title'', ''title'')])"
  by (simp add: branch_literals_def compared_literals_def findByActionMap_def getActionMap_def stateActionMap_def storageActionMap_def waitForActionMap_def)

lemma np_page_info:
  "set (map fst [(''url'', ''url''), (''title'', ''title'')]) \<inter> set object_prototype_keys = {}"
  by (simp add: object_prototype_keys_def)

lemma one_page_info:
  "''browser_page_info'' \<notin> set passthrough_tools \<longrightarrow>
     length (filter (\<lambda>v. v \<notin> set (branch_literals ''browser_page_info'')) (map fst [(''url'', ''url''), (''title'', ''title'')])) \<le> 1"
  by (simp add: blit_page_info findByActionMap_def getActionMap_def stateActionMap_def storageActionMap_def waitForActionMap_def)

lemma corr_page_info: "corresponds ''browser_page_info'' ''info''"
proof (rule correspondence_from_table [OF _ _ disc_page_info _ emit_page_info _ res_page_info dist_page_info lit_page_info np_page_info one_page_info])
  show "''browser_page_info'' \<notin> set spread_tools" by (simp add: spread_tools_def)
  show "''browser_page_info'' \<noteq> ''browser_find''" by simp
  show "schema_enum ''browser_page_info'' ''info'' = map fst [(''url'', ''url''), (''title'', ''title'')]"
    by (simp add: enum_page_info)
  show "[(''url'', ''url''), (''title'', ''title'')] \<noteq> []" by simp
qed

lemma corrd_page_info: "\<forall>d. discriminant_of ''browser_page_info'' = Some d \<longrightarrow> corresponds ''browser_page_info'' d"
  using corr_page_info by (simp add: disc_page_info)

lemma enum_element_action: "schema_enum ''browser_element_action'' ''action'' = [''click'', ''dblclick'', ''hover'', ''focus'', ''tap'']"
  by (simp add: schema_enum_def MERGED_TOOLS_def)

lemma emit_element_action:
  "emitted_actions ''browser_element_action'' = [(''click'', ''click''), (''dblclick'', ''dblclick''), (''hover'', ''hover''), (''focus'', ''focus''), (''tap'', ''tap'')]"
  by (simp add: emitted_actions_def named_actions_def findByActionMap_def getActionMap_def stateActionMap_def storageActionMap_def waitForActionMap_def)

lemma res_element_action:
  "list_all (\<lambda>(v, s). resolved_action ''browser_element_action'' ''action'' v = Some (str s))
     [(''click'', ''click''), (''dblclick'', ''dblclick''), (''hover'', ''hover''), (''focus'', ''focus''), (''tap'', ''tap'')]"
  by (simp add: resolved_action_def map_element_action with_args_def tool_defs get_simps argv_def to_property_key_def table_lookup_def findByActionMap_def getActionMap_def stateActionMap_def storageActionMap_def waitForActionMap_def set_computed_def index_or_zero_def copy_fields_def copy_if_defined_def Let_def)

lemma dist_element_action:
  "distinct (map (\<lambda>v. mapMergedToolToCommand ''browser_element_action'' (Some [(''action'', JStr v)]))
     (map fst [(''click'', ''click''), (''dblclick'', ''dblclick''), (''hover'', ''hover''), (''focus'', ''focus''), (''tap'', ''tap'')]))"
  by (simp add: map_element_action with_args_def tool_defs get_simps argv_def to_property_key_def table_lookup_def findByActionMap_def getActionMap_def stateActionMap_def storageActionMap_def waitForActionMap_def set_computed_def index_or_zero_def copy_fields_def copy_if_defined_def Let_def)

lemma lit_element_action:
  "set (branch_literals ''browser_element_action'') \<subseteq> set (map fst [(''click'', ''click''), (''dblclick'', ''dblclick''), (''hover'', ''hover''), (''focus'', ''focus''), (''tap'', ''tap'')])"
  by (simp add: branch_literals_def compared_literals_def findByActionMap_def getActionMap_def stateActionMap_def storageActionMap_def waitForActionMap_def)

lemma np_element_action:
  "set (map fst [(''click'', ''click''), (''dblclick'', ''dblclick''), (''hover'', ''hover''), (''focus'', ''focus''), (''tap'', ''tap'')]) \<inter> set object_prototype_keys = {}"
  by (simp add: object_prototype_keys_def)

lemma one_element_action:
  "''browser_element_action'' \<notin> set passthrough_tools \<longrightarrow>
     length (filter (\<lambda>v. v \<notin> set (branch_literals ''browser_element_action'')) (map fst [(''click'', ''click''), (''dblclick'', ''dblclick''), (''hover'', ''hover''), (''focus'', ''focus''), (''tap'', ''tap'')])) \<le> 1"
  by (simp add: passthrough_tools_def)

lemma corr_element_action: "corresponds ''browser_element_action'' ''action''"
proof (rule correspondence_from_table [OF _ _ disc_element_action _ emit_element_action _ res_element_action dist_element_action lit_element_action np_element_action one_element_action])
  show "''browser_element_action'' \<notin> set spread_tools" by (simp add: spread_tools_def)
  show "''browser_element_action'' \<noteq> ''browser_find''" by simp
  show "schema_enum ''browser_element_action'' ''action'' = map fst [(''click'', ''click''), (''dblclick'', ''dblclick''), (''hover'', ''hover''), (''focus'', ''focus''), (''tap'', ''tap'')]"
    by (simp add: enum_element_action)
  show "[(''click'', ''click''), (''dblclick'', ''dblclick''), (''hover'', ''hover''), (''focus'', ''focus''), (''tap'', ''tap'')] \<noteq> []" by simp
qed

lemma corrd_element_action: "\<forall>d. discriminant_of ''browser_element_action'' = Some d \<longrightarrow> corresponds ''browser_element_action'' d"
  using corr_element_action by (simp add: disc_element_action)

lemma enum_input: "schema_enum ''browser_input'' ''action'' = [''fill'', ''type'']"
  by (simp add: schema_enum_def MERGED_TOOLS_def)

lemma emit_input:
  "emitted_actions ''browser_input'' = [(''fill'', ''fill''), (''type'', ''type'')]"
  by (simp add: emitted_actions_def named_actions_def findByActionMap_def getActionMap_def stateActionMap_def storageActionMap_def waitForActionMap_def)

lemma res_input:
  "list_all (\<lambda>(v, s). resolved_action ''browser_input'' ''action'' v = Some (str s))
     [(''fill'', ''fill''), (''type'', ''type'')]"
  by (simp add: resolved_action_def map_input with_args_def tool_defs get_simps argv_def to_property_key_def table_lookup_def findByActionMap_def getActionMap_def stateActionMap_def storageActionMap_def waitForActionMap_def set_computed_def index_or_zero_def copy_fields_def copy_if_defined_def Let_def)

lemma dist_input:
  "distinct (map (\<lambda>v. mapMergedToolToCommand ''browser_input'' (Some [(''action'', JStr v)]))
     (map fst [(''fill'', ''fill''), (''type'', ''type'')]))"
  by (simp add: map_input with_args_def tool_defs get_simps argv_def to_property_key_def table_lookup_def findByActionMap_def getActionMap_def stateActionMap_def storageActionMap_def waitForActionMap_def set_computed_def index_or_zero_def copy_fields_def copy_if_defined_def Let_def)

lemma lit_input:
  "set (branch_literals ''browser_input'') \<subseteq> set (map fst [(''fill'', ''fill''), (''type'', ''type'')])"
  by (simp add: branch_literals_def compared_literals_def findByActionMap_def getActionMap_def stateActionMap_def storageActionMap_def waitForActionMap_def)

lemma np_input:
  "set (map fst [(''fill'', ''fill''), (''type'', ''type'')]) \<inter> set object_prototype_keys = {}"
  by (simp add: object_prototype_keys_def)

lemma one_input:
  "''browser_input'' \<notin> set passthrough_tools \<longrightarrow>
     length (filter (\<lambda>v. v \<notin> set (branch_literals ''browser_input'')) (map fst [(''fill'', ''fill''), (''type'', ''type'')])) \<le> 1"
  by (simp add: blit_input findByActionMap_def getActionMap_def stateActionMap_def storageActionMap_def waitForActionMap_def)

lemma corr_input: "corresponds ''browser_input'' ''action''"
proof (rule correspondence_from_table [OF _ _ disc_input _ emit_input _ res_input dist_input lit_input np_input one_input])
  show "''browser_input'' \<notin> set spread_tools" by (simp add: spread_tools_def)
  show "''browser_input'' \<noteq> ''browser_find''" by simp
  show "schema_enum ''browser_input'' ''action'' = map fst [(''fill'', ''fill''), (''type'', ''type'')]"
    by (simp add: enum_input)
  show "[(''fill'', ''fill''), (''type'', ''type'')] \<noteq> []" by simp
qed

lemma corrd_input: "\<forall>d. discriminant_of ''browser_input'' = Some d \<longrightarrow> corresponds ''browser_input'' d"
  using corr_input by (simp add: disc_input)

lemma enum_input_action: "schema_enum ''browser_input_action'' ''action'' = [''check'', ''uncheck'', ''clear'', ''select_all'']"
  by (simp add: schema_enum_def MERGED_TOOLS_def)

lemma emit_input_action:
  "emitted_actions ''browser_input_action'' = [(''check'', ''check''), (''uncheck'', ''uncheck''), (''clear'', ''clear''), (''select_all'', ''select_all'')]"
  by (simp add: emitted_actions_def named_actions_def findByActionMap_def getActionMap_def stateActionMap_def storageActionMap_def waitForActionMap_def)

lemma res_input_action:
  "list_all (\<lambda>(v, s). resolved_action ''browser_input_action'' ''action'' v = Some (str s))
     [(''check'', ''check''), (''uncheck'', ''uncheck''), (''clear'', ''clear''), (''select_all'', ''select_all'')]"
  by (simp add: resolved_action_def map_input_action with_args_def tool_defs get_simps argv_def to_property_key_def table_lookup_def findByActionMap_def getActionMap_def stateActionMap_def storageActionMap_def waitForActionMap_def set_computed_def index_or_zero_def copy_fields_def copy_if_defined_def Let_def)

lemma dist_input_action:
  "distinct (map (\<lambda>v. mapMergedToolToCommand ''browser_input_action'' (Some [(''action'', JStr v)]))
     (map fst [(''check'', ''check''), (''uncheck'', ''uncheck''), (''clear'', ''clear''), (''select_all'', ''select_all'')]))"
  by (simp add: map_input_action with_args_def tool_defs get_simps argv_def to_property_key_def table_lookup_def findByActionMap_def getActionMap_def stateActionMap_def storageActionMap_def waitForActionMap_def set_computed_def index_or_zero_def copy_fields_def copy_if_defined_def Let_def)

lemma lit_input_action:
  "set (branch_literals ''browser_input_action'') \<subseteq> set (map fst [(''check'', ''check''), (''uncheck'', ''uncheck''), (''clear'', ''clear''), (''select_all'', ''select_all'')])"
  by (simp add: branch_literals_def compared_literals_def findByActionMap_def getActionMap_def stateActionMap_def storageActionMap_def waitForActionMap_def)

lemma np_input_action:
  "set (map fst [(''check'', ''check''), (''uncheck'', ''uncheck''), (''clear'', ''clear''), (''select_all'', ''select_all'')]) \<inter> set object_prototype_keys = {}"
  by (simp add: object_prototype_keys_def)

lemma one_input_action:
  "''browser_input_action'' \<notin> set passthrough_tools \<longrightarrow>
     length (filter (\<lambda>v. v \<notin> set (branch_literals ''browser_input_action'')) (map fst [(''check'', ''check''), (''uncheck'', ''uncheck''), (''clear'', ''clear''), (''select_all'', ''select_all'')])) \<le> 1"
  by (simp add: passthrough_tools_def)

lemma corr_input_action: "corresponds ''browser_input_action'' ''action''"
proof (rule correspondence_from_table [OF _ _ disc_input_action _ emit_input_action _ res_input_action dist_input_action lit_input_action np_input_action one_input_action])
  show "''browser_input_action'' \<notin> set spread_tools" by (simp add: spread_tools_def)
  show "''browser_input_action'' \<noteq> ''browser_find''" by simp
  show "schema_enum ''browser_input_action'' ''action'' = map fst [(''check'', ''check''), (''uncheck'', ''uncheck''), (''clear'', ''clear''), (''select_all'', ''select_all'')]"
    by (simp add: enum_input_action)
  show "[(''check'', ''check''), (''uncheck'', ''uncheck''), (''clear'', ''clear''), (''select_all'', ''select_all'')] \<noteq> []" by simp
qed

lemma corrd_input_action: "\<forall>d. discriminant_of ''browser_input_action'' = Some d \<longrightarrow> corresponds ''browser_input_action'' d"
  using corr_input_action by (simp add: disc_input_action)

lemma corrd_select: "\<forall>d. discriminant_of ''browser_select'' = Some d \<longrightarrow> corresponds ''browser_select'' d"
  by (simp add: disc_select)

lemma corrd_press: "\<forall>d. discriminant_of ''browser_press'' = Some d \<longrightarrow> corresponds ''browser_press'' d"
  by (simp add: disc_press)

lemma enum_scroll: "schema_enum ''browser_scroll'' ''action'' = [''scroll'', ''scroll_into_view'']"
  by (simp add: schema_enum_def MERGED_TOOLS_def)

lemma emit_scroll:
  "emitted_actions ''browser_scroll'' = [(''scroll'', ''scroll''), (''scroll_into_view'', ''scroll_into_view'')]"
  by (simp add: emitted_actions_def named_actions_def findByActionMap_def getActionMap_def stateActionMap_def storageActionMap_def waitForActionMap_def)

lemma res_scroll:
  "list_all (\<lambda>(v, s). resolved_action ''browser_scroll'' ''action'' v = Some (str s))
     [(''scroll'', ''scroll''), (''scroll_into_view'', ''scroll_into_view'')]"
  by (simp add: resolved_action_def map_scroll with_args_def tool_defs get_simps argv_def to_property_key_def table_lookup_def findByActionMap_def getActionMap_def stateActionMap_def storageActionMap_def waitForActionMap_def set_computed_def index_or_zero_def copy_fields_def copy_if_defined_def Let_def)

lemma dist_scroll:
  "distinct (map (\<lambda>v. mapMergedToolToCommand ''browser_scroll'' (Some [(''action'', JStr v)]))
     (map fst [(''scroll'', ''scroll''), (''scroll_into_view'', ''scroll_into_view'')]))"
  by (simp add: map_scroll with_args_def tool_defs get_simps argv_def to_property_key_def table_lookup_def findByActionMap_def getActionMap_def stateActionMap_def storageActionMap_def waitForActionMap_def set_computed_def index_or_zero_def copy_fields_def copy_if_defined_def Let_def)

lemma lit_scroll:
  "set (branch_literals ''browser_scroll'') \<subseteq> set (map fst [(''scroll'', ''scroll''), (''scroll_into_view'', ''scroll_into_view'')])"
  by (simp add: branch_literals_def compared_literals_def findByActionMap_def getActionMap_def stateActionMap_def storageActionMap_def waitForActionMap_def)

lemma np_scroll:
  "set (map fst [(''scroll'', ''scroll''), (''scroll_into_view'', ''scroll_into_view'')]) \<inter> set object_prototype_keys = {}"
  by (simp add: object_prototype_keys_def)

lemma one_scroll:
  "''browser_scroll'' \<notin> set passthrough_tools \<longrightarrow>
     length (filter (\<lambda>v. v \<notin> set (branch_literals ''browser_scroll'')) (map fst [(''scroll'', ''scroll''), (''scroll_into_view'', ''scroll_into_view'')])) \<le> 1"
  by (simp add: blit_scroll findByActionMap_def getActionMap_def stateActionMap_def storageActionMap_def waitForActionMap_def)

lemma corr_scroll: "corresponds ''browser_scroll'' ''action''"
proof (rule correspondence_from_table [OF _ _ disc_scroll _ emit_scroll _ res_scroll dist_scroll lit_scroll np_scroll one_scroll])
  show "''browser_scroll'' \<notin> set spread_tools" by (simp add: spread_tools_def)
  show "''browser_scroll'' \<noteq> ''browser_find''" by simp
  show "schema_enum ''browser_scroll'' ''action'' = map fst [(''scroll'', ''scroll''), (''scroll_into_view'', ''scroll_into_view'')]"
    by (simp add: enum_scroll)
  show "[(''scroll'', ''scroll''), (''scroll_into_view'', ''scroll_into_view'')] \<noteq> []" by simp
qed

lemma corrd_scroll: "\<forall>d. discriminant_of ''browser_scroll'' = Some d \<longrightarrow> corresponds ''browser_scroll'' d"
  using corr_scroll by (simp add: disc_scroll)

lemma enum_find: "schema_enum ''browser_find'' ''method'' = [''role'', ''text'', ''label'', ''placeholder'', ''testId'', ''title'', ''altText'', ''nth'']"
  by (simp add: schema_enum_def MERGED_TOOLS_def)

lemma emit_find:
  "emitted_actions ''browser_find'' = [(''role'', ''find_by_role''), (''text'', ''find_by_text''), (''label'', ''find_by_label''), (''placeholder'', ''find_by_placeholder''), (''testId'', ''find_by_test_id''), (''title'', ''find_by_title''), (''altText'', ''find_by_alt_text''), (''nth'', ''find_nth'')]"
  by (simp add: emitted_actions_def named_actions_def findByActionMap_def getActionMap_def stateActionMap_def storageActionMap_def waitForActionMap_def)

lemma res_find:
  "list_all (\<lambda>(v, s). resolved_action ''browser_find'' ''method'' v = Some (str s))
     [(''role'', ''find_by_role''), (''text'', ''find_by_text''), (''label'', ''find_by_label''), (''placeholder'', ''find_by_placeholder''), (''testId'', ''find_by_test_id''), (''title'', ''find_by_title''), (''altText'', ''find_by_alt_text''), (''nth'', ''find_nth'')]"
  by (simp add: resolved_action_def map_find with_args_def tool_defs get_simps argv_def to_property_key_def table_lookup_def findByActionMap_def getActionMap_def stateActionMap_def storageActionMap_def waitForActionMap_def set_computed_def index_or_zero_def copy_fields_def copy_if_defined_def Let_def)

lemma dist_find:
  "distinct (map (\<lambda>v. mapMergedToolToCommand ''browser_find'' (Some [(''method'', JStr v)]))
     (map fst [(''role'', ''find_by_role''), (''text'', ''find_by_text''), (''label'', ''find_by_label''), (''placeholder'', ''find_by_placeholder''), (''testId'', ''find_by_test_id''), (''title'', ''find_by_title''), (''altText'', ''find_by_alt_text''), (''nth'', ''find_nth'')]))"
  by (simp add: map_find with_args_def tool_defs get_simps argv_def to_property_key_def table_lookup_def findByActionMap_def getActionMap_def stateActionMap_def storageActionMap_def waitForActionMap_def set_computed_def index_or_zero_def copy_fields_def copy_if_defined_def Let_def)

lemma lit_find:
  "set (branch_literals ''browser_find'') \<subseteq> set (map fst [(''role'', ''find_by_role''), (''text'', ''find_by_text''), (''label'', ''find_by_label''), (''placeholder'', ''find_by_placeholder''), (''testId'', ''find_by_test_id''), (''title'', ''find_by_title''), (''altText'', ''find_by_alt_text''), (''nth'', ''find_nth'')])"
  by (simp add: branch_literals_def compared_literals_def findByActionMap_def getActionMap_def stateActionMap_def storageActionMap_def waitForActionMap_def)

lemma blit_find: "branch_literals ''browser_find'' = map fst findByActionMap"
  by (simp add: branch_literals_def)

lemma corr_find: "corresponds ''browser_find'' ''method''"
  unfolding corresponds_def
proof (intro conjI)
  show "map fst (emitted_actions ''browser_find'') = schema_enum ''browser_find'' ''method''"
    by (simp add: emit_find enum_find)
  show "schema_enum ''browser_find'' ''method'' \<noteq> []" by (simp add: enum_find)
  show "distinct (map (\<lambda>v. mapMergedToolToCommand ''browser_find'' (Some [(''method'', JStr v)]))
          (schema_enum ''browser_find'' ''method''))"
    using dist_find by (simp add: enum_find)
  show "set (branch_literals ''browser_find'') \<subseteq> set (schema_enum ''browser_find'' ''method'')"
    using lit_find by (simp add: enum_find)
  show "''browser_find'' \<notin> set passthrough_tools \<longrightarrow>
          length (filter (\<lambda>v. v \<notin> set (branch_literals ''browser_find''))
            (schema_enum ''browser_find'' ''method'')) \<le> 1"
    by (simp add: passthrough_tools_def)
  show "\<forall>v \<in> set (schema_enum ''browser_find'' ''method'').
          v \<in> set (branch_literals ''browser_find'') \<or> ''browser_find'' \<in> set passthrough_tools \<or>
          (\<forall>u a. u \<notin> set (branch_literals ''browser_find'') \<and> u \<notin> set object_prototype_keys \<longrightarrow>
             mapMergedToolToCommand ''browser_find'' (Some (AList.update ''method'' (JStr u) a))
               = mapMergedToolToCommand ''browser_find'' (Some (AList.update ''method'' (JStr v) a)))"
    by (simp add: passthrough_tools_def)
  show "\<forall>(v, s) \<in> set (emitted_actions ''browser_find''). \<forall>a.
          map_of a ''method'' = Some (JStr v) \<and>
          (''browser_find'' = ''browser_find'' \<longrightarrow> map_of a ''action'' = None) \<longrightarrow>
          (\<exists>cmd. mapMergedToolToCommand ''browser_find'' (Some a) = Inr cmd \<and> get cmd ''action'' = str s)"
  proof (intro ballI, clarify)
    fix v s a
    assume m: "(v, s) \<in> set (emitted_actions ''browser_find'')"
      and a: "map_of a ''method'' = Some (JStr v)"
      and n: "''browser_find'' = ''browser_find'' \<longrightarrow> map_of a ''action'' = None"
    have "(v, s) \<in> set findByActionMap"
      using m by (simp add: emitted_actions_def)
    then have k: "v \<in> set (map fst findByActionMap)"
      by (simp add: image_iff) (rule bexI [of _ "(v, s)"], simp_all)
    have s: "table_lookup findByActionMap v = str s"
      using m by (auto simp: emitted_actions_def table_lookup_def findByActionMap_def)
    have "map_of a ''action'' = None" using n by simp
    from find_resolves_for_all_args [OF a k this] s
    show "\<exists>cmd. mapMergedToolToCommand ''browser_find'' (Some a) = Inr cmd \<and> get cmd ''action'' = str s"
      by simp
  qed
qed

lemma corrd_find: "\<forall>d. discriminant_of ''browser_find'' = Some d \<longrightarrow> corresponds ''browser_find'' d"
  using corr_find by (simp add: disc_find)

lemma enum_get: "schema_enum ''browser_get'' ''property'' = [''text'', ''innerText'', ''innerHtml'', ''html'', ''value'', ''attribute'', ''boundingBox'', ''count'']"
  by (simp add: schema_enum_def MERGED_TOOLS_def)

lemma emit_get:
  "emitted_actions ''browser_get'' = [(''text'', ''get_text''), (''innerText'', ''get_inner_text''), (''innerHtml'', ''get_inner_html''), (''html'', ''content''), (''value'', ''get_value''), (''attribute'', ''get_attribute''), (''boundingBox'', ''bounding_box''), (''count'', ''count'')]"
  by (simp add: emitted_actions_def named_actions_def findByActionMap_def getActionMap_def stateActionMap_def storageActionMap_def waitForActionMap_def)

lemma res_get:
  "list_all (\<lambda>(v, s). resolved_action ''browser_get'' ''property'' v = Some (str s))
     [(''text'', ''get_text''), (''innerText'', ''get_inner_text''), (''innerHtml'', ''get_inner_html''), (''html'', ''content''), (''value'', ''get_value''), (''attribute'', ''get_attribute''), (''boundingBox'', ''bounding_box''), (''count'', ''count'')]"
  by (simp add: resolved_action_def map_get with_args_def tool_defs get_simps argv_def to_property_key_def table_lookup_def findByActionMap_def getActionMap_def stateActionMap_def storageActionMap_def waitForActionMap_def set_computed_def index_or_zero_def copy_fields_def copy_if_defined_def Let_def)

lemma dist_get:
  "distinct (map (\<lambda>v. mapMergedToolToCommand ''browser_get'' (Some [(''property'', JStr v)]))
     (map fst [(''text'', ''get_text''), (''innerText'', ''get_inner_text''), (''innerHtml'', ''get_inner_html''), (''html'', ''content''), (''value'', ''get_value''), (''attribute'', ''get_attribute''), (''boundingBox'', ''bounding_box''), (''count'', ''count'')]))"
  by (simp add: map_get with_args_def tool_defs get_simps argv_def to_property_key_def table_lookup_def findByActionMap_def getActionMap_def stateActionMap_def storageActionMap_def waitForActionMap_def set_computed_def index_or_zero_def copy_fields_def copy_if_defined_def Let_def)

lemma lit_get:
  "set (branch_literals ''browser_get'') \<subseteq> set (map fst [(''text'', ''get_text''), (''innerText'', ''get_inner_text''), (''innerHtml'', ''get_inner_html''), (''html'', ''content''), (''value'', ''get_value''), (''attribute'', ''get_attribute''), (''boundingBox'', ''bounding_box''), (''count'', ''count'')])"
  by (simp add: branch_literals_def compared_literals_def findByActionMap_def getActionMap_def stateActionMap_def storageActionMap_def waitForActionMap_def)

lemma np_get:
  "set (map fst [(''text'', ''get_text''), (''innerText'', ''get_inner_text''), (''innerHtml'', ''get_inner_html''), (''html'', ''content''), (''value'', ''get_value''), (''attribute'', ''get_attribute''), (''boundingBox'', ''bounding_box''), (''count'', ''count'')]) \<inter> set object_prototype_keys = {}"
  by (simp add: object_prototype_keys_def)

lemma one_get:
  "''browser_get'' \<notin> set passthrough_tools \<longrightarrow>
     length (filter (\<lambda>v. v \<notin> set (branch_literals ''browser_get'')) (map fst [(''text'', ''get_text''), (''innerText'', ''get_inner_text''), (''innerHtml'', ''get_inner_html''), (''html'', ''content''), (''value'', ''get_value''), (''attribute'', ''get_attribute''), (''boundingBox'', ''bounding_box''), (''count'', ''count'')])) \<le> 1"
  by (simp add: blit_get findByActionMap_def getActionMap_def stateActionMap_def storageActionMap_def waitForActionMap_def)

lemma corr_get: "corresponds ''browser_get'' ''property''"
proof (rule correspondence_from_table [OF _ _ disc_get _ emit_get _ res_get dist_get lit_get np_get one_get])
  show "''browser_get'' \<notin> set spread_tools" by (simp add: spread_tools_def)
  show "''browser_get'' \<noteq> ''browser_find''" by simp
  show "schema_enum ''browser_get'' ''property'' = map fst [(''text'', ''get_text''), (''innerText'', ''get_inner_text''), (''innerHtml'', ''get_inner_html''), (''html'', ''content''), (''value'', ''get_value''), (''attribute'', ''get_attribute''), (''boundingBox'', ''bounding_box''), (''count'', ''count'')]"
    by (simp add: enum_get)
  show "[(''text'', ''get_text''), (''innerText'', ''get_inner_text''), (''innerHtml'', ''get_inner_html''), (''html'', ''content''), (''value'', ''get_value''), (''attribute'', ''get_attribute''), (''boundingBox'', ''bounding_box''), (''count'', ''count'')] \<noteq> []" by simp
qed

lemma corrd_get: "\<forall>d. discriminant_of ''browser_get'' = Some d \<longrightarrow> corresponds ''browser_get'' d"
  using corr_get by (simp add: disc_get)

lemma enum_check_state: "schema_enum ''browser_check_state'' ''state'' = [''visible'', ''enabled'', ''checked'']"
  by (simp add: schema_enum_def MERGED_TOOLS_def)

lemma emit_check_state:
  "emitted_actions ''browser_check_state'' = [(''visible'', ''is_visible''), (''enabled'', ''is_enabled''), (''checked'', ''is_checked'')]"
  by (simp add: emitted_actions_def named_actions_def findByActionMap_def getActionMap_def stateActionMap_def storageActionMap_def waitForActionMap_def)

lemma res_check_state:
  "list_all (\<lambda>(v, s). resolved_action ''browser_check_state'' ''state'' v = Some (str s))
     [(''visible'', ''is_visible''), (''enabled'', ''is_enabled''), (''checked'', ''is_checked'')]"
  by (simp add: resolved_action_def map_check_state with_args_def tool_defs get_simps argv_def to_property_key_def table_lookup_def findByActionMap_def getActionMap_def stateActionMap_def storageActionMap_def waitForActionMap_def set_computed_def index_or_zero_def copy_fields_def copy_if_defined_def Let_def)

lemma dist_check_state:
  "distinct (map (\<lambda>v. mapMergedToolToCommand ''browser_check_state'' (Some [(''state'', JStr v)]))
     (map fst [(''visible'', ''is_visible''), (''enabled'', ''is_enabled''), (''checked'', ''is_checked'')]))"
  by (simp add: map_check_state with_args_def tool_defs get_simps argv_def to_property_key_def table_lookup_def findByActionMap_def getActionMap_def stateActionMap_def storageActionMap_def waitForActionMap_def set_computed_def index_or_zero_def copy_fields_def copy_if_defined_def Let_def)

lemma lit_check_state:
  "set (branch_literals ''browser_check_state'') \<subseteq> set (map fst [(''visible'', ''is_visible''), (''enabled'', ''is_enabled''), (''checked'', ''is_checked'')])"
  by (simp add: branch_literals_def compared_literals_def findByActionMap_def getActionMap_def stateActionMap_def storageActionMap_def waitForActionMap_def)

lemma np_check_state:
  "set (map fst [(''visible'', ''is_visible''), (''enabled'', ''is_enabled''), (''checked'', ''is_checked'')]) \<inter> set object_prototype_keys = {}"
  by (simp add: object_prototype_keys_def)

lemma one_check_state:
  "''browser_check_state'' \<notin> set passthrough_tools \<longrightarrow>
     length (filter (\<lambda>v. v \<notin> set (branch_literals ''browser_check_state'')) (map fst [(''visible'', ''is_visible''), (''enabled'', ''is_enabled''), (''checked'', ''is_checked'')])) \<le> 1"
  by (simp add: blit_check_state findByActionMap_def getActionMap_def stateActionMap_def storageActionMap_def waitForActionMap_def)

lemma corr_check_state: "corresponds ''browser_check_state'' ''state''"
proof (rule correspondence_from_table [OF _ _ disc_check_state _ emit_check_state _ res_check_state dist_check_state lit_check_state np_check_state one_check_state])
  show "''browser_check_state'' \<notin> set spread_tools" by (simp add: spread_tools_def)
  show "''browser_check_state'' \<noteq> ''browser_find''" by simp
  show "schema_enum ''browser_check_state'' ''state'' = map fst [(''visible'', ''is_visible''), (''enabled'', ''is_enabled''), (''checked'', ''is_checked'')]"
    by (simp add: enum_check_state)
  show "[(''visible'', ''is_visible''), (''enabled'', ''is_enabled''), (''checked'', ''is_checked'')] \<noteq> []" by simp
qed

lemma corrd_check_state: "\<forall>d. discriminant_of ''browser_check_state'' = Some d \<longrightarrow> corresponds ''browser_check_state'' d"
  using corr_check_state by (simp add: disc_check_state)

lemma enum_storage: "schema_enum ''browser_storage'' ''action'' = [''get'', ''set'', ''clear'']"
  by (simp add: schema_enum_def MERGED_TOOLS_def)

lemma emit_storage:
  "emitted_actions ''browser_storage'' = [(''get'', ''get''), (''set'', ''set''), (''clear'', ''clear'')]"
  by (simp add: emitted_actions_def named_actions_def findByActionMap_def getActionMap_def stateActionMap_def storageActionMap_def waitForActionMap_def)

lemma res_storage:
  "list_all (\<lambda>(v, s). resolved_action ''browser_storage'' ''action'' v = Some (str s))
     [(''get'', ''get''), (''set'', ''set''), (''clear'', ''clear'')]"
  by (simp add: resolved_action_def map_storage with_args_def tool_defs get_simps argv_def to_property_key_def table_lookup_def findByActionMap_def getActionMap_def stateActionMap_def storageActionMap_def waitForActionMap_def set_computed_def index_or_zero_def copy_fields_def copy_if_defined_def Let_def)

lemma dist_storage:
  "distinct (map (\<lambda>v. mapMergedToolToCommand ''browser_storage'' (Some [(''action'', JStr v)]))
     (map fst [(''get'', ''get''), (''set'', ''set''), (''clear'', ''clear'')]))"
  by (simp add: map_storage with_args_def tool_defs get_simps argv_def to_property_key_def table_lookup_def findByActionMap_def getActionMap_def stateActionMap_def storageActionMap_def waitForActionMap_def set_computed_def index_or_zero_def copy_fields_def copy_if_defined_def Let_def)

lemma lit_storage:
  "set (branch_literals ''browser_storage'') \<subseteq> set (map fst [(''get'', ''get''), (''set'', ''set''), (''clear'', ''clear'')])"
  by (simp add: branch_literals_def compared_literals_def findByActionMap_def getActionMap_def stateActionMap_def storageActionMap_def waitForActionMap_def)

lemma np_storage:
  "set (map fst [(''get'', ''get''), (''set'', ''set''), (''clear'', ''clear'')]) \<inter> set object_prototype_keys = {}"
  by (simp add: object_prototype_keys_def)

lemma one_storage:
  "''browser_storage'' \<notin> set passthrough_tools \<longrightarrow>
     length (filter (\<lambda>v. v \<notin> set (branch_literals ''browser_storage'')) (map fst [(''get'', ''get''), (''set'', ''set''), (''clear'', ''clear'')])) \<le> 1"
  by (simp add: blit_storage findByActionMap_def getActionMap_def stateActionMap_def storageActionMap_def waitForActionMap_def)

lemma corr_storage: "corresponds ''browser_storage'' ''action''"
proof (rule correspondence_from_table [OF _ _ disc_storage _ emit_storage _ res_storage dist_storage lit_storage np_storage one_storage])
  show "''browser_storage'' \<notin> set spread_tools" by (simp add: spread_tools_def)
  show "''browser_storage'' \<noteq> ''browser_find''" by simp
  show "schema_enum ''browser_storage'' ''action'' = map fst [(''get'', ''get''), (''set'', ''set''), (''clear'', ''clear'')]"
    by (simp add: enum_storage)
  show "[(''get'', ''get''), (''set'', ''set''), (''clear'', ''clear'')] \<noteq> []" by simp
qed

lemma corrd_storage: "\<forall>d. discriminant_of ''browser_storage'' = Some d \<longrightarrow> corresponds ''browser_storage'' d"
  using corr_storage by (simp add: disc_storage)

lemma enum_cookies: "schema_enum ''browser_cookies'' ''action'' = [''get'', ''set'']"
  by (simp add: schema_enum_def MERGED_TOOLS_def)

lemma emit_cookies:
  "emitted_actions ''browser_cookies'' = [(''get'', ''get''), (''set'', ''set'')]"
  by (simp add: emitted_actions_def named_actions_def findByActionMap_def getActionMap_def stateActionMap_def storageActionMap_def waitForActionMap_def)

lemma res_cookies:
  "list_all (\<lambda>(v, s). resolved_action ''browser_cookies'' ''action'' v = Some (str s))
     [(''get'', ''get''), (''set'', ''set'')]"
  by (simp add: resolved_action_def map_cookies with_args_def tool_defs get_simps argv_def to_property_key_def table_lookup_def findByActionMap_def getActionMap_def stateActionMap_def storageActionMap_def waitForActionMap_def set_computed_def index_or_zero_def copy_fields_def copy_if_defined_def Let_def)

lemma dist_cookies:
  "distinct (map (\<lambda>v. mapMergedToolToCommand ''browser_cookies'' (Some [(''action'', JStr v)]))
     (map fst [(''get'', ''get''), (''set'', ''set'')]))"
  by (simp add: map_cookies with_args_def tool_defs get_simps argv_def to_property_key_def table_lookup_def findByActionMap_def getActionMap_def stateActionMap_def storageActionMap_def waitForActionMap_def set_computed_def index_or_zero_def copy_fields_def copy_if_defined_def Let_def)

lemma lit_cookies:
  "set (branch_literals ''browser_cookies'') \<subseteq> set (map fst [(''get'', ''get''), (''set'', ''set'')])"
  by (simp add: branch_literals_def compared_literals_def findByActionMap_def getActionMap_def stateActionMap_def storageActionMap_def waitForActionMap_def)

lemma np_cookies:
  "set (map fst [(''get'', ''get''), (''set'', ''set'')]) \<inter> set object_prototype_keys = {}"
  by (simp add: object_prototype_keys_def)

lemma one_cookies:
  "''browser_cookies'' \<notin> set passthrough_tools \<longrightarrow>
     length (filter (\<lambda>v. v \<notin> set (branch_literals ''browser_cookies'')) (map fst [(''get'', ''get''), (''set'', ''set'')])) \<le> 1"
  by (simp add: blit_cookies findByActionMap_def getActionMap_def stateActionMap_def storageActionMap_def waitForActionMap_def)

lemma corr_cookies: "corresponds ''browser_cookies'' ''action''"
proof (rule correspondence_from_table [OF _ _ disc_cookies _ emit_cookies _ res_cookies dist_cookies lit_cookies np_cookies one_cookies])
  show "''browser_cookies'' \<notin> set spread_tools" by (simp add: spread_tools_def)
  show "''browser_cookies'' \<noteq> ''browser_find''" by simp
  show "schema_enum ''browser_cookies'' ''action'' = map fst [(''get'', ''get''), (''set'', ''set'')]"
    by (simp add: enum_cookies)
  show "[(''get'', ''get''), (''set'', ''set'')] \<noteq> []" by simp
qed

lemma corrd_cookies: "\<forall>d. discriminant_of ''browser_cookies'' = Some d \<longrightarrow> corresponds ''browser_cookies'' d"
  using corr_cookies by (simp add: disc_cookies)

lemma enum_state: "schema_enum ''browser_state'' ''action'' = [''save'', ''load'']"
  by (simp add: schema_enum_def MERGED_TOOLS_def)

lemma emit_state:
  "emitted_actions ''browser_state'' = [(''save'', ''state_save''), (''load'', ''state_load'')]"
  by (simp add: emitted_actions_def named_actions_def findByActionMap_def getActionMap_def stateActionMap_def storageActionMap_def waitForActionMap_def)

lemma res_state:
  "list_all (\<lambda>(v, s). resolved_action ''browser_state'' ''action'' v = Some (str s))
     [(''save'', ''state_save''), (''load'', ''state_load'')]"
  by (simp add: resolved_action_def map_state with_args_def tool_defs get_simps argv_def to_property_key_def table_lookup_def findByActionMap_def getActionMap_def stateActionMap_def storageActionMap_def waitForActionMap_def set_computed_def index_or_zero_def copy_fields_def copy_if_defined_def Let_def)

lemma dist_state:
  "distinct (map (\<lambda>v. mapMergedToolToCommand ''browser_state'' (Some [(''action'', JStr v)]))
     (map fst [(''save'', ''state_save''), (''load'', ''state_load'')]))"
  by (simp add: map_state with_args_def tool_defs get_simps argv_def to_property_key_def table_lookup_def findByActionMap_def getActionMap_def stateActionMap_def storageActionMap_def waitForActionMap_def set_computed_def index_or_zero_def copy_fields_def copy_if_defined_def Let_def)

lemma lit_state:
  "set (branch_literals ''browser_state'') \<subseteq> set (map fst [(''save'', ''state_save''), (''load'', ''state_load'')])"
  by (simp add: branch_literals_def compared_literals_def findByActionMap_def getActionMap_def stateActionMap_def storageActionMap_def waitForActionMap_def)

lemma np_state:
  "set (map fst [(''save'', ''state_save''), (''load'', ''state_load'')]) \<inter> set object_prototype_keys = {}"
  by (simp add: object_prototype_keys_def)

lemma one_state:
  "''browser_state'' \<notin> set passthrough_tools \<longrightarrow>
     length (filter (\<lambda>v. v \<notin> set (branch_literals ''browser_state'')) (map fst [(''save'', ''state_save''), (''load'', ''state_load'')])) \<le> 1"
  by (simp add: blit_state findByActionMap_def getActionMap_def stateActionMap_def storageActionMap_def waitForActionMap_def)

lemma corr_state: "corresponds ''browser_state'' ''action''"
proof (rule correspondence_from_table [OF _ _ disc_state _ emit_state _ res_state dist_state lit_state np_state one_state])
  show "''browser_state'' \<notin> set spread_tools" by (simp add: spread_tools_def)
  show "''browser_state'' \<noteq> ''browser_find''" by simp
  show "schema_enum ''browser_state'' ''action'' = map fst [(''save'', ''state_save''), (''load'', ''state_load'')]"
    by (simp add: enum_state)
  show "[(''save'', ''state_save''), (''load'', ''state_load'')] \<noteq> []" by simp
qed

lemma corrd_state: "\<forall>d. discriminant_of ''browser_state'' = Some d \<longrightarrow> corresponds ''browser_state'' d"
  using corr_state by (simp add: disc_state)

lemma enum_set_context: "schema_enum ''browser_set_context'' ''setting'' = [''device'', ''viewport'', ''geolocation'', ''locale'', ''timezone'', ''offline'', ''media'', ''headers'', ''credentials'']"
  by (simp add: schema_enum_def MERGED_TOOLS_def)

lemma emit_set_context:
  "emitted_actions ''browser_set_context'' = [(''device'', ''set_device''), (''viewport'', ''set_viewport''), (''geolocation'', ''set_geolocation''), (''locale'', ''set_locale''), (''timezone'', ''set_timezone''), (''offline'', ''set_offline''), (''media'', ''emulate_media''), (''headers'', ''set_headers''), (''credentials'', ''set_credentials'')]"
  by (simp add: emitted_actions_def named_actions_def findByActionMap_def getActionMap_def stateActionMap_def storageActionMap_def waitForActionMap_def)

lemma res_set_context:
  "list_all (\<lambda>(v, s). resolved_action ''browser_set_context'' ''setting'' v = Some (str s))
     [(''device'', ''set_device''), (''viewport'', ''set_viewport''), (''geolocation'', ''set_geolocation''), (''locale'', ''set_locale''), (''timezone'', ''set_timezone''), (''offline'', ''set_offline''), (''media'', ''emulate_media''), (''headers'', ''set_headers''), (''credentials'', ''set_credentials'')]"
  by (simp add: resolved_action_def map_set_context with_args_def tool_defs get_simps argv_def to_property_key_def table_lookup_def findByActionMap_def getActionMap_def stateActionMap_def storageActionMap_def waitForActionMap_def set_computed_def index_or_zero_def copy_fields_def copy_if_defined_def Let_def)

lemma dist_set_context:
  "distinct (map (\<lambda>v. mapMergedToolToCommand ''browser_set_context'' (Some [(''setting'', JStr v)]))
     (map fst [(''device'', ''set_device''), (''viewport'', ''set_viewport''), (''geolocation'', ''set_geolocation''), (''locale'', ''set_locale''), (''timezone'', ''set_timezone''), (''offline'', ''set_offline''), (''media'', ''emulate_media''), (''headers'', ''set_headers''), (''credentials'', ''set_credentials'')]))"
  by (simp add: map_set_context with_args_def tool_defs get_simps argv_def to_property_key_def table_lookup_def findByActionMap_def getActionMap_def stateActionMap_def storageActionMap_def waitForActionMap_def set_computed_def index_or_zero_def copy_fields_def copy_if_defined_def Let_def)

lemma lit_set_context:
  "set (branch_literals ''browser_set_context'') \<subseteq> set (map fst [(''device'', ''set_device''), (''viewport'', ''set_viewport''), (''geolocation'', ''set_geolocation''), (''locale'', ''set_locale''), (''timezone'', ''set_timezone''), (''offline'', ''set_offline''), (''media'', ''emulate_media''), (''headers'', ''set_headers''), (''credentials'', ''set_credentials'')])"
  by (simp add: branch_literals_def compared_literals_def findByActionMap_def getActionMap_def stateActionMap_def storageActionMap_def waitForActionMap_def)

lemma np_set_context:
  "set (map fst [(''device'', ''set_device''), (''viewport'', ''set_viewport''), (''geolocation'', ''set_geolocation''), (''locale'', ''set_locale''), (''timezone'', ''set_timezone''), (''offline'', ''set_offline''), (''media'', ''emulate_media''), (''headers'', ''set_headers''), (''credentials'', ''set_credentials'')]) \<inter> set object_prototype_keys = {}"
  by (simp add: object_prototype_keys_def)

lemma one_set_context:
  "''browser_set_context'' \<notin> set passthrough_tools \<longrightarrow>
     length (filter (\<lambda>v. v \<notin> set (branch_literals ''browser_set_context'')) (map fst [(''device'', ''set_device''), (''viewport'', ''set_viewport''), (''geolocation'', ''set_geolocation''), (''locale'', ''set_locale''), (''timezone'', ''set_timezone''), (''offline'', ''set_offline''), (''media'', ''emulate_media''), (''headers'', ''set_headers''), (''credentials'', ''set_credentials'')])) \<le> 1"
  by (simp add: blit_set_context findByActionMap_def getActionMap_def stateActionMap_def storageActionMap_def waitForActionMap_def)

lemma corr_set_context: "corresponds ''browser_set_context'' ''setting''"
proof (rule correspondence_from_table [OF _ _ disc_set_context _ emit_set_context _ res_set_context dist_set_context lit_set_context np_set_context one_set_context])
  show "''browser_set_context'' \<notin> set spread_tools" by (simp add: spread_tools_def)
  show "''browser_set_context'' \<noteq> ''browser_find''" by simp
  show "schema_enum ''browser_set_context'' ''setting'' = map fst [(''device'', ''set_device''), (''viewport'', ''set_viewport''), (''geolocation'', ''set_geolocation''), (''locale'', ''set_locale''), (''timezone'', ''set_timezone''), (''offline'', ''set_offline''), (''media'', ''emulate_media''), (''headers'', ''set_headers''), (''credentials'', ''set_credentials'')]"
    by (simp add: enum_set_context)
  show "[(''device'', ''set_device''), (''viewport'', ''set_viewport''), (''geolocation'', ''set_geolocation''), (''locale'', ''set_locale''), (''timezone'', ''set_timezone''), (''offline'', ''set_offline''), (''media'', ''emulate_media''), (''headers'', ''set_headers''), (''credentials'', ''set_credentials'')] \<noteq> []" by simp
qed

lemma corrd_set_context: "\<forall>d. discriminant_of ''browser_set_context'' = Some d \<longrightarrow> corresponds ''browser_set_context'' d"
  using corr_set_context by (simp add: disc_set_context)

lemma enum_dialog: "schema_enum ''browser_dialog'' ''action'' = [''accept'', ''dismiss'']"
  by (simp add: schema_enum_def MERGED_TOOLS_def)

lemma emit_dialog:
  "emitted_actions ''browser_dialog'' = [(''accept'', ''dialog_accept''), (''dismiss'', ''dialog_dismiss'')]"
  by (simp add: emitted_actions_def named_actions_def findByActionMap_def getActionMap_def stateActionMap_def storageActionMap_def waitForActionMap_def)

lemma res_dialog:
  "list_all (\<lambda>(v, s). resolved_action ''browser_dialog'' ''action'' v = Some (str s))
     [(''accept'', ''dialog_accept''), (''dismiss'', ''dialog_dismiss'')]"
  by (simp add: resolved_action_def map_dialog with_args_def tool_defs get_simps argv_def to_property_key_def table_lookup_def findByActionMap_def getActionMap_def stateActionMap_def storageActionMap_def waitForActionMap_def set_computed_def index_or_zero_def copy_fields_def copy_if_defined_def Let_def)

lemma dist_dialog:
  "distinct (map (\<lambda>v. mapMergedToolToCommand ''browser_dialog'' (Some [(''action'', JStr v)]))
     (map fst [(''accept'', ''dialog_accept''), (''dismiss'', ''dialog_dismiss'')]))"
  by (simp add: map_dialog with_args_def tool_defs get_simps argv_def to_property_key_def table_lookup_def findByActionMap_def getActionMap_def stateActionMap_def storageActionMap_def waitForActionMap_def set_computed_def index_or_zero_def copy_fields_def copy_if_defined_def Let_def)

lemma lit_dialog:
  "set (branch_literals ''browser_dialog'') \<subseteq> set (map fst [(''accept'', ''dialog_accept''), (''dismiss'', ''dialog_dismiss'')])"
  by (simp add: branch_literals_def compared_literals_def findByActionMap_def getActionMap_def stateActionMap_def storageActionMap_def waitForActionMap_def)

lemma np_dialog:
  "set (map fst [(''accept'', ''dialog_accept''), (''dismiss'', ''dialog_dismiss'')]) \<inter> set object_prototype_keys = {}"
  by (simp add: object_prototype_keys_def)

lemma one_dialog:
  "''browser_dialog'' \<notin> set passthrough_tools \<longrightarrow>
     length (filter (\<lambda>v. v \<notin> set (branch_literals ''browser_dialog'')) (map fst [(''accept'', ''dialog_accept''), (''dismiss'', ''dialog_dismiss'')])) \<le> 1"
  by (simp add: blit_dialog findByActionMap_def getActionMap_def stateActionMap_def storageActionMap_def waitForActionMap_def)

lemma corr_dialog: "corresponds ''browser_dialog'' ''action''"
proof (rule correspondence_from_table [OF _ _ disc_dialog _ emit_dialog _ res_dialog dist_dialog lit_dialog np_dialog one_dialog])
  show "''browser_dialog'' \<notin> set spread_tools" by (simp add: spread_tools_def)
  show "''browser_dialog'' \<noteq> ''browser_find''" by simp
  show "schema_enum ''browser_dialog'' ''action'' = map fst [(''accept'', ''dialog_accept''), (''dismiss'', ''dialog_dismiss'')]"
    by (simp add: enum_dialog)
  show "[(''accept'', ''dialog_accept''), (''dismiss'', ''dialog_dismiss'')] \<noteq> []" by simp
qed

lemma corrd_dialog: "\<forall>d. discriminant_of ''browser_dialog'' = Some d \<longrightarrow> corresponds ''browser_dialog'' d"
  using corr_dialog by (simp add: disc_dialog)

lemma enum_mouse: "schema_enum ''browser_mouse'' ''action'' = [''down'', ''up'', ''move'', ''wheel'']"
  by (simp add: schema_enum_def MERGED_TOOLS_def)

lemma emit_mouse:
  "emitted_actions ''browser_mouse'' = [(''down'', ''mouse_down''), (''up'', ''mouse_up''), (''move'', ''mouse_move''), (''wheel'', ''wheel'')]"
  by (simp add: emitted_actions_def named_actions_def findByActionMap_def getActionMap_def stateActionMap_def storageActionMap_def waitForActionMap_def)

lemma res_mouse:
  "list_all (\<lambda>(v, s). resolved_action ''browser_mouse'' ''action'' v = Some (str s))
     [(''down'', ''mouse_down''), (''up'', ''mouse_up''), (''move'', ''mouse_move''), (''wheel'', ''wheel'')]"
  by (simp add: resolved_action_def map_mouse with_args_def tool_defs get_simps argv_def to_property_key_def table_lookup_def findByActionMap_def getActionMap_def stateActionMap_def storageActionMap_def waitForActionMap_def set_computed_def index_or_zero_def copy_fields_def copy_if_defined_def Let_def)

lemma dist_mouse:
  "distinct (map (\<lambda>v. mapMergedToolToCommand ''browser_mouse'' (Some [(''action'', JStr v)]))
     (map fst [(''down'', ''mouse_down''), (''up'', ''mouse_up''), (''move'', ''mouse_move''), (''wheel'', ''wheel'')]))"
  by (simp add: map_mouse with_args_def tool_defs get_simps argv_def to_property_key_def table_lookup_def findByActionMap_def getActionMap_def stateActionMap_def storageActionMap_def waitForActionMap_def set_computed_def index_or_zero_def copy_fields_def copy_if_defined_def Let_def)

lemma lit_mouse:
  "set (branch_literals ''browser_mouse'') \<subseteq> set (map fst [(''down'', ''mouse_down''), (''up'', ''mouse_up''), (''move'', ''mouse_move''), (''wheel'', ''wheel'')])"
  by (simp add: branch_literals_def compared_literals_def findByActionMap_def getActionMap_def stateActionMap_def storageActionMap_def waitForActionMap_def)

lemma np_mouse:
  "set (map fst [(''down'', ''mouse_down''), (''up'', ''mouse_up''), (''move'', ''mouse_move''), (''wheel'', ''wheel'')]) \<inter> set object_prototype_keys = {}"
  by (simp add: object_prototype_keys_def)

lemma one_mouse:
  "''browser_mouse'' \<notin> set passthrough_tools \<longrightarrow>
     length (filter (\<lambda>v. v \<notin> set (branch_literals ''browser_mouse'')) (map fst [(''down'', ''mouse_down''), (''up'', ''mouse_up''), (''move'', ''mouse_move''), (''wheel'', ''wheel'')])) \<le> 1"
  by (simp add: blit_mouse findByActionMap_def getActionMap_def stateActionMap_def storageActionMap_def waitForActionMap_def)

lemma corr_mouse: "corresponds ''browser_mouse'' ''action''"
proof (rule correspondence_from_table [OF _ _ disc_mouse _ emit_mouse _ res_mouse dist_mouse lit_mouse np_mouse one_mouse])
  show "''browser_mouse'' \<notin> set spread_tools" by (simp add: spread_tools_def)
  show "''browser_mouse'' \<noteq> ''browser_find''" by simp
  show "schema_enum ''browser_mouse'' ''action'' = map fst [(''down'', ''mouse_down''), (''up'', ''mouse_up''), (''move'', ''mouse_move''), (''wheel'', ''wheel'')]"
    by (simp add: enum_mouse)
  show "[(''down'', ''mouse_down''), (''up'', ''mouse_up''), (''move'', ''mouse_move''), (''wheel'', ''wheel'')] \<noteq> []" by simp
qed

lemma corrd_mouse: "\<forall>d. discriminant_of ''browser_mouse'' = Some d \<longrightarrow> corresponds ''browser_mouse'' d"
  using corr_mouse by (simp add: disc_mouse)

lemma enum_keyboard_raw: "schema_enum ''browser_keyboard_raw'' ''action'' = [''down'', ''up'', ''shortcut'']"
  by (simp add: schema_enum_def MERGED_TOOLS_def)

lemma emit_keyboard_raw:
  "emitted_actions ''browser_keyboard_raw'' = [(''down'', ''key_down''), (''up'', ''key_up''), (''shortcut'', ''keyboard'')]"
  by (simp add: emitted_actions_def named_actions_def findByActionMap_def getActionMap_def stateActionMap_def storageActionMap_def waitForActionMap_def)

lemma res_keyboard_raw:
  "list_all (\<lambda>(v, s). resolved_action ''browser_keyboard_raw'' ''action'' v = Some (str s))
     [(''down'', ''key_down''), (''up'', ''key_up''), (''shortcut'', ''keyboard'')]"
  by (simp add: resolved_action_def map_keyboard_raw with_args_def tool_defs get_simps argv_def to_property_key_def table_lookup_def findByActionMap_def getActionMap_def stateActionMap_def storageActionMap_def waitForActionMap_def set_computed_def index_or_zero_def copy_fields_def copy_if_defined_def Let_def)

lemma dist_keyboard_raw:
  "distinct (map (\<lambda>v. mapMergedToolToCommand ''browser_keyboard_raw'' (Some [(''action'', JStr v)]))
     (map fst [(''down'', ''key_down''), (''up'', ''key_up''), (''shortcut'', ''keyboard'')]))"
  by (simp add: map_keyboard_raw with_args_def tool_defs get_simps argv_def to_property_key_def table_lookup_def findByActionMap_def getActionMap_def stateActionMap_def storageActionMap_def waitForActionMap_def set_computed_def index_or_zero_def copy_fields_def copy_if_defined_def Let_def)

lemma lit_keyboard_raw:
  "set (branch_literals ''browser_keyboard_raw'') \<subseteq> set (map fst [(''down'', ''key_down''), (''up'', ''key_up''), (''shortcut'', ''keyboard'')])"
  by (simp add: branch_literals_def compared_literals_def findByActionMap_def getActionMap_def stateActionMap_def storageActionMap_def waitForActionMap_def)

lemma np_keyboard_raw:
  "set (map fst [(''down'', ''key_down''), (''up'', ''key_up''), (''shortcut'', ''keyboard'')]) \<inter> set object_prototype_keys = {}"
  by (simp add: object_prototype_keys_def)

lemma one_keyboard_raw:
  "''browser_keyboard_raw'' \<notin> set passthrough_tools \<longrightarrow>
     length (filter (\<lambda>v. v \<notin> set (branch_literals ''browser_keyboard_raw'')) (map fst [(''down'', ''key_down''), (''up'', ''key_up''), (''shortcut'', ''keyboard'')])) \<le> 1"
  by (simp add: blit_keyboard_raw findByActionMap_def getActionMap_def stateActionMap_def storageActionMap_def waitForActionMap_def)

lemma corr_keyboard_raw: "corresponds ''browser_keyboard_raw'' ''action''"
proof (rule correspondence_from_table [OF _ _ disc_keyboard_raw _ emit_keyboard_raw _ res_keyboard_raw dist_keyboard_raw lit_keyboard_raw np_keyboard_raw one_keyboard_raw])
  show "''browser_keyboard_raw'' \<notin> set spread_tools" by (simp add: spread_tools_def)
  show "''browser_keyboard_raw'' \<noteq> ''browser_find''" by simp
  show "schema_enum ''browser_keyboard_raw'' ''action'' = map fst [(''down'', ''key_down''), (''up'', ''key_up''), (''shortcut'', ''keyboard'')]"
    by (simp add: enum_keyboard_raw)
  show "[(''down'', ''key_down''), (''up'', ''key_up''), (''shortcut'', ''keyboard'')] \<noteq> []" by simp
qed

lemma corrd_keyboard_raw: "\<forall>d. discriminant_of ''browser_keyboard_raw'' = Some d \<longrightarrow> corresponds ''browser_keyboard_raw'' d"
  using corr_keyboard_raw by (simp add: disc_keyboard_raw)

lemma enum_network: "schema_enum ''browser_network'' ''action'' = [''route'', ''unroute'', ''requests'']"
  by (simp add: schema_enum_def MERGED_TOOLS_def)

lemma emit_network:
  "emitted_actions ''browser_network'' = [(''route'', ''route''), (''unroute'', ''unroute''), (''requests'', ''requests'')]"
  by (simp add: emitted_actions_def named_actions_def findByActionMap_def getActionMap_def stateActionMap_def storageActionMap_def waitForActionMap_def)

lemma res_network:
  "list_all (\<lambda>(v, s). resolved_action ''browser_network'' ''action'' v = Some (str s))
     [(''route'', ''route''), (''unroute'', ''unroute''), (''requests'', ''requests'')]"
  by (simp add: resolved_action_def map_network with_args_def tool_defs get_simps argv_def to_property_key_def table_lookup_def findByActionMap_def getActionMap_def stateActionMap_def storageActionMap_def waitForActionMap_def set_computed_def index_or_zero_def copy_fields_def copy_if_defined_def Let_def)

lemma dist_network:
  "distinct (map (\<lambda>v. mapMergedToolToCommand ''browser_network'' (Some [(''action'', JStr v)]))
     (map fst [(''route'', ''route''), (''unroute'', ''unroute''), (''requests'', ''requests'')]))"
  by (simp add: map_network with_args_def tool_defs get_simps argv_def to_property_key_def table_lookup_def findByActionMap_def getActionMap_def stateActionMap_def storageActionMap_def waitForActionMap_def set_computed_def index_or_zero_def copy_fields_def copy_if_defined_def Let_def)

lemma lit_network:
  "set (branch_literals ''browser_network'') \<subseteq> set (map fst [(''route'', ''route''), (''unroute'', ''unroute''), (''requests'', ''requests'')])"
  by (simp add: branch_literals_def compared_literals_def findByActionMap_def getActionMap_def stateActionMap_def storageActionMap_def waitForActionMap_def)

lemma np_network:
  "set (map fst [(''route'', ''route''), (''unroute'', ''unroute''), (''requests'', ''requests'')]) \<inter> set object_prototype_keys = {}"
  by (simp add: object_prototype_keys_def)

lemma one_network:
  "''browser_network'' \<notin> set passthrough_tools \<longrightarrow>
     length (filter (\<lambda>v. v \<notin> set (branch_literals ''browser_network'')) (map fst [(''route'', ''route''), (''unroute'', ''unroute''), (''requests'', ''requests'')])) \<le> 1"
  by (simp add: blit_network findByActionMap_def getActionMap_def stateActionMap_def storageActionMap_def waitForActionMap_def)

lemma corr_network: "corresponds ''browser_network'' ''action''"
proof (rule correspondence_from_table [OF _ _ disc_network _ emit_network _ res_network dist_network lit_network np_network one_network])
  show "''browser_network'' \<notin> set spread_tools" by (simp add: spread_tools_def)
  show "''browser_network'' \<noteq> ''browser_find''" by simp
  show "schema_enum ''browser_network'' ''action'' = map fst [(''route'', ''route''), (''unroute'', ''unroute''), (''requests'', ''requests'')]"
    by (simp add: enum_network)
  show "[(''route'', ''route''), (''unroute'', ''unroute''), (''requests'', ''requests'')] \<noteq> []" by simp
qed

lemma corrd_network: "\<forall>d. discriminant_of ''browser_network'' = Some d \<longrightarrow> corresponds ''browser_network'' d"
  using corr_network by (simp add: disc_network)

lemma corrd_response_body: "\<forall>d. discriminant_of ''browser_response_body'' = Some d \<longrightarrow> corresponds ''browser_response_body'' d"
  by (simp add: disc_response_body)

lemma corrd_evaluate: "\<forall>d. discriminant_of ''browser_evaluate'' = Some d \<longrightarrow> corresponds ''browser_evaluate'' d"
  by (simp add: disc_evaluate)

lemma corrd_set_content: "\<forall>d. discriminant_of ''browser_set_content'' = Some d \<longrightarrow> corresponds ''browser_set_content'' d"
  by (simp add: disc_set_content)

lemma corrd_add_script: "\<forall>d. discriminant_of ''browser_add_script'' = Some d \<longrightarrow> corresponds ''browser_add_script'' d"
  by (simp add: disc_add_script)

lemma corrd_add_style: "\<forall>d. discriminant_of ''browser_add_style'' = Some d \<longrightarrow> corresponds ''browser_add_style'' d"
  by (simp add: disc_add_style)

lemma corrd_add_init_script: "\<forall>d. discriminant_of ''browser_add_init_script'' = Some d \<longrightarrow> corresponds ''browser_add_init_script'' d"
  by (simp add: disc_add_init_script)

lemma corrd_dispatch_event: "\<forall>d. discriminant_of ''browser_dispatch_event'' = Some d \<longrightarrow> corresponds ''browser_dispatch_event'' d"
  by (simp add: disc_dispatch_event)

lemma enum_logs: "schema_enum ''browser_logs'' ''type'' = [''console'', ''errors'']"
  by (simp add: schema_enum_def MERGED_TOOLS_def)

lemma emit_logs:
  "emitted_actions ''browser_logs'' = [(''console'', ''console''), (''errors'', ''errors'')]"
  by (simp add: emitted_actions_def named_actions_def findByActionMap_def getActionMap_def stateActionMap_def storageActionMap_def waitForActionMap_def)

lemma res_logs:
  "list_all (\<lambda>(v, s). resolved_action ''browser_logs'' ''type'' v = Some (str s))
     [(''console'', ''console''), (''errors'', ''errors'')]"
  by (simp add: resolved_action_def map_logs with_args_def tool_defs get_simps argv_def to_property_key_def table_lookup_def findByActionMap_def getActionMap_def stateActionMap_def storageActionMap_def waitForActionMap_def set_computed_def index_or_zero_def copy_fields_def copy_if_defined_def Let_def)

lemma dist_logs:
  "distinct (map (\<lambda>v. mapMergedToolToCommand ''browser_logs'' (Some [(''type'', JStr v)]))
     (map fst [(''console'', ''console''), (''errors'', ''errors'')]))"
  by (simp add: map_logs with_args_def tool_defs get_simps argv_def to_property_key_def table_lookup_def findByActionMap_def getActionMap_def stateActionMap_def storageActionMap_def waitForActionMap_def set_computed_def index_or_zero_def copy_fields_def copy_if_defined_def Let_def)

lemma lit_logs:
  "set (branch_literals ''browser_logs'') \<subseteq> set (map fst [(''console'', ''console''), (''errors'', ''errors'')])"
  by (simp add: branch_literals_def compared_literals_def findByActionMap_def getActionMap_def stateActionMap_def storageActionMap_def waitForActionMap_def)

lemma np_logs:
  "set (map fst [(''console'', ''console''), (''errors'', ''errors'')]) \<inter> set object_prototype_keys = {}"
  by (simp add: object_prototype_keys_def)

lemma one_logs:
  "''browser_logs'' \<notin> set passthrough_tools \<longrightarrow>
     length (filter (\<lambda>v. v \<notin> set (branch_literals ''browser_logs'')) (map fst [(''console'', ''console''), (''errors'', ''errors'')])) \<le> 1"
  by (simp add: passthrough_tools_def)

lemma corr_logs: "corresponds ''browser_logs'' ''type''"
proof (rule correspondence_from_table [OF _ _ disc_logs _ emit_logs _ res_logs dist_logs lit_logs np_logs one_logs])
  show "''browser_logs'' \<notin> set spread_tools" by (simp add: spread_tools_def)
  show "''browser_logs'' \<noteq> ''browser_find''" by simp
  show "schema_enum ''browser_logs'' ''type'' = map fst [(''console'', ''console''), (''errors'', ''errors'')]"
    by (simp add: enum_logs)
  show "[(''console'', ''console''), (''errors'', ''errors'')] \<noteq> []" by simp
qed

lemma corrd_logs: "\<forall>d. discriminant_of ''browser_logs'' = Some d \<longrightarrow> corresponds ''browser_logs'' d"
  using corr_logs by (simp add: disc_logs)

lemma corrd_highlight: "\<forall>d. discriminant_of ''browser_highlight'' = Some d \<longrightarrow> corresponds ''browser_highlight'' d"
  by (simp add: disc_highlight)

lemma corrd_styles: "\<forall>d. discriminant_of ''browser_styles'' = Some d \<longrightarrow> corresponds ''browser_styles'' d"
  by (simp add: disc_styles)

lemma enum_screencast: "schema_enum ''browser_screencast'' ''action'' = [''start'', ''stop'']"
  by (simp add: schema_enum_def MERGED_TOOLS_def)

lemma emit_screencast:
  "emitted_actions ''browser_screencast'' = [(''start'', ''screencast_start''), (''stop'', ''screencast_stop'')]"
  by (simp add: emitted_actions_def named_actions_def findByActionMap_def getActionMap_def stateActionMap_def storageActionMap_def waitForActionMap_def)

lemma res_screencast:
  "list_all (\<lambda>(v, s). resolved_action ''browser_screencast'' ''action'' v = Some (str s))
     [(''start'', ''screencast_start''), (''stop'', ''screencast_stop'')]"
  by (simp add: resolved_action_def map_screencast with_args_def tool_defs get_simps argv_def to_property_key_def table_lookup_def findByActionMap_def getActionMap_def stateActionMap_def storageActionMap_def waitForActionMap_def set_computed_def index_or_zero_def copy_fields_def copy_if_defined_def Let_def)

lemma dist_screencast:
  "distinct (map (\<lambda>v. mapMergedToolToCommand ''browser_screencast'' (Some [(''action'', JStr v)]))
     (map fst [(''start'', ''screencast_start''), (''stop'', ''screencast_stop'')]))"
  by (simp add: map_screencast with_args_def tool_defs get_simps argv_def to_property_key_def table_lookup_def findByActionMap_def getActionMap_def stateActionMap_def storageActionMap_def waitForActionMap_def set_computed_def index_or_zero_def copy_fields_def copy_if_defined_def Let_def)

lemma lit_screencast:
  "set (branch_literals ''browser_screencast'') \<subseteq> set (map fst [(''start'', ''screencast_start''), (''stop'', ''screencast_stop'')])"
  by (simp add: branch_literals_def compared_literals_def findByActionMap_def getActionMap_def stateActionMap_def storageActionMap_def waitForActionMap_def)

lemma np_screencast:
  "set (map fst [(''start'', ''screencast_start''), (''stop'', ''screencast_stop'')]) \<inter> set object_prototype_keys = {}"
  by (simp add: object_prototype_keys_def)

lemma one_screencast:
  "''browser_screencast'' \<notin> set passthrough_tools \<longrightarrow>
     length (filter (\<lambda>v. v \<notin> set (branch_literals ''browser_screencast'')) (map fst [(''start'', ''screencast_start''), (''stop'', ''screencast_stop'')])) \<le> 1"
  by (simp add: blit_screencast findByActionMap_def getActionMap_def stateActionMap_def storageActionMap_def waitForActionMap_def)

lemma corr_screencast: "corresponds ''browser_screencast'' ''action''"
proof (rule correspondence_from_table [OF _ _ disc_screencast _ emit_screencast _ res_screencast dist_screencast lit_screencast np_screencast one_screencast])
  show "''browser_screencast'' \<notin> set spread_tools" by (simp add: spread_tools_def)
  show "''browser_screencast'' \<noteq> ''browser_find''" by simp
  show "schema_enum ''browser_screencast'' ''action'' = map fst [(''start'', ''screencast_start''), (''stop'', ''screencast_stop'')]"
    by (simp add: enum_screencast)
  show "[(''start'', ''screencast_start''), (''stop'', ''screencast_stop'')] \<noteq> []" by simp
qed

lemma corrd_screencast: "\<forall>d. discriminant_of ''browser_screencast'' = Some d \<longrightarrow> corresponds ''browser_screencast'' d"
  using corr_screencast by (simp add: disc_screencast)

lemma enum_trace: "schema_enum ''browser_trace'' ''action'' = [''start'', ''stop'']"
  by (simp add: schema_enum_def MERGED_TOOLS_def)

lemma emit_trace:
  "emitted_actions ''browser_trace'' = [(''start'', ''trace_start''), (''stop'', ''trace_stop'')]"
  by (simp add: emitted_actions_def named_actions_def findByActionMap_def getActionMap_def stateActionMap_def storageActionMap_def waitForActionMap_def)

lemma res_trace:
  "list_all (\<lambda>(v, s). resolved_action ''browser_trace'' ''action'' v = Some (str s))
     [(''start'', ''trace_start''), (''stop'', ''trace_stop'')]"
  by (simp add: resolved_action_def map_trace with_args_def tool_defs get_simps argv_def to_property_key_def table_lookup_def findByActionMap_def getActionMap_def stateActionMap_def storageActionMap_def waitForActionMap_def set_computed_def index_or_zero_def copy_fields_def copy_if_defined_def Let_def)

lemma dist_trace:
  "distinct (map (\<lambda>v. mapMergedToolToCommand ''browser_trace'' (Some [(''action'', JStr v)]))
     (map fst [(''start'', ''trace_start''), (''stop'', ''trace_stop'')]))"
  by (simp add: map_trace with_args_def tool_defs get_simps argv_def to_property_key_def table_lookup_def findByActionMap_def getActionMap_def stateActionMap_def storageActionMap_def waitForActionMap_def set_computed_def index_or_zero_def copy_fields_def copy_if_defined_def Let_def)

lemma lit_trace:
  "set (branch_literals ''browser_trace'') \<subseteq> set (map fst [(''start'', ''trace_start''), (''stop'', ''trace_stop'')])"
  by (simp add: branch_literals_def compared_literals_def findByActionMap_def getActionMap_def stateActionMap_def storageActionMap_def waitForActionMap_def)

lemma np_trace:
  "set (map fst [(''start'', ''trace_start''), (''stop'', ''trace_stop'')]) \<inter> set object_prototype_keys = {}"
  by (simp add: object_prototype_keys_def)

lemma one_trace:
  "''browser_trace'' \<notin> set passthrough_tools \<longrightarrow>
     length (filter (\<lambda>v. v \<notin> set (branch_literals ''browser_trace'')) (map fst [(''start'', ''trace_start''), (''stop'', ''trace_stop'')])) \<le> 1"
  by (simp add: blit_trace findByActionMap_def getActionMap_def stateActionMap_def storageActionMap_def waitForActionMap_def)

lemma corr_trace: "corresponds ''browser_trace'' ''action''"
proof (rule correspondence_from_table [OF _ _ disc_trace _ emit_trace _ res_trace dist_trace lit_trace np_trace one_trace])
  show "''browser_trace'' \<notin> set spread_tools" by (simp add: spread_tools_def)
  show "''browser_trace'' \<noteq> ''browser_find''" by simp
  show "schema_enum ''browser_trace'' ''action'' = map fst [(''start'', ''trace_start''), (''stop'', ''trace_stop'')]"
    by (simp add: enum_trace)
  show "[(''start'', ''trace_start''), (''stop'', ''trace_stop'')] \<noteq> []" by simp
qed

lemma corrd_trace: "\<forall>d. discriminant_of ''browser_trace'' = Some d \<longrightarrow> corresponds ''browser_trace'' d"
  using corr_trace by (simp add: disc_trace)

lemma enum_recording: "schema_enum ''browser_recording'' ''action'' = [''start'', ''stop'', ''restart'']"
  by (simp add: schema_enum_def MERGED_TOOLS_def)

lemma emit_recording:
  "emitted_actions ''browser_recording'' = [(''start'', ''recording_start''), (''stop'', ''recording_stop''), (''restart'', ''recording_restart'')]"
  by (simp add: emitted_actions_def named_actions_def findByActionMap_def getActionMap_def stateActionMap_def storageActionMap_def waitForActionMap_def)

lemma res_recording:
  "list_all (\<lambda>(v, s). resolved_action ''browser_recording'' ''action'' v = Some (str s))
     [(''start'', ''recording_start''), (''stop'', ''recording_stop''), (''restart'', ''recording_restart'')]"
  by (simp add: resolved_action_def map_recording with_args_def tool_defs get_simps argv_def to_property_key_def table_lookup_def findByActionMap_def getActionMap_def stateActionMap_def storageActionMap_def waitForActionMap_def set_computed_def index_or_zero_def copy_fields_def copy_if_defined_def Let_def)

lemma dist_recording:
  "distinct (map (\<lambda>v. mapMergedToolToCommand ''browser_recording'' (Some [(''action'', JStr v)]))
     (map fst [(''start'', ''recording_start''), (''stop'', ''recording_stop''), (''restart'', ''recording_restart'')]))"
  by (simp add: map_recording with_args_def tool_defs get_simps argv_def to_property_key_def table_lookup_def findByActionMap_def getActionMap_def stateActionMap_def storageActionMap_def waitForActionMap_def set_computed_def index_or_zero_def copy_fields_def copy_if_defined_def Let_def)

lemma lit_recording:
  "set (branch_literals ''browser_recording'') \<subseteq> set (map fst [(''start'', ''recording_start''), (''stop'', ''recording_stop''), (''restart'', ''recording_restart'')])"
  by (simp add: branch_literals_def compared_literals_def findByActionMap_def getActionMap_def stateActionMap_def storageActionMap_def waitForActionMap_def)

lemma np_recording:
  "set (map fst [(''start'', ''recording_start''), (''stop'', ''recording_stop''), (''restart'', ''recording_restart'')]) \<inter> set object_prototype_keys = {}"
  by (simp add: object_prototype_keys_def)

lemma one_recording:
  "''browser_recording'' \<notin> set passthrough_tools \<longrightarrow>
     length (filter (\<lambda>v. v \<notin> set (branch_literals ''browser_recording'')) (map fst [(''start'', ''recording_start''), (''stop'', ''recording_stop''), (''restart'', ''recording_restart'')])) \<le> 1"
  by (simp add: blit_recording findByActionMap_def getActionMap_def stateActionMap_def storageActionMap_def waitForActionMap_def)

lemma corr_recording: "corresponds ''browser_recording'' ''action''"
proof (rule correspondence_from_table [OF _ _ disc_recording _ emit_recording _ res_recording dist_recording lit_recording np_recording one_recording])
  show "''browser_recording'' \<notin> set spread_tools" by (simp add: spread_tools_def)
  show "''browser_recording'' \<noteq> ''browser_find''" by simp
  show "schema_enum ''browser_recording'' ''action'' = map fst [(''start'', ''recording_start''), (''stop'', ''recording_stop''), (''restart'', ''recording_restart'')]"
    by (simp add: enum_recording)
  show "[(''start'', ''recording_start''), (''stop'', ''recording_stop''), (''restart'', ''recording_restart'')] \<noteq> []" by simp
qed

lemma corrd_recording: "\<forall>d. discriminant_of ''browser_recording'' = Some d \<longrightarrow> corresponds ''browser_recording'' d"
  using corr_recording by (simp add: disc_recording)

lemma enum_har: "schema_enum ''browser_har'' ''action'' = [''start'', ''stop'']"
  by (simp add: schema_enum_def MERGED_TOOLS_def)

lemma emit_har:
  "emitted_actions ''browser_har'' = [(''start'', ''har_start''), (''stop'', ''har_stop'')]"
  by (simp add: emitted_actions_def named_actions_def findByActionMap_def getActionMap_def stateActionMap_def storageActionMap_def waitForActionMap_def)

lemma res_har:
  "list_all (\<lambda>(v, s). resolved_action ''browser_har'' ''action'' v = Some (str s))
     [(''start'', ''har_start''), (''stop'', ''har_stop'')]"
  by (simp add: resolved_action_def map_har with_args_def tool_defs get_simps argv_def to_property_key_def table_lookup_def findByActionMap_def getActionMap_def stateActionMap_def storageActionMap_def waitForActionMap_def set_computed_def index_or_zero_def copy_fields_def copy_if_defined_def Let_def)

lemma dist_har:
  "distinct (map (\<lambda>v. mapMergedToolToCommand ''browser_har'' (Some [(''action'', JStr v)]))
     (map fst [(''start'', ''har_start''), (''stop'', ''har_stop'')]))"
  by (simp add: map_har with_args_def tool_defs get_simps argv_def to_property_key_def table_lookup_def findByActionMap_def getActionMap_def stateActionMap_def storageActionMap_def waitForActionMap_def set_computed_def index_or_zero_def copy_fields_def copy_if_defined_def Let_def)

lemma lit_har:
  "set (branch_literals ''browser_har'') \<subseteq> set (map fst [(''start'', ''har_start''), (''stop'', ''har_stop'')])"
  by (simp add: branch_literals_def compared_literals_def findByActionMap_def getActionMap_def stateActionMap_def storageActionMap_def waitForActionMap_def)

lemma np_har:
  "set (map fst [(''start'', ''har_start''), (''stop'', ''har_stop'')]) \<inter> set object_prototype_keys = {}"
  by (simp add: object_prototype_keys_def)

lemma one_har:
  "''browser_har'' \<notin> set passthrough_tools \<longrightarrow>
     length (filter (\<lambda>v. v \<notin> set (branch_literals ''browser_har'')) (map fst [(''start'', ''har_start''), (''stop'', ''har_stop'')])) \<le> 1"
  by (simp add: blit_har findByActionMap_def getActionMap_def stateActionMap_def storageActionMap_def waitForActionMap_def)

lemma corr_har: "corresponds ''browser_har'' ''action''"
proof (rule correspondence_from_table [OF _ _ disc_har _ emit_har _ res_har dist_har lit_har np_har one_har])
  show "''browser_har'' \<notin> set spread_tools" by (simp add: spread_tools_def)
  show "''browser_har'' \<noteq> ''browser_find''" by simp
  show "schema_enum ''browser_har'' ''action'' = map fst [(''start'', ''har_start''), (''stop'', ''har_stop'')]"
    by (simp add: enum_har)
  show "[(''start'', ''har_start''), (''stop'', ''har_stop'')] \<noteq> []" by simp
qed

lemma corrd_har: "\<forall>d. discriminant_of ''browser_har'' = Some d \<longrightarrow> corresponds ''browser_har'' d"
  using corr_har by (simp add: disc_har)

lemma enum_tab: "schema_enum ''browser_tab'' ''action'' = [''list'', ''new'', ''switch'', ''close'']"
  by (simp add: schema_enum_def MERGED_TOOLS_def)

lemma emit_tab:
  "emitted_actions ''browser_tab'' = [(''list'', ''tab_list''), (''new'', ''tab_new''), (''switch'', ''tab_switch''), (''close'', ''tab_close'')]"
  by (simp add: emitted_actions_def named_actions_def findByActionMap_def getActionMap_def stateActionMap_def storageActionMap_def waitForActionMap_def)

lemma res_tab:
  "list_all (\<lambda>(v, s). resolved_action ''browser_tab'' ''action'' v = Some (str s))
     [(''list'', ''tab_list''), (''new'', ''tab_new''), (''switch'', ''tab_switch''), (''close'', ''tab_close'')]"
  by (simp add: resolved_action_def map_tab with_args_def tool_defs get_simps argv_def to_property_key_def table_lookup_def findByActionMap_def getActionMap_def stateActionMap_def storageActionMap_def waitForActionMap_def set_computed_def index_or_zero_def copy_fields_def copy_if_defined_def Let_def)

lemma dist_tab:
  "distinct (map (\<lambda>v. mapMergedToolToCommand ''browser_tab'' (Some [(''action'', JStr v)]))
     (map fst [(''list'', ''tab_list''), (''new'', ''tab_new''), (''switch'', ''tab_switch''), (''close'', ''tab_close'')]))"
  by (simp add: map_tab with_args_def tool_defs get_simps argv_def to_property_key_def table_lookup_def findByActionMap_def getActionMap_def stateActionMap_def storageActionMap_def waitForActionMap_def set_computed_def index_or_zero_def copy_fields_def copy_if_defined_def Let_def)

lemma lit_tab:
  "set (branch_literals ''browser_tab'') \<subseteq> set (map fst [(''list'', ''tab_list''), (''new'', ''tab_new''), (''switch'', ''tab_switch''), (''close'', ''tab_close'')])"
  by (simp add: branch_literals_def compared_literals_def findByActionMap_def getActionMap_def stateActionMap_def storageActionMap_def waitForActionMap_def)

lemma np_tab:
  "set (map fst [(''list'', ''tab_list''), (''new'', ''tab_new''), (''switch'', ''tab_switch''), (''close'', ''tab_close'')]) \<inter> set object_prototype_keys = {}"
  by (simp add: object_prototype_keys_def)

lemma one_tab:
  "''browser_tab'' \<notin> set passthrough_tools \<longrightarrow>
     length (filter (\<lambda>v. v \<notin> set (branch_literals ''browser_tab'')) (map fst [(''list'', ''tab_list''), (''new'', ''tab_new''), (''switch'', ''tab_switch''), (''close'', ''tab_close'')])) \<le> 1"
  by (simp add: passthrough_tools_def)

lemma corr_tab: "corresponds ''browser_tab'' ''action''"
proof (rule correspondence_from_table [OF _ _ disc_tab _ emit_tab _ res_tab dist_tab lit_tab np_tab one_tab])
  show "''browser_tab'' \<notin> set spread_tools" by (simp add: spread_tools_def)
  show "''browser_tab'' \<noteq> ''browser_find''" by simp
  show "schema_enum ''browser_tab'' ''action'' = map fst [(''list'', ''tab_list''), (''new'', ''tab_new''), (''switch'', ''tab_switch''), (''close'', ''tab_close'')]"
    by (simp add: enum_tab)
  show "[(''list'', ''tab_list''), (''new'', ''tab_new''), (''switch'', ''tab_switch''), (''close'', ''tab_close'')] \<noteq> []" by simp
qed

lemma corrd_tab: "\<forall>d. discriminant_of ''browser_tab'' = Some d \<longrightarrow> corresponds ''browser_tab'' d"
  using corr_tab by (simp add: disc_tab)

lemma enum_window: "schema_enum ''browser_window'' ''action'' = [''new'', ''bring_to_front'']"
  by (simp add: schema_enum_def MERGED_TOOLS_def)

lemma emit_window:
  "emitted_actions ''browser_window'' = [(''new'', ''window_new''), (''bring_to_front'', ''bring_to_front'')]"
  by (simp add: emitted_actions_def named_actions_def findByActionMap_def getActionMap_def stateActionMap_def storageActionMap_def waitForActionMap_def)

lemma res_window:
  "list_all (\<lambda>(v, s). resolved_action ''browser_window'' ''action'' v = Some (str s))
     [(''new'', ''window_new''), (''bring_to_front'', ''bring_to_front'')]"
  by (simp add: resolved_action_def map_window with_args_def tool_defs get_simps argv_def to_property_key_def table_lookup_def findByActionMap_def getActionMap_def stateActionMap_def storageActionMap_def waitForActionMap_def set_computed_def index_or_zero_def copy_fields_def copy_if_defined_def Let_def)

lemma dist_window:
  "distinct (map (\<lambda>v. mapMergedToolToCommand ''browser_window'' (Some [(''action'', JStr v)]))
     (map fst [(''new'', ''window_new''), (''bring_to_front'', ''bring_to_front'')]))"
  by (simp add: map_window with_args_def tool_defs get_simps argv_def to_property_key_def table_lookup_def findByActionMap_def getActionMap_def stateActionMap_def storageActionMap_def waitForActionMap_def set_computed_def index_or_zero_def copy_fields_def copy_if_defined_def Let_def)

lemma lit_window:
  "set (branch_literals ''browser_window'') \<subseteq> set (map fst [(''new'', ''window_new''), (''bring_to_front'', ''bring_to_front'')])"
  by (simp add: branch_literals_def compared_literals_def findByActionMap_def getActionMap_def stateActionMap_def storageActionMap_def waitForActionMap_def)

lemma np_window:
  "set (map fst [(''new'', ''window_new''), (''bring_to_front'', ''bring_to_front'')]) \<inter> set object_prototype_keys = {}"
  by (simp add: object_prototype_keys_def)

lemma one_window:
  "''browser_window'' \<notin> set passthrough_tools \<longrightarrow>
     length (filter (\<lambda>v. v \<notin> set (branch_literals ''browser_window'')) (map fst [(''new'', ''window_new''), (''bring_to_front'', ''bring_to_front'')])) \<le> 1"
  by (simp add: blit_window findByActionMap_def getActionMap_def stateActionMap_def storageActionMap_def waitForActionMap_def)

lemma corr_window: "corresponds ''browser_window'' ''action''"
proof (rule correspondence_from_table [OF _ _ disc_window _ emit_window _ res_window dist_window lit_window np_window one_window])
  show "''browser_window'' \<notin> set spread_tools" by (simp add: spread_tools_def)
  show "''browser_window'' \<noteq> ''browser_find''" by simp
  show "schema_enum ''browser_window'' ''action'' = map fst [(''new'', ''window_new''), (''bring_to_front'', ''bring_to_front'')]"
    by (simp add: enum_window)
  show "[(''new'', ''window_new''), (''bring_to_front'', ''bring_to_front'')] \<noteq> []" by simp
qed

lemma corrd_window: "\<forall>d. discriminant_of ''browser_window'' = Some d \<longrightarrow> corresponds ''browser_window'' d"
  using corr_window by (simp add: disc_window)

lemma enum_frame: "schema_enum ''browser_frame'' ''action'' = [''switch'', ''main'']"
  by (simp add: schema_enum_def MERGED_TOOLS_def)

lemma emit_frame:
  "emitted_actions ''browser_frame'' = [(''switch'', ''frame''), (''main'', ''main_frame'')]"
  by (simp add: emitted_actions_def named_actions_def findByActionMap_def getActionMap_def stateActionMap_def storageActionMap_def waitForActionMap_def)

lemma res_frame:
  "list_all (\<lambda>(v, s). resolved_action ''browser_frame'' ''action'' v = Some (str s))
     [(''switch'', ''frame''), (''main'', ''main_frame'')]"
  by (simp add: resolved_action_def map_frame with_args_def tool_defs get_simps argv_def to_property_key_def table_lookup_def findByActionMap_def getActionMap_def stateActionMap_def storageActionMap_def waitForActionMap_def set_computed_def index_or_zero_def copy_fields_def copy_if_defined_def Let_def)

lemma dist_frame:
  "distinct (map (\<lambda>v. mapMergedToolToCommand ''browser_frame'' (Some [(''action'', JStr v)]))
     (map fst [(''switch'', ''frame''), (''main'', ''main_frame'')]))"
  by (simp add: map_frame with_args_def tool_defs get_simps argv_def to_property_key_def table_lookup_def findByActionMap_def getActionMap_def stateActionMap_def storageActionMap_def waitForActionMap_def set_computed_def index_or_zero_def copy_fields_def copy_if_defined_def Let_def)

lemma lit_frame:
  "set (branch_literals ''browser_frame'') \<subseteq> set (map fst [(''switch'', ''frame''), (''main'', ''main_frame'')])"
  by (simp add: branch_literals_def compared_literals_def findByActionMap_def getActionMap_def stateActionMap_def storageActionMap_def waitForActionMap_def)

lemma np_frame:
  "set (map fst [(''switch'', ''frame''), (''main'', ''main_frame'')]) \<inter> set object_prototype_keys = {}"
  by (simp add: object_prototype_keys_def)

lemma one_frame:
  "''browser_frame'' \<notin> set passthrough_tools \<longrightarrow>
     length (filter (\<lambda>v. v \<notin> set (branch_literals ''browser_frame'')) (map fst [(''switch'', ''frame''), (''main'', ''main_frame'')])) \<le> 1"
  by (simp add: blit_frame findByActionMap_def getActionMap_def stateActionMap_def storageActionMap_def waitForActionMap_def)

lemma corr_frame: "corresponds ''browser_frame'' ''action''"
proof (rule correspondence_from_table [OF _ _ disc_frame _ emit_frame _ res_frame dist_frame lit_frame np_frame one_frame])
  show "''browser_frame'' \<notin> set spread_tools" by (simp add: spread_tools_def)
  show "''browser_frame'' \<noteq> ''browser_find''" by simp
  show "schema_enum ''browser_frame'' ''action'' = map fst [(''switch'', ''frame''), (''main'', ''main_frame'')]"
    by (simp add: enum_frame)
  show "[(''switch'', ''frame''), (''main'', ''main_frame'')] \<noteq> []" by simp
qed

lemma corrd_frame: "\<forall>d. discriminant_of ''browser_frame'' = Some d \<longrightarrow> corresponds ''browser_frame'' d"
  using corr_frame by (simp add: disc_frame)

lemma corrd_pdf: "\<forall>d. discriminant_of ''browser_pdf'' = Some d \<longrightarrow> corresponds ''browser_pdf'' d"
  by (simp add: disc_pdf)

lemma corrd_download: "\<forall>d. discriminant_of ''browser_download'' = Some d \<longrightarrow> corresponds ''browser_download'' d"
  by (simp add: disc_download)

lemma corrd_wait: "\<forall>d. discriminant_of ''browser_wait'' = Some d \<longrightarrow> corresponds ''browser_wait'' d"
  by (simp add: disc_wait)

lemma enum_wait_for: "schema_enum ''browser_wait_for'' ''condition'' = [''url'', ''load_state'', ''function'', ''download'']"
  by (simp add: schema_enum_def MERGED_TOOLS_def)

lemma emit_wait_for:
  "emitted_actions ''browser_wait_for'' = [(''url'', ''wait_for_url''), (''load_state'', ''wait_for_load_state''), (''function'', ''wait_for_function''), (''download'', ''wait_for_download'')]"
  by (simp add: emitted_actions_def named_actions_def findByActionMap_def getActionMap_def stateActionMap_def storageActionMap_def waitForActionMap_def)

lemma res_wait_for:
  "list_all (\<lambda>(v, s). resolved_action ''browser_wait_for'' ''condition'' v = Some (str s))
     [(''url'', ''wait_for_url''), (''load_state'', ''wait_for_load_state''), (''function'', ''wait_for_function''), (''download'', ''wait_for_download'')]"
  by (simp add: resolved_action_def map_wait_for with_args_def tool_defs get_simps argv_def to_property_key_def table_lookup_def findByActionMap_def getActionMap_def stateActionMap_def storageActionMap_def waitForActionMap_def set_computed_def index_or_zero_def copy_fields_def copy_if_defined_def Let_def)

lemma dist_wait_for:
  "distinct (map (\<lambda>v. mapMergedToolToCommand ''browser_wait_for'' (Some [(''condition'', JStr v)]))
     (map fst [(''url'', ''wait_for_url''), (''load_state'', ''wait_for_load_state''), (''function'', ''wait_for_function''), (''download'', ''wait_for_download'')]))"
  by (simp add: map_wait_for with_args_def tool_defs get_simps argv_def to_property_key_def table_lookup_def findByActionMap_def getActionMap_def stateActionMap_def storageActionMap_def waitForActionMap_def set_computed_def index_or_zero_def copy_fields_def copy_if_defined_def Let_def)

lemma lit_wait_for:
  "set (branch_literals ''browser_wait_for'') \<subseteq> set (map fst [(''url'', ''wait_for_url''), (''load_state'', ''wait_for_load_state''), (''function'', ''wait_for_function''), (''download'', ''wait_for_download'')])"
  by (simp add: branch_literals_def compared_literals_def findByActionMap_def getActionMap_def stateActionMap_def storageActionMap_def waitForActionMap_def)

lemma np_wait_for:
  "set (map fst [(''url'', ''wait_for_url''), (''load_state'', ''wait_for_load_state''), (''function'', ''wait_for_function''), (''download'', ''wait_for_download'')]) \<inter> set object_prototype_keys = {}"
  by (simp add: object_prototype_keys_def)

lemma one_wait_for:
  "''browser_wait_for'' \<notin> set passthrough_tools \<longrightarrow>
     length (filter (\<lambda>v. v \<notin> set (branch_literals ''browser_wait_for'')) (map fst [(''url'', ''wait_for_url''), (''load_state'', ''wait_for_load_state''), (''function'', ''wait_for_function''), (''download'', ''wait_for_download'')])) \<le> 1"
  by (simp add: blit_wait_for findByActionMap_def getActionMap_def stateActionMap_def storageActionMap_def waitForActionMap_def)

lemma corr_wait_for: "corresponds ''browser_wait_for'' ''condition''"
proof (rule correspondence_from_table [OF _ _ disc_wait_for _ emit_wait_for _ res_wait_for dist_wait_for lit_wait_for np_wait_for one_wait_for])
  show "''browser_wait_for'' \<notin> set spread_tools" by (simp add: spread_tools_def)
  show "''browser_wait_for'' \<noteq> ''browser_find''" by simp
  show "schema_enum ''browser_wait_for'' ''condition'' = map fst [(''url'', ''wait_for_url''), (''load_state'', ''wait_for_load_state''), (''function'', ''wait_for_function''), (''download'', ''wait_for_download'')]"
    by (simp add: enum_wait_for)
  show "[(''url'', ''wait_for_url''), (''load_state'', ''wait_for_load_state''), (''function'', ''wait_for_function''), (''download'', ''wait_for_download'')] \<noteq> []" by simp
qed

lemma corrd_wait_for: "\<forall>d. discriminant_of ''browser_wait_for'' = Some d \<longrightarrow> corresponds ''browser_wait_for'' d"
  using corr_wait_for by (simp add: disc_wait_for)

lemma enum_clipboard: "schema_enum ''browser_clipboard'' ''action'' = [''copy'', ''paste'', ''read'']"
  by (simp add: schema_enum_def MERGED_TOOLS_def)

lemma emit_clipboard:
  "emitted_actions ''browser_clipboard'' = [(''copy'', ''clipboard''), (''paste'', ''clipboard''), (''read'', ''clipboard'')]"
  by (simp add: emitted_actions_def named_actions_def findByActionMap_def getActionMap_def stateActionMap_def storageActionMap_def waitForActionMap_def)

lemma res_clipboard:
  "list_all (\<lambda>(v, s). resolved_action ''browser_clipboard'' ''action'' v = Some (str s))
     [(''copy'', ''clipboard''), (''paste'', ''clipboard''), (''read'', ''clipboard'')]"
  by (simp add: resolved_action_def map_clipboard with_args_def tool_defs get_simps argv_def to_property_key_def table_lookup_def findByActionMap_def getActionMap_def stateActionMap_def storageActionMap_def waitForActionMap_def set_computed_def index_or_zero_def copy_fields_def copy_if_defined_def Let_def)

lemma dist_clipboard:
  "distinct (map (\<lambda>v. mapMergedToolToCommand ''browser_clipboard'' (Some [(''action'', JStr v)]))
     (map fst [(''copy'', ''clipboard''), (''paste'', ''clipboard''), (''read'', ''clipboard'')]))"
  by (simp add: map_clipboard with_args_def tool_defs get_simps argv_def to_property_key_def table_lookup_def findByActionMap_def getActionMap_def stateActionMap_def storageActionMap_def waitForActionMap_def set_computed_def index_or_zero_def copy_fields_def copy_if_defined_def Let_def)

lemma lit_clipboard:
  "set (branch_literals ''browser_clipboard'') \<subseteq> set (map fst [(''copy'', ''clipboard''), (''paste'', ''clipboard''), (''read'', ''clipboard'')])"
  by (simp add: branch_literals_def compared_literals_def findByActionMap_def getActionMap_def stateActionMap_def storageActionMap_def waitForActionMap_def)

lemma np_clipboard:
  "set (map fst [(''copy'', ''clipboard''), (''paste'', ''clipboard''), (''read'', ''clipboard'')]) \<inter> set object_prototype_keys = {}"
  by (simp add: object_prototype_keys_def)

lemma one_clipboard:
  "''browser_clipboard'' \<notin> set passthrough_tools \<longrightarrow>
     length (filter (\<lambda>v. v \<notin> set (branch_literals ''browser_clipboard'')) (map fst [(''copy'', ''clipboard''), (''paste'', ''clipboard''), (''read'', ''clipboard'')])) \<le> 1"
  by (simp add: passthrough_tools_def)

lemma corr_clipboard: "corresponds ''browser_clipboard'' ''action''"
proof (rule correspondence_from_table [OF _ _ disc_clipboard _ emit_clipboard _ res_clipboard dist_clipboard lit_clipboard np_clipboard one_clipboard])
  show "''browser_clipboard'' \<notin> set spread_tools" by (simp add: spread_tools_def)
  show "''browser_clipboard'' \<noteq> ''browser_find''" by simp
  show "schema_enum ''browser_clipboard'' ''action'' = map fst [(''copy'', ''clipboard''), (''paste'', ''clipboard''), (''read'', ''clipboard'')]"
    by (simp add: enum_clipboard)
  show "[(''copy'', ''clipboard''), (''paste'', ''clipboard''), (''read'', ''clipboard'')] \<noteq> []" by simp
qed

lemma corrd_clipboard: "\<forall>d. discriminant_of ''browser_clipboard'' = Some d \<longrightarrow> corresponds ''browser_clipboard'' d"
  using corr_clipboard by (simp add: disc_clipboard)

lemma corrd_upload: "\<forall>d. discriminant_of ''browser_upload'' = Some d \<longrightarrow> corresponds ''browser_upload'' d"
  by (simp add: disc_upload)

lemma corrd_drag: "\<forall>d. discriminant_of ''browser_drag'' = Some d \<longrightarrow> corresponds ''browser_drag'' d"
  by (simp add: disc_drag)

lemma corrd_multiselect: "\<forall>d. discriminant_of ''browser_multiselect'' = Some d \<longrightarrow> corresponds ''browser_multiselect'' d"
  by (simp add: disc_multiselect)

lemma corrd_set_value: "\<forall>d. discriminant_of ''browser_set_value'' = Some d \<longrightarrow> corresponds ''browser_set_value'' d"
  by (simp add: disc_set_value)

lemma corrd_ios_device_list: "\<forall>d. discriminant_of ''browser_ios_device_list'' = Some d \<longrightarrow> corresponds ''browser_ios_device_list'' d"
  by (simp add: disc_ios_device_list)

lemma corrd_ios_swipe: "\<forall>d. discriminant_of ''browser_ios_swipe'' = Some d \<longrightarrow> corresponds ''browser_ios_swipe'' d"
  by (simp add: disc_ios_swipe)

lemmas corrd_tool = corrd_launch corrd_navigate corrd_snapshot corrd_screenshot corrd_close corrd_history corrd_page_info corrd_element_action corrd_input corrd_input_action corrd_select corrd_press corrd_scroll corrd_find corrd_get corrd_check_state corrd_storage corrd_cookies corrd_state corrd_set_context corrd_dialog corrd_mouse corrd_keyboard_raw corrd_network corrd_response_body corrd_evaluate corrd_set_content corrd_add_script corrd_add_style corrd_add_init_script corrd_dispatch_event corrd_logs corrd_highlight corrd_styles corrd_screencast corrd_trace corrd_recording corrd_har corrd_tab corrd_window corrd_frame corrd_pdf corrd_download corrd_wait corrd_wait_for corrd_clipboard corrd_upload corrd_drag corrd_multiselect corrd_set_value corrd_ios_device_list corrd_ios_swipe

text \<open>
  C9 (as amended). For every tool of the registry whose case selects the action from a
  discriminant argument: the values with a named action are exactly the values of the
  schema's enum; every declared value, in any argument bag (for \<open>browser_find\<close>: one without
  an \<open>action\<close>), is mapped to a command with the action named for it, and two different
  declared values to different commands; every literal the branches of the case compare the
  discriminant with, and every key of its lookup table, is a declared value. A declared
  value is among those literals, or is copied onto the command, or is mapped exactly as
  every string without a literal is: it is the value of the final \<open>else\<close>, and a case
  that does not copy the discriminant has at most one such value.
\<close>

theorem declared_values_resolution:
  assumes "name \<in> set (map tool_name MERGED_TOOLS)" and "discriminant_of name = Some d"
  shows "map fst (emitted_actions name) = schema_enum name d
       \<and> schema_enum name d \<noteq> []
       \<and> (\<forall>(v, s) \<in> set (emitted_actions name). \<forall>a.
             map_of a d = Some (JStr v) \<and> (name = ''browser_find'' \<longrightarrow> map_of a ''action'' = None) \<longrightarrow>
             (\<exists>cmd. mapMergedToolToCommand name (Some a) = Inr cmd \<and> get cmd ''action'' = str s))
       \<and> distinct (map (\<lambda>v. mapMergedToolToCommand name (Some [(d, JStr v)])) (schema_enum name d))
       \<and> set (branch_literals name) \<subseteq> set (schema_enum name d)
       \<and> (\<forall>v \<in> set (schema_enum name d).
             v \<in> set (branch_literals name) \<or> name \<in> set passthrough_tools \<or>
             (\<forall>u a. u \<notin> set (branch_literals name) \<and> u \<notin> set object_prototype_keys \<longrightarrow>
                mapMergedToolToCommand name (Some (AList.update d (JStr u) a))
                  = mapMergedToolToCommand name (Some (AList.update d (JStr v) a))))
       \<and> (name \<notin> set passthrough_tools \<longrightarrow>
             length (filter (\<lambda>v. v \<notin> set (branch_literals name)) (schema_enum name d)) \<le> 1)"
proof -
  have "\<forall>d. discriminant_of name = Some d \<longrightarrow> corresponds name d"
    by (rule registered_cases [OF assms(1)]) (rule corrd_tool)+
  then have "corresponds name d" using assms(2) by blast
  then show ?thesis unfolding corresponds_def .
qed

theorem declared_values_resolution_witness:
  "''browser_get'' \<in> set (map tool_name MERGED_TOOLS)
   \<and> discriminant_of ''browser_get'' = Some ''property''
   \<and> (''html'', ''content'') \<in> set (emitted_actions ''browser_get'')
   \<and> (\<exists>cmd. mapMergedToolToCommand ''browser_get''
              (Some [(''property'', JStr ''html''), (''selector'', JStr ''#main'')]) = Inr cmd
            \<and> get cmd ''action'' = str ''content'')
   \<and> map fst (emitted_actions ''browser_get'') = schema_enum ''browser_get'' ''property''
   \<and> set (branch_literals ''browser_get'') \<subseteq> set (schema_enum ''browser_get'' ''property'')"
proof -
  let ?a = "[(''property'', JStr ''html''), (''selector'', JStr ''#main'')]"
  have r: "''browser_get'' \<in> set (map tool_name MERGED_TOOLS)"
    unfolding registry_names by simp
  have h: "(''html'', ''content'') \<in> set (emitted_actions ''browser_get'')"
    by (simp add: emit_get)
  have a: "map_of ?a ''property'' = Some (JStr ''html'')
           \<and> (''browser_get'' = ''browser_find'' \<longrightarrow> map_of ?a ''action'' = None)"
    by simp
  note t = declared_values_resolution [OF r disc_get]
  from t have "\<forall>(v, s) \<in> set (emitted_actions ''browser_get''). \<forall>a.
      map_of a ''property'' = Some (JStr v) \<and>
      (''browser_get'' = ''browser_find'' \<longrightarrow> map_of a ''action'' = None) \<longrightarrow>
      (\<exists>cmd. mapMergedToolToCommand ''browser_get'' (Some a) = Inr cmd \<and> get cmd ''action'' = str s)"
    by blast
  from bspec [OF this h] a
  have e: "\<exists>cmd. mapMergedToolToCommand ''browser_get'' (Some ?a) = Inr cmd
             \<and> get cmd ''action'' = str ''content''"
    by simp
  have m: "map fst (emitted_actions ''browser_get'') = schema_enum ''browser_get'' ''property''"
    using t by blast
  have l: "set (branch_literals ''browser_get'') \<subseteq> set (schema_enum ''browser_get'' ''property'')"
    using t by blast
  show ?thesis using r disc_get h e m l by blast
qed

text \<open>
  A declared value without a branch of its own: \<open>title\<close> is declared for the \<open>info\<close> of
  \<open>browser_page_info\<close>, the case compares \<open>info\<close> with \<open>url\<close> only, and \<open>title\<close> is
  mapped by the \<open>else\<close> that maps the undeclared \<open>bogus\<close> to the same command.
\<close>

theorem declared_value_by_default_counterexample:
  "''title'' \<in> set (schema_enum ''browser_page_info'' ''info'')
   \<and> ''bogus'' \<notin> set (schema_enum ''browser_page_info'' ''info'')
   \<and> branch_literals ''browser_page_info'' = [''url'']
   \<and> mapMergedToolToCommand ''browser_page_info'' (Some [(''info'', JStr ''title'')])
       = Inr [(''action'', str ''title'')]
   \<and> mapMergedToolToCommand ''browser_page_info'' (Some [(''info'', JStr ''bogus'')])
       = Inr [(''action'', str ''title'')]"
  by (simp add: enum_page_info blit_page_info map_page_info with_args_def tool_page_info_def)

subsection \<open>The media sentinel and unknown names\<close>

text \<open>
  C3. The merged context tool, called with \<open>{setting: "media", colorScheme: "null"}\<close>,
  copies the string \<open>"null"\<close> into the command: the command's \<open>colorScheme\<close> is that
  string, not the literal \<open>null\<close>. The unmerged handler's \<open>browser_emulate_media\<close>, on the
  same \<open>colorScheme\<close>, does put the literal \<open>null\<close> into its command.
\<close>

theorem set_context_media_null_is_string:
  "mapMergedToolToCommand ''browser_set_context''
       (Some [(''setting'', JStr ''media''), (''colorScheme'', JStr ''null'')])
     = Inr [(''action'', str ''emulate_media''), (''colorScheme'', Val (JStr ''null''))]
   \<and> Val (JStr ''null'') \<noteq> Val JNull
   \<and> get (unmerged_emulate_media ''id'' [(''colorScheme'', JStr ''null'')]) ''colorScheme'' = Val JNull"
  by (simp add: mapMergedToolToCommand_def with_args_def tool_set_context_def copy_fields_def
      copy_if_defined_def unmerged_emulate_media_def get_def)

text \<open>
  C6 (as amended). A call whose tool name is not in the registry is answered with
  \<open>isError: true\<close> and the single text \<open>Error: Unknown merged tool: <name>\<close>; nothing is
  executed and the process state is unchanged, whatever the arguments.
\<close>

theorem unknown_tool_is_error:
  assumes "name \<notin> set (map tool_name MERGED_TOOLS)"
  shows "callToolRequest d name args w =
           (\<lparr>content = [text_item (str (''Error: Unknown merged tool: '' @ name))], isError = True\<rparr>, w)"
  using mapper_throw_reaches_handler [OF unregistered_name_throws [OF assms]] by simp

theorem unknown_tool_is_error_witness:
  "''browser_click'' \<notin> set (map tool_name MERGED_TOOLS)
   \<and> callToolRequest sample_platform ''browser_click'' (Some [(''selector'', JStr ''@e2'')])
         (initial_world False)
       = (\<lparr>content = [text_item (str ''Error: Unknown merged tool: browser_click'')], isError = True\<rparr>,
          initial_world False)"
proof -
  have h: "''browser_click'' \<notin> set (map tool_name MERGED_TOOLS)"
    unfolding registry_names by simp
  show ?thesis
    using h unknown_tool_is_error [OF h, of sample_platform "Some [(''selector'', JStr ''@e2'')]" "initial_world False"]
    by simp
qed

text \<open>
  The text of that answer does not contain \<open>Unknown tool\<close>: the word \<open>merged\<close> stands
  between the two.
\<close>

theorem unknown_tool_text_counterexample:
  "''browser_click'' \<notin> set (map tool_name MERGED_TOOLS)
   \<and> fst (callToolRequest sample_platform ''browser_click'' None (initial_world False))
       = \<lparr>content = [text_item (str ''Error: Unknown merged tool: browser_click'')], isError = True\<rparr>
   \<and> \<not> sublist ''Unknown tool'' ''Error: Unknown merged tool: browser_click''"
proof -
  have h: "''browser_click'' \<notin> set (map tool_name MERGED_TOOLS)"
    unfolding registry_names by simp
  have "\<not> sublist ''Unknown tool'' ''Error: Unknown merged tool: browser_click''"
    by (simp add: sublist_Cons_right)
  then show ?thesis
    using h mapper_throw_reaches_handler [OF unregistered_name_throws [OF h], of sample_platform None "initial_world False"]
    by simp
qed

section \<open>Properties of the dispatcher\<close>

lemma get_spread_absent:
  "(case args of None \<Rightarrow> True | Some a \<Rightarrow> map_of a k = None) \<Longrightarrow> get (spread obj args) k = get obj k"
  by (cases args) (auto simp: spread_def get_def map_of_spread_other map_of_eq_None_iff)

lemma auto_launches_append [simp]: "auto_launches (xs @ ys) = auto_launches xs + auto_launches ys"
  by (simp add: auto_launches_def)

lemma auto_launches_simps [simp]:
  "auto_launches [] = 0"
  "auto_launches (Constructed a k # evs) = auto_launches evs"
  "auto_launches (CloseCalled a # evs) = auto_launches evs"
  "auto_launches (Executed a c # evs) = auto_launches evs"
  "auto_launches (AutoLaunch a opts # evs) = Suc (auto_launches evs)"
  by (simp_all add: auto_launches_def)

lemma getManager_auto_launches:
  "auto_launches (trace (snd (getManager d p w))) = auto_launches (trace w)"
  by (simp add: getManager_def new_manager_def call_close_def Let_def split: option.splits prod.splits)

lemma call_execute_auto_launches:
  "auto_launches (trace (snd (call_execute d c m w))) = auto_launches (trace w)"
  by (simp add: call_execute_def Let_def split: prod.splits)

lemma execute_exempt_auto_launches:
  assumes "launch_exempt (get command ''action'')"
  shows "auto_launches (trace (snd (execute d command w))) = auto_launches (trace w)"
proof -
  obtain m w1 where g: "getManager d (launchProvider command) w = (m, w1)"
    by (cases "getManager d (launchProvider command) w")
  obtain r w2 where c: "call_execute d command m w1 = (r, w2)"
    by (cases "call_execute d command m w1")
  have "snd (execute d command w) = w2"
    using assms g c
    by (simp add: execute_def try_execute_def auto_launch_def split: sum.splits response.splits)
  moreover have "auto_launches (trace w2) = auto_launches (trace w1)"
    using call_execute_auto_launches [of d command m w1] c by simp
  moreover have "auto_launches (trace w1) = auto_launches (trace w)"
    using getManager_auto_launches [of d "launchProvider command" w] g by simp
  ultimately show ?thesis by simp
qed

lemma exempt_tool_command:
  assumes "name = ''browser_ios_device_list'' \<or>
           ((name = ''browser_launch'' \<or> name = ''browser_close'') \<and>
            (case args of None \<Rightarrow> True | Some a \<Rightarrow> map_of a ''action'' = None))"
  shows "\<exists>cmd. mapMergedToolToCommand name args = Inr cmd \<and> launch_exempt (get cmd ''action'')"
proof -
  consider "name = ''browser_ios_device_list''"
    | "name = ''browser_launch''" "case args of None \<Rightarrow> True | Some a \<Rightarrow> map_of a ''action'' = None"
    | "name = ''browser_close''" "case args of None \<Rightarrow> True | Some a \<Rightarrow> map_of a ''action'' = None"
    using assms by blast
  then show ?thesis
  proof cases
    case 1
    then show ?thesis by (simp add: map_ios_device_list launch_exempt_def get_def)
  next
    case 2
    then show ?thesis by (simp add: map_launch launch_exempt_def get_spread_absent) (simp add: get_def)
  next
    case 3
    then show ?thesis by (simp add: map_close launch_exempt_def get_spread_absent) (simp add: get_def)
  qed
qed

lemma handleToolCall_ungated:
  assumes "mapMergedToolToCommand name args = Inr cmd"
    and "name = ''browser_launch'' \<or> name = ''browser_close'' \<or> name = ''browser_ios_device_list''"
  shows "snd (callToolRequest d name args w) =
           snd (execute d (AList.update ''id'' (str (random_ids w (draws w))) cmd) (w\<lparr>draws := Suc (draws w)\<rparr>))"
proof -
  have g: "(name \<noteq> ''browser_launch'' \<and> name \<noteq> ''browser_close'' \<and> name \<noteq> ''browser_ios_device_list'') = False"
    using assms(2) by blast
  show ?thesis
    unfolding callToolRequest_def handleToolCall_def generateId_def g
    using assms(1) by (simp split: prod.splits)
qed

lemma exempt_tool_auto_launches:
  assumes "name = ''browser_ios_device_list'' \<or>
           ((name = ''browser_launch'' \<or> name = ''browser_close'') \<and>
            (case args of None \<Rightarrow> True | Some a \<Rightarrow> map_of a ''action'' = None))"
  shows "auto_launches (trace (snd (callToolRequest d name args w))) = auto_launches (trace w)"
proof -
  obtain cmd where m: "mapMergedToolToCommand name args = Inr cmd"
    and e: "launch_exempt (get cmd ''action'')"
    using exempt_tool_command [OF assms] by blast
  have n: "name = ''browser_launch'' \<or> name = ''browser_close'' \<or> name = ''browser_ios_device_list''"
    using assms by blast
  let ?w0 = "w\<lparr>draws := Suc (draws w)\<rparr>"
  let ?c = "AList.update ''id'' (str (random_ids w (draws w))) cmd"
  have e': "launch_exempt (get ?c ''action'')"
    using e by (simp add: get_update)
  show ?thesis
    using execute_exempt_auto_launches [OF e', of d ?w0] handleToolCall_ungated [OF m n, of d w] by simp
qed


text \<open>
  C1. \<open>execute\<close> always returns a response: the rejection of the old manager's
  \<open>close()\<close> is dropped inside \<open>getManager\<close>, and everything after it runs inside the
  \<open>try\<close>. Whenever the automatic launch throws, the executor throws, the executor
  reports a failure, or building the success response throws, the response is the single
  text item \<open>Error: <message>\<close>, with the thrown error's message or the executor's error
  string.
\<close>

theorem execute_error_shape:
  assumes "getManager d (launchProvider command) w = (m, w1)"
    and "auto_launch d command m w1 = (l, w2)"
    and "call_execute d command m w2 = (r, w3)"
  shows "(\<forall>e. l = Some e \<longrightarrow>
            execute d command w =
              (\<lparr>content = [\<lparr>item_type = ''text'', item_text = str (''Error: '' @ message e)\<rparr>], isError = False\<rparr>, w2))
       \<and> (\<forall>e. l = None \<and> r = Inl e \<longrightarrow>
            execute d command w =
              (\<lparr>content = [\<lparr>item_type = ''text'', item_text = str (''Error: '' @ message e)\<rparr>], isError = False\<rparr>, w3))
       \<and> (\<forall>err. l = None \<and> r = Inr (Failure err) \<longrightarrow>
            execute d command w =
              (\<lparr>content = [\<lparr>item_type = ''text'', item_text = str (''Error: '' @ err)\<rparr>], isError = False\<rparr>, w3))
       \<and> (\<forall>data e. l = None \<and> r = Inr (Success data) \<and> success_response d command data = Inl e \<longrightarrow>
            execute d command w =
              (\<lparr>content = [\<lparr>item_type = ''text'', item_text = str (''Error: '' @ message e)\<rparr>], isError = False\<rparr>, w3))"
  using assms by (auto simp: execute_def try_execute_def error_text_def text_item_def)

theorem execute_error_shape_witness:
  "fst (execute sample_platform [(''action'', str ''video_stop'')] (initial_world False))
     = \<lparr>content = [\<lparr>item_type = ''text'', item_text = str ''Error: Browser not launched''\<rparr>], isError = False\<rparr>
   \<and> fst (execute sample_platform [(''selector'', str ''#main'')] (initial_world False))
     = \<lparr>content = [\<lparr>item_type = ''text'', item_text = str ''Error: Unknown action''\<rparr>], isError = False\<rparr>"
proof -
  let ?c = "[(''action'', str ''video_stop'')]"
  let ?c' = "[(''selector'', str ''#main'')]"
  let ?w1 = "snd (getManager sample_platform Undefined (initial_world False))"
  have g: "getManager sample_platform (launchProvider ?c) (initial_world False) = ((0, BrowserManager), ?w1)"
    by (simp add: launchProvider_def get_def getManager_def initial_world_def new_manager_def
        isIOSProvider_def env_val_def)
  have a: "auto_launch sample_platform ?c (0, BrowserManager) ?w1 = (None, ?w1)"
    by (simp add: auto_launch_def launch_exempt_def get_def)
  have x: "call_execute sample_platform ?c (0, BrowserManager) ?w1
             = (Inr (Failure ''Browser not launched''), snd (call_execute sample_platform ?c (0, BrowserManager) ?w1))"
    by (simp add: call_execute_def sample_platform_def sample_execute_def get_def getManager_def
        initial_world_def new_manager_def isIOSProvider_def env_val_def)
  have g': "getManager sample_platform (launchProvider ?c') (initial_world False) = ((0, BrowserManager), ?w1)"
    by (simp add: launchProvider_def get_def getManager_def initial_world_def new_manager_def
        isIOSProvider_def env_val_def)
  have a': "auto_launch sample_platform ?c' (0, BrowserManager) ?w1
             = (None, snd (auto_launch sample_platform ?c' (0, BrowserManager) ?w1))"
    by (simp add: auto_launch_def launch_exempt_def get_def ensureBrowserLaunched_def getManager_def
        initial_world_def new_manager_def isIOSProvider_def env_val_def sample_platform_def call_launch_def)
  have x': "call_execute sample_platform ?c' (0, BrowserManager) (snd (auto_launch sample_platform ?c' (0, BrowserManager) ?w1))
             = (Inl (Error ''Unknown action''),
                snd (call_execute sample_platform ?c' (0, BrowserManager) (snd (auto_launch sample_platform ?c' (0, BrowserManager) ?w1))))"
    by (simp add: call_execute_def sample_platform_def sample_execute_def get_def split: prod.splits)
  show ?thesis
    using execute_error_shape [OF g a x] execute_error_shape [OF g' a' x'] by simp
qed


text \<open>
  C2 (as amended). A command whose action is \<open>launch\<close>, \<open>close\<close>, \<open>device_list\<close>,
  \<open>video_start\<close> or \<open>video_stop\<close> goes through \<open>execute\<close> without an automatic launch.
  On the merged tool surface, a \<open>browser_ios_device_list\<close> call, and a \<open>browser_launch\<close>
  or \<open>browser_close\<close> call whose arguments have no \<open>action\<close> property, are handled
  without an automatic launch.
\<close>

theorem exempt_operations_launch_nothing:
  "(launch_exempt (get command ''action'') \<longrightarrow>
      auto_launches (trace (snd (execute d command w))) = auto_launches (trace w))
   \<and> (name = ''browser_ios_device_list'' \<or>
        ((name = ''browser_launch'' \<or> name = ''browser_close'') \<and>
         (case args of None \<Rightarrow> True | Some a \<Rightarrow> map_of a ''action'' = None)) \<longrightarrow>
      auto_launches (trace (snd (callToolRequest d name args w))) = auto_launches (trace w))"
  using execute_exempt_auto_launches exempt_tool_auto_launches by blast

theorem exempt_operations_launch_nothing_witness:
  "launch_exempt (get [(''action'', str ''video_start''), (''path'', str ''out.webm'')] ''action'')
   \<and> auto_launches (trace (snd (execute sample_platform
          [(''action'', str ''video_start''), (''path'', str ''out.webm'')] (initial_world False)))) = 0
   \<and> auto_launches (trace (snd (callToolRequest sample_platform ''browser_close'' (Some [])
          (initial_world False)))) = 0"
proof -
  have a: "launch_exempt (get [(''action'', str ''video_start''), (''path'', str ''out.webm'')] ''action'')"
    by (simp add: launch_exempt_def get_def)
  have b: "''browser_close'' = ''browser_ios_device_list'' \<or>
        ((''browser_close'' = ''browser_launch'' \<or> ''browser_close'' = ''browser_close'') \<and>
         (case Some [] of None \<Rightarrow> True | Some (a :: args) \<Rightarrow> map_of a ''action'' = None))"
    by simp
  have z: "auto_launches (trace (initial_world False :: bool world)) = 0"
    by (simp add: initial_world_def)
  note t = exempt_operations_launch_nothing
    [of "[(''action'', str ''video_start''), (''path'', str ''out.webm'')]" sample_platform
        "initial_world False" "''browser_close''" "Some []"]
  have c: "auto_launches (trace (snd (execute sample_platform
          [(''action'', str ''video_start''), (''path'', str ''out.webm'')] (initial_world False)))) = 0"
    using t a z by metis
  have e: "auto_launches (trace (snd (callToolRequest sample_platform ''browser_close'' (Some [])
          (initial_world False)))) = 0"
    using t b z by metis
  show ?thesis using a c e by blast
qed

text \<open>
  \<open>browser_recording\<close> is not among the names \<open>handleToolCall\<close> exempts, and its
  \<open>start\<close> maps to the action \<open>recording_start\<close>: on a fresh process the call launches
  the browser by itself. So does \<open>browser_close\<close> when the arguments carry an \<open>action\<close>
  that replaces \<open>close\<close>.
\<close>

theorem recording_start_launches_counterexample:
  "isLaunched sample_platform BrowserManager (new_state sample_platform BrowserManager) = False
   \<and> trace (snd (callToolRequest sample_platform ''browser_recording'' (Some [(''action'', JStr ''start'')])
         (initial_world False)))
     = [Constructed 0 BrowserManager,
        AutoLaunch 0 [(''id'', str ''mcp-launch''), (''action'', str ''launch''),
                      (''headless'', Val (JBool True)), (''executablePath'', Undefined),
                      (''provider'', Undefined)],
        Executed 0 [(''action'', str ''recording_start''), (''id'', str ''id'')]]
   \<and> trace (snd (callToolRequest sample_platform ''browser_close'' (Some [(''action'', JStr ''navigate'')])
         (initial_world False)))
     = [Constructed 0 BrowserManager,
        AutoLaunch 0 [(''id'', str ''mcp-launch''), (''action'', str ''launch''),
                      (''headless'', Val (JBool True)), (''executablePath'', Undefined),
                      (''provider'', Undefined)],
        Executed 0 [(''action'', str ''navigate''), (''id'', str ''id'')]]"
  by (simp add: callToolRequest_def handleToolCall_def mapMergedToolToCommand_def with_args_def
      tool_recording_def copy_fields_def copy_if_defined_def generateId_def initial_world_def
      ensureBrowserLaunched_def getManager_def new_manager_def isIOSProvider_def env_val_def
      sample_platform_def call_launch_def execute_def launchProvider_def get_def try_execute_def
      auto_launch_def call_execute_def sample_execute_def launch_exempt_def success_response_def
      ok_response_def stringify_val_def text_item_def spread_def)


lemma isIOSProvider_env: "env_provider w' = env_provider w \<Longrightarrow> isIOSProvider p w' = isIOSProvider p w"
  unfolding isIOSProvider_def by (erule ssubst) (rule refl)

lemma getManager_same_class:
  assumes "manager w = Some cur" and "isIOSProvider p w = (snd cur = IOSManager)"
  shows "getManager d p w = (cur, w)"
  using assms by (simp add: getManager_def)

lemma getManager_other_class:
  assumes "manager w = Some cur" and "isIOSProvider p w \<noteq> (snd cur = IOSManager)"
  shows "getManager d p w =
           ((next_addr w, if isIOSProvider p w then IOSManager else BrowserManager),
            w\<lparr>heap := (heap w)(fst cur := snd (close d (snd cur) (heap w (fst cur))),
                                 next_addr w := new_state d (if isIOSProvider p w then IOSManager else BrowserManager)),
              next_addr := Suc (next_addr w),
              manager := Some (next_addr w, if isIOSProvider p w then IOSManager else BrowserManager),
              trace := trace w @ [CloseCalled (fst cur),
                                  Constructed (next_addr w) (if isIOSProvider p w then IOSManager else BrowserManager)]\<rparr>)"
  using assms
  by (simp add: getManager_def call_close_def new_manager_def Let_def split: prod.splits)

text \<open>
  C4 (as amended). \<open>getManager\<close> compares only whether the request selects iOS (the
  requested provider, or \<open>AGENT_BROWSER_PROVIDER\<close> when none is requested, is \<open>ios\<close>)
  with whether the existing manager is an \<open>IOSManager\<close>. When they agree, the existing
  instance is returned and nothing changes. When they differ, \<open>close()\<close> is called on the
  old instance, its outcome is dropped, and a newly constructed instance of the other class
  at a fresh address is stored and returned; a later request selecting the original class
  gets another new instance, not the one torn down.
\<close>

theorem provider_switch_by_class:
  assumes "manager w = Some cur" and "fst cur < next_addr w"
  shows "(isIOSProvider p w = (snd cur = IOSManager) \<longrightarrow> getManager d p w = (cur, w))
       \<and> (isIOSProvider p w \<noteq> (snd cur = IOSManager) \<longrightarrow>
            fst (getManager d p w) = (next_addr w, if isIOSProvider p w then IOSManager else BrowserManager)
          \<and> fst (fst (getManager d p w)) \<noteq> fst cur
          \<and> manager (snd (getManager d p w)) = Some (fst (getManager d p w))
          \<and> heap (snd (getManager d p w)) (next_addr w)
              = new_state d (if isIOSProvider p w then IOSManager else BrowserManager)
          \<and> trace (snd (getManager d p w))
              = trace w @ [CloseCalled (fst cur),
                           Constructed (next_addr w) (if isIOSProvider p w then IOSManager else BrowserManager)]
          \<and> (\<forall>q. isIOSProvider q w = (snd cur = IOSManager) \<longrightarrow>
                 fst (getManager d q (snd (getManager d p w))) = (Suc (next_addr w), snd cur)
               \<and> fst (fst (getManager d q (snd (getManager d p w)))) \<noteq> fst cur))"
proof (intro conjI impI allI)
  assume "isIOSProvider p w = (snd cur = IOSManager)"
  then show "getManager d p w = (cur, w)"
    using assms(1) by (rule getManager_same_class [rotated])
next
  assume o: "isIOSProvider p w \<noteq> (snd cur = IOSManager)"
  note g = getManager_other_class [OF assms(1) o, of d]
  show "fst (getManager d p w) = (next_addr w, if isIOSProvider p w then IOSManager else BrowserManager)"
    by (simp add: g)
  show "fst (fst (getManager d p w)) \<noteq> fst cur"
    using assms(2) by (simp add: g)
  show "manager (snd (getManager d p w)) = Some (fst (getManager d p w))"
    by (simp add: g)
  show "heap (snd (getManager d p w)) (next_addr w)
          = new_state d (if isIOSProvider p w then IOSManager else BrowserManager)"
    by (simp add: g)
  show "trace (snd (getManager d p w))
          = trace w @ [CloseCalled (fst cur),
                       Constructed (next_addr w) (if isIOSProvider p w then IOSManager else BrowserManager)]"
    by (simp add: g)
  fix q
  assume q: "isIOSProvider q w = (snd cur = IOSManager)"
  let ?w' = "snd (getManager d p w)"
  let ?m' = "(next_addr w, if isIOSProvider p w then IOSManager else BrowserManager)"
  have m': "manager ?w' = Some ?m'" by (simp add: g)
  have e: "env_provider ?w' = env_provider w" by (simp add: g)
  have n: "next_addr ?w' = Suc (next_addr w)" by (simp add: g)
  have q': "isIOSProvider q ?w' \<noteq> (snd ?m' = IOSManager)"
    using q o by (simp add: isIOSProvider_env [OF e])
  have k: "(if isIOSProvider q ?w' then IOSManager else BrowserManager) = snd cur"
    using q by (cases "snd cur") (simp_all add: isIOSProvider_env [OF e])
  note g' = getManager_other_class [OF m' q', of d]
  show "fst (getManager d q ?w') = (Suc (next_addr w), snd cur)"
    by (simp add: g' n k)
  show "fst (fst (getManager d q ?w')) \<noteq> fst cur"
    using assms(2) by (simp add: g' n)
qed

theorem provider_switch_by_class_witness:
  "manager (snd (getManager sample_platform (str ''ios'') (initial_world False))) = Some (0, IOSManager)
   \<and> fst (getManager sample_platform (str ''ios'')
           (snd (getManager sample_platform (str ''ios'') (initial_world False)))) = (0, IOSManager)
   \<and> fst (getManager sample_platform (str ''kernel'')
           (snd (getManager sample_platform (str ''ios'') (initial_world False)))) = (1, BrowserManager)
   \<and> trace (snd (getManager sample_platform (str ''kernel'')
           (snd (getManager sample_platform (str ''ios'') (initial_world False)))))
       = [Constructed 0 IOSManager, CloseCalled 0, Constructed 1 BrowserManager]
   \<and> fst (getManager sample_platform (str ''ios'')
           (snd (getManager sample_platform (str ''kernel'')
              (snd (getManager sample_platform (str ''ios'') (initial_world False)))))) = (2, IOSManager)"
proof -
  let ?w = "snd (getManager sample_platform (str ''ios'') (initial_world False))"
  have w: "?w = (initial_world False)\<lparr>heap := (heap (initial_world False))(0 := False), next_addr := Suc 0,
                   trace := [Constructed 0 IOSManager], manager := Some (0, IOSManager)\<rparr>"
    by (simp add: getManager_def initial_world_def new_manager_def isIOSProvider_def sample_platform_def)
  have m: "manager ?w = Some (0, IOSManager)" by (simp add: w)
  have l: "fst (0 :: nat, IOSManager) < next_addr ?w" by (simp add: w)
  have same: "isIOSProvider (str ''ios'') ?w = (snd (0 :: nat, IOSManager) = IOSManager)"
    by (simp add: isIOSProvider_def)
  have other: "isIOSProvider (str ''kernel'') ?w \<noteq> (snd (0 :: nat, IOSManager) = IOSManager)"
    by (simp add: isIOSProvider_def)
  have k: "isIOSProvider (str ''kernel'') ?w = False" by (simp add: isIOSProvider_def)
  have tr: "trace ?w = [Constructed 0 IOSManager]" by (simp add: w)
  have nx: "next_addr ?w = 1" by (simp add: w)
  note t1 = provider_switch_by_class [OF m l, of "str ''ios''" sample_platform]
  note t2 = provider_switch_by_class [OF m l, of "str ''kernel''" sample_platform]
  have a: "fst (getManager sample_platform (str ''ios'') ?w) = (0, IOSManager)"
    using t1 same by simp
  have b: "fst (getManager sample_platform (str ''kernel'') ?w) = (1, BrowserManager)"
    using t2 other k nx by simp
  have c: "trace (snd (getManager sample_platform (str ''kernel'') ?w))
             = [Constructed 0 IOSManager, CloseCalled 0, Constructed 1 BrowserManager]"
    using t2 other k nx tr by simp
  have e: "fst (getManager sample_platform (str ''ios'') (snd (getManager sample_platform (str ''kernel'') ?w)))
             = (2, IOSManager)"
    using t2 other same nx by simp
  show ?thesis using m a b c e by blast
qed

text \<open>
  Two distinct providers that are both not \<open>ios\<close> share the instance: no teardown, no
  construction. And a request with no provider, with the environment variable unset,
  replaces an existing iOS manager.
\<close>

theorem provider_switch_counterexample:
  "''browserbase'' \<noteq> ''kernel''
   \<and> getManager sample_platform (str ''kernel'')
        (snd (getManager sample_platform (str ''browserbase'') (initial_world False)))
     = ((0, BrowserManager), snd (getManager sample_platform (str ''browserbase'') (initial_world False)))
   \<and> trace (snd (getManager sample_platform (str ''browserbase'') (initial_world False)))
     = [Constructed 0 BrowserManager]
   \<and> fst (getManager sample_platform (str ''ios'') (initial_world False)) = (0, IOSManager)
   \<and> env_provider (initial_world False :: bool world) = None
   \<and> fst (getManager sample_platform Undefined
           (snd (getManager sample_platform (str ''ios'') (initial_world False)))) = (1, BrowserManager)
   \<and> trace (snd (getManager sample_platform Undefined
           (snd (getManager sample_platform (str ''ios'') (initial_world False)))))
     = [Constructed 0 IOSManager, CloseCalled 0, Constructed 1 BrowserManager]"
  by (simp add: getManager_def initial_world_def new_manager_def isIOSProvider_def env_val_def
      sample_platform_def call_close_def)

text \<open>
  C7. After \<open>browser_close\<close> is handled, \<open>manager\<close> still refers to the instance that
  was closed, and the next \<open>browser_navigate\<close> launches that same instance again: no
  manager is constructed after the first.
\<close>

theorem close_keeps_manager_reference:
  "manager (handle_requests sample_platform
      [(''browser_navigate'', Some [(''url'', JStr ''https://example.com'')]),
       (''browser_close'', Some [])] (initial_world False)) = Some (0, BrowserManager)
   \<and> trace (handle_requests sample_platform
      [(''browser_navigate'', Some [(''url'', JStr ''https://example.com'')]),
       (''browser_close'', Some []),
       (''browser_navigate'', Some [(''url'', JStr ''https://example.com'')])] (initial_world False))
     = [Constructed 0 BrowserManager,
        AutoLaunch 0 [(''id'', str ''mcp-launch''), (''action'', str ''launch''),
                      (''headless'', Val (JBool True)), (''executablePath'', Undefined),
                      (''provider'', Undefined)],
        Executed 0 [(''action'', str ''navigate''), (''url'', str ''https://example.com''), (''id'', str ''id'')],
        Executed 0 [(''action'', str ''close''), (''id'', str ''id'')],
        AutoLaunch 0 [(''id'', str ''mcp-launch''), (''action'', str ''launch''),
                      (''headless'', Val (JBool True)), (''executablePath'', Undefined),
                      (''provider'', Undefined)],
        Executed 0 [(''action'', str ''navigate''), (''url'', str ''https://example.com''), (''id'', str ''id'')]]"
  by (simp add: handle_requests_def callToolRequest_def handleToolCall_def mapMergedToolToCommand_def
      generateId_def initial_world_def
      ensureBrowserLaunched_def getManager_def new_manager_def isIOSProvider_def env_val_def
      sample_platform_def call_launch_def execute_def launchProvider_def get_def try_execute_def
      auto_launch_def call_execute_def sample_execute_def launch_exempt_def success_response_def
      ok_response_def stringify_val_def text_item_def spread_def)


end
